(* ===== verification/Prelude.thy ===== *)
theory Prelude
  imports Main "HOL-Library.Word"
begin

text \<open>
  Shared vocabulary of the kernel model: the machine types (\<open>uint8_t\<close> and
  \<open>uint32_t\<close> as words), the one-hot bitmask helpers the C code writes inline
  (\<open>x |= 1 << i\<close>, \<open>x &= ~(1 << i)\<close>, \<open>CHECK_FLAG\<close>), the bounded string
  comparison of lib.c, and the generic lemmas on words and lists the component
  theories share.  The collection \<open>bitmask_simps\<close> gathers the rewrite rules
  that decide a bit of an updated mask.
\<close>

unbundle bit_operations_syntax

type_synonym u8 = "8 word"
type_synonym u16 = "16 word"
type_synonym u32 = "32 word"
type_synonym i32 = int

named_theorems bitmask_simps "rewrite rules deciding bits of one-hot masks"

section \<open>One-hot masks\<close>

text \<open>\<open>CHECK_FLAG(flags, bit)\<close> of lib.h: the bit is tested by masking with \<open>1 << bit\<close>.\<close>

definition CHECK_FLAG :: "'a::len word \<Rightarrow> nat \<Rightarrow> bool" where
  "CHECK_FLAG w i \<longleftrightarrow> (w AND push_bit i 1) \<noteq> 0"

abbreviation mask_set :: "'a::len word \<Rightarrow> nat \<Rightarrow> 'a word" where
  "mask_set w i \<equiv> w OR push_bit i 1"

abbreviation mask_clear :: "'a::len word \<Rightarrow> nat \<Rightarrow> 'a word" where
  "mask_clear w i \<equiv> w AND NOT (push_bit i 1)"

section \<open>Bounded string comparison\<close>

text \<open>
  \<open>strncmp(a, b, n) == 0\<close> of lib.c on NUL-free strings: the first \<open>n\<close> characters agree.
  Strings are modelled as lists without the terminating NUL.
\<close>

definition strncmp_eq :: "nat \<Rightarrow> string \<Rightarrow> string \<Rightarrow> bool" where
  "strncmp_eq n a b \<longleftrightarrow> take n a = take n b"

section \<open>Generic lemmas\<close>

lemma CHECK_FLAG_bit [simp, bitmask_simps]: "CHECK_FLAG w i = bit w i"
  by (simp add: CHECK_FLAG_def bit_exp_iff and_exp_eq_0_iff_not_bit)

text \<open>The simplifier writes \<open>push_bit p 1\<close> as \<open>2 ^ p\<close>; the mask lemmas are stated so.\<close>

lemma bit_mask_set [simp, bitmask_simps]:
  "bit ((w::'a::len word) OR 2 ^ p) i \<longleftrightarrow> bit w i \<or> (i = p \<and> p < LENGTH('a))"
  by (auto simp: bit_or_iff bit_exp_iff)

lemma bit_mask_clear [simp, bitmask_simps]:
  "bit ((w::'a::len word) AND NOT (2 ^ p)) i \<longleftrightarrow> bit w i \<and> i \<noteq> p"
  by (auto simp: bit_and_iff bit_not_iff bit_exp_iff dest: bit_imp_possible_bit)

lemma mask_clear_set_same:
  "\<not> bit (w::'a::len word) p \<Longrightarrow> (w OR 2 ^ p) AND NOT (2 ^ p) = w"
  by (rule bit_word_eqI) (auto simp: bit_or_iff bit_and_iff bit_not_iff bit_exp_iff)

lemma mask_set_clear_same:
  "bit (w::'a::len word) p \<Longrightarrow> (w AND NOT (2 ^ p)) OR 2 ^ p = w"
  by (rule bit_word_eqI) (auto simp: bit_or_iff bit_and_iff bit_not_iff bit_exp_iff)

lemma mask_set_idem:
  "bit (w::'a::len word) p \<Longrightarrow> w OR 2 ^ p = w"
  by (rule bit_word_eqI) (auto simp: bit_or_iff bit_exp_iff)

lemma mask_clear_idem:
  "\<not> bit (w::'a::len word) p \<Longrightarrow> w AND NOT (2 ^ p) = w"
  by (rule bit_word_eqI) (auto simp: bit_and_iff bit_not_iff bit_exp_iff)

lemma bit_three: "bit (3::'a::len word) i \<longleftrightarrow> i < 2 \<and> i < LENGTH('a)"
proof -
  have "(3::'a word) = mask 2" by (simp add: mask_eq_exp_minus_1)
  then show ?thesis by (simp only: bit_mask_iff possible_bit_word) auto
qed

lemma bit_seven: "bit (7::'a::len word) i \<longleftrightarrow> i < 3 \<and> i < LENGTH('a)"
proof -
  have "(7::'a word) = mask 3" by (simp add: mask_eq_exp_minus_1)
  then show ?thesis by (simp only: bit_mask_iff possible_bit_word) auto
qed

lemma strncmp_eq_refl [simp]: "strncmp_eq n a a"
  by (simp add: strncmp_eq_def)

section \<open>Counter bits and powers of two on 32-bit words\<close>

lemma odd_div_flip:
  "odd (x div 2 ^ n) \<noteq> odd ((Suc x) div 2 ^ n) \<longleftrightarrow> Suc x mod 2 ^ n = 0"
proof -
  define q r where "q = x div 2 ^ n" and "r = x mod 2 ^ n"
  have x: "x = q * 2 ^ n + r" unfolding q_def r_def by (rule div_mult_mod_eq[symmetric])
  have r: "r < 2 ^ n" by (simp add: q_def r_def)
  show ?thesis
  proof (cases "Suc r = 2 ^ n")
    case True
    then have "Suc x = Suc q * 2 ^ n" using x by simp
    then show ?thesis by (simp add: q_def r_def)
  next
    case False
    with r have lt: "Suc r < 2 ^ n" by simp
    have "Suc x div 2 ^ n = q"
      by (rule div_nat_eqI) (use lt x in simp_all)
    moreover have "Suc x mod 2 ^ n = Suc r"
      by (rule mod_nat_eqI) (use lt x in simp_all)
    ultimately show ?thesis using lt by (simp add: q_def r_def)
  qed
qed

lemma bit_u32_odd: "bit (w::u32) n \<longleftrightarrow> odd (unat w div 2 ^ n)"
    using bit_iff_odd[of "unat w" n] by (simp add: bit_unsigned_iff)
lemma odd_mod_2_32: "n < 32 \<Longrightarrow> odd ((x::nat) mod 2 ^ 32 div 2 ^ n) \<longleftrightarrow> odd (x div 2 ^ n)"
  by (metis bit_iff_odd bit_take_bit_iff take_bit_eq_mod)
lemma mod_2_32_mod: "n \<le> 32 \<Longrightarrow> (x::nat) mod 2 ^ 32 mod 2 ^ n = x mod 2 ^ n"
  by (intro mod_mod_cancel le_imp_power_dvd)
lemma take_bit_u32_eq_0: "take_bit n (c::u32) = 0 \<longleftrightarrow> unat c mod 2 ^ n = 0"
  by (metis unat_eq_zero unsigned_take_bit_eq take_bit_eq_mod)
lemma bit_flip_iff:
  fixes c :: u32
  assumes "n < 32"
  shows "bit c n \<noteq> bit (c + 1) n \<longleftrightarrow> take_bit n (c + 1) = 0"
proof -
  let ?x = "unat c"
  have u: "unat (c + 1) = Suc ?x mod 2 ^ 32" by (simp add: unat_word_ariths)
  have b1: "bit (c + 1) n \<longleftrightarrow> odd (Suc ?x div 2 ^ n)"
  proof -
    have "bit (c + 1) n \<longleftrightarrow> odd (unat (c + 1) div 2 ^ n)" by (rule bit_u32_odd)
    also have "\<dots> \<longleftrightarrow> odd (Suc ?x mod 2 ^ 32 div 2 ^ n)" by (simp only: u)
    also have "\<dots> \<longleftrightarrow> odd (Suc ?x div 2 ^ n)" by (rule odd_mod_2_32[OF assms])
    finally show ?thesis .
  qed
  have b2: "take_bit n (c + 1) = 0 \<longleftrightarrow> Suc ?x mod 2 ^ n = 0"
  proof -
    have "take_bit n (c + 1) = 0 \<longleftrightarrow> unat (c + 1) mod 2 ^ n = 0" by (rule take_bit_u32_eq_0)
    also have "\<dots> \<longleftrightarrow> Suc ?x mod 2 ^ 32 mod 2 ^ n = 0" by (simp only: u)
    also have "\<dots> \<longleftrightarrow> Suc ?x mod 2 ^ n = 0" using assms by (simp only: mod_2_32_mod)
    finally show ?thesis .
  qed
  show ?thesis using odd_div_flip[of ?x n] b1 b2 bit_u32_odd[of c n] by simp
qed

lemma and_pred_eq_0_pow2:
  fixes x :: nat
  shows "0 < x \<Longrightarrow> x AND (x - 1) = 0 \<Longrightarrow> \<exists>k. x = 2 ^ k"
proof (induction x rule: less_induct)
  case (less x)
  show ?case
  proof (cases "even x")
    case True
    then obtain y where y: "x = 2 * y" by blast
    with less.prems have y0: "0 < y" by simp
    have "(x - 1) div 2 = y - 1" using y y0 by simp
    moreover have "odd (x - 1)" using y y0 by simp
    ultimately have "x AND (x - 1) = 2 * (y AND (y - 1))"
      using y by (subst and_rec) simp
    with less.prems have "y AND (y - 1) = 0" by simp
    with less.IH[of y] y y0 obtain k where "y = 2 ^ k" by auto
    with y show ?thesis by (metis power_Suc)
  next
    case False
    then obtain y where y: "x = 2 * y + 1" by (metis oddE)
    show ?thesis
    proof (cases "y = 0")
      case True with y show ?thesis by (metis power_0 mult_0_right add_0)
    next
      case False
      have "x AND (x - 1) = 2 * (y AND y)" using y by (subst and_rec) simp
      with less.prems False show ?thesis by simp
    qed
  qed
qed

lemma unat_pow2: "n < 32 \<Longrightarrow> unat ((2::u32) ^ n) = 2 ^ n"
proof -
  assume n: "n < 32"
  have e: "(of_nat (2 ^ n) :: u32) = 2 ^ n" by simp
  have lt: "(2::nat) ^ n < 2 ^ 32" using power_strict_increasing[of n 32 "2::nat"] n by simp
  have "unat (of_nat (2 ^ n) :: u32) = 2 ^ n"
    using lt n by (simp only: unsigned_of_nat take_bit_nat_eq_self_iff len_of_numeral_defs) simp
  then show ?thesis by (simp only: e)
qed
lemma drop_bit_pow2: "Suc n < 32 \<Longrightarrow> drop_bit 1 ((2::u32) ^ Suc n) = 2 ^ n"
proof -
  assume n: "Suc n < 32"
  have "unat (drop_bit 1 ((2::u32) ^ Suc n)) = drop_bit 1 (unat ((2::u32) ^ Suc n))" by (rule unat_drop_bit_eq)
  also have "\<dots> = drop_bit 1 (2 ^ Suc n)" using n by (simp only: unat_pow2)
  also have "\<dots> = 2 ^ n" by (simp add: drop_bit_eq_div)
  also have "\<dots> = unat ((2::u32) ^ n)" using n by (simp add: unat_pow2)
  finally show ?thesis by (simp only: word_unat_eq_iff)
qed
lemma mask_Suc_or: "(mask (Suc k) :: 'a::len word) = mask k OR 2 ^ k"
  by (rule bit_word_eqI) (auto simp: bit_mask_iff bit_or_iff bit_exp_iff less_Suc_eq)

lemma list_all_update_ok: "list_all P xs \<Longrightarrow> (i < length xs \<Longrightarrow> P x) \<Longrightarrow> list_all P (xs[i := x])"
  by (cases "i < length xs") (auto simp: list_all_length nth_list_update)

lemma map_update_same: "(i < length xs \<Longrightarrow> g x = g (xs ! i)) \<Longrightarrow> map g (xs[i := x]) = map g xs"
proof (rule nth_equalityI)
  fix j assume "i < length xs \<Longrightarrow> g x = g (xs ! i)" "j < length (map g (xs[i := x]))"
  then show "map g (xs[i := x]) ! j = map g xs ! j" by (cases "i = j") simp_all
qed simp

lemma u8_eq_by_bits: "list_all (\<lambda>i. bit a i = bit b i) [0..<8] \<Longrightarrow> (a::u8) = b"
  by (rule bit_word_eqI) (simp add: list_all_iff)

lemma bit_FF_u8: "bit (0xFF::u8) i \<longleftrightarrow> i < 8"
proof -
  have "(0xFF::u8) = mask 8" by (simp add: mask_eq_exp_minus_1)
  then show ?thesis by (simp only: bit_mask_iff) simp
qed

end
