(* ===== verification/Paging.thy ===== *)
theory Paging
  imports Prelude
begin

text \<open>
  The address space manager of page.c: the memory-layout constants of page.h,
  the page-directory and page-table entries written by the macros
  \<open>SET_4KB_PD_ENTRY\<close>, \<open>SET_4MB_PD_ENTRY\<close> and \<open>SET_PT_ENTRY\<close> of x86_desc.h,
  and the three operations \<open>init_Paging\<close>, \<open>set_user_page\<close> and
  \<open>set_video_mem_page\<close>.  The state is the current tables (\<open>cur\<close>) and the
  tables the translation cache last loaded (\<open>tlb\<close>): \<open>flush_tlb\<close> reloads the
  cache, and the hardware walk translates through the cache, so a rebinding
  without a flush is visible as a stale translation.  The lemmas show where
  each operation maps the user window (128MB to 132MB virtual) and the user
  video page (0x08401000), that distinct pids get disjoint physical frames,
  and that a write through the window bound to one pid is never seen through
  the window bound to another.
\<close>

section \<open>Layout constants (page.h)\<close>

definition SIZE_4KB :: u32 where "SIZE_4KB = 0x1000"
definition SIZE_4MB :: u32 where "SIZE_4MB = 0x400000"
definition VMEM_BASE_ADDR :: u32 where "VMEM_BASE_ADDR = 0xB8000"
definition KERNEL_MEM_BASE_ADDR :: u32 where "KERNEL_MEM_BASE_ADDR = 0x400000"
definition USER_MEM_BASE_ADDR :: u32 where "USER_MEM_BASE_ADDR = 0x800000"
definition VIRTUAL_USER_BASE_ADDR :: u32 where "VIRTUAL_USER_BASE_ADDR = 0x08000000"
definition VIRTUAL_VMEM_BASE_ADDR :: u32 where "VIRTUAL_VMEM_BASE_ADDR = 0x08401000"
definition USER_MEM_PD_ENTRY :: nat where "USER_MEM_PD_ENTRY = 32"

lemmas layout_defs = SIZE_4KB_def SIZE_4MB_def VMEM_BASE_ADDR_def KERNEL_MEM_BASE_ADDR_def
  USER_MEM_BASE_ADDR_def VIRTUAL_USER_BASE_ADDR_def VIRTUAL_VMEM_BASE_ADDR_def
  USER_MEM_PD_ENTRY_def

section \<open>Entries and tables (x86_desc.h)\<close>

text \<open>
  The two page tables of page.c are named, not addressed: a 4KB directory entry
  refers to \<open>page_table\<close> or \<open>user_page_table\<close>.  A 4MB entry holds the frame
  base, the address masked to 4MB as \<open>SET_4MB_PD_ENTRY\<close> does.  The privilege
  argument \<open>PAGE_UNPRIVILEGED\<close> is \<open>True\<close> in the \<open>user\<close> field.
\<close>

datatype table_id = Kernel_PT | User_PT

datatype pd_target = PT_Ref table_id | Page_4MB u32

record pde =
  pde_present :: bool
  pde_rw :: bool
  pde_user :: bool
  pde_target :: pd_target

record pte =
  pte_present :: bool
  pte_rw :: bool
  pte_user :: bool
  pte_base :: u32

record tables =
  page_dir :: "nat \<Rightarrow> pde"
  page_table :: "nat \<Rightarrow> pte"
  user_page_table :: "nat \<Rightarrow> pte"

record mmu =
  cur :: tables
  tlb :: tables

definition SET_4KB_PD_ENTRY :: "table_id \<Rightarrow> bool \<Rightarrow> bool \<Rightarrow> bool \<Rightarrow> pde" where
  "SET_4KB_PD_ENTRY t priv rw pres =
     \<lparr>pde_present = pres, pde_rw = rw, pde_user = priv, pde_target = PT_Ref t\<rparr>"

definition SET_4MB_PD_ENTRY :: "u32 \<Rightarrow> bool \<Rightarrow> bool \<Rightarrow> bool \<Rightarrow> pde" where
  "SET_4MB_PD_ENTRY addr priv rw pres =
     \<lparr>pde_present = pres, pde_rw = rw, pde_user = priv,
      pde_target = Page_4MB (addr AND 0xFFC00000)\<rparr>"

definition SET_PT_ENTRY :: "u32 \<Rightarrow> bool \<Rightarrow> bool \<Rightarrow> bool \<Rightarrow> pte" where
  "SET_PT_ENTRY addr priv rw pres =
     \<lparr>pte_present = pres, pte_rw = rw, pte_user = priv, pte_base = addr AND 0xFFFFF000\<rparr>"

text \<open>The all-zero entry of the directory as x86_desc.S reserves it: not present.\<close>

definition zero_pde :: pde where
  "zero_pde = \<lparr>pde_present = False, pde_rw = False, pde_user = False, pde_target = PT_Ref Kernel_PT\<rparr>"

text \<open>\<open>flush_tlb\<close> of page_asm.S reloads CR3: the cache holds the current tables.\<close>

definition flush_tlb :: "mmu \<Rightarrow> mmu" where
  "flush_tlb m = m\<lparr>tlb := cur m\<rparr>"

section \<open>Operations (page.c)\<close>

definition init_Paging :: mmu where
  "init_Paging =
     (let pt0 = (\<lambda>i. SET_PT_ENTRY (SIZE_4KB * of_nat i) True True False);
          pt1 = pt0(unat (drop_bit 12 VMEM_BASE_ADDR) := SET_PT_ENTRY VMEM_BASE_ADDR False True True);
          pt = (\<lambda>i. if unat (drop_bit 12 VMEM_BASE_ADDR) < i \<and> i \<le> unat (drop_bit 12 VMEM_BASE_ADDR) + 3
                   then SET_PT_ENTRY (VMEM_BASE_ADDR + of_nat (i - unat (drop_bit 12 VMEM_BASE_ADDR)) * SIZE_4KB)
                          False True True
                   else pt1 i);
          pd = (\<lambda>_. zero_pde)(0 := SET_4KB_PD_ENTRY Kernel_PT False True True,
                              1 := SET_4MB_PD_ENTRY KERNEL_MEM_BASE_ADDR False True True);
          t = \<lparr>page_dir = pd, page_table = pt, user_page_table = (\<lambda>_. SET_PT_ENTRY 0 False False False)\<rparr>
      in \<lparr>cur = t, tlb = t\<rparr>)"

definition set_user_page :: "nat \<Rightarrow> mmu \<Rightarrow> mmu" where
  "set_user_page pid m =
     flush_tlb (m\<lparr>cur := (cur m)\<lparr>page_dir := (page_dir (cur m))(USER_MEM_PD_ENTRY :=
        SET_4MB_PD_ENTRY (USER_MEM_BASE_ADDR + of_nat pid * SIZE_4MB) True True True)\<rparr>\<rparr>)"

definition set_video_mem_page :: "nat \<Rightarrow> nat \<Rightarrow> u32 \<Rightarrow> mmu \<Rightarrow> mmu" where
  "set_video_mem_page TA_idx TS_idx present m =
     (let pres = (present AND 1 \<noteq> 0);
          pd = (page_dir (cur m))(USER_MEM_PD_ENTRY + 1 := SET_4KB_PD_ENTRY User_PT True True pres);
          target = (if TA_idx \<noteq> TS_idx then VMEM_BASE_ADDR + (of_nat TA_idx + 1) * SIZE_4KB
                    else VMEM_BASE_ADDR);
          upt = (user_page_table (cur m))(unat (drop_bit 12 VIRTUAL_VMEM_BASE_ADDR AND 0x3FF) :=
                   SET_PT_ENTRY target True True pres)
      in flush_tlb (m\<lparr>cur := (cur m)\<lparr>page_dir := pd, user_page_table := upt\<rparr>\<rparr>))"

section \<open>The hardware walk\<close>

text \<open>
  Two-level translation of x86 with 4MB pages, through the cached tables.
  \<open>usr\<close> is the privilege of the access: a user access needs the user bit on
  the directory entry and, for a 4KB page, on the table entry.
\<close>

fun pt_of :: "tables \<Rightarrow> table_id \<Rightarrow> nat \<Rightarrow> pte" where
  "pt_of t Kernel_PT = page_table t"
| "pt_of t User_PT = user_page_table t"

definition walk :: "tables \<Rightarrow> bool \<Rightarrow> u32 \<Rightarrow> u32 option" where
  "walk t usr va =
     (let e = page_dir t (unat (drop_bit 22 va)) in
      if \<not> pde_present e \<or> (usr \<and> \<not> pde_user e) then None
      else case pde_target e of
        Page_4MB b \<Rightarrow> Some (b + (va AND 0x3FFFFF))
      | PT_Ref tid \<Rightarrow>
          (let p = pt_of t tid (unat (drop_bit 12 va AND 0x3FF))
           in if \<not> pte_present p \<or> (usr \<and> \<not> pte_user p) then None
              else Some (pte_base p + (va AND 0xFFF))))"

definition translate :: "mmu \<Rightarrow> bool \<Rightarrow> u32 \<Rightarrow> u32 option" where
  "translate m usr va = walk (tlb m) usr va"

definition in_user_window :: "u32 \<Rightarrow> bool" where
  "in_user_window va \<longleftrightarrow> VIRTUAL_USER_BASE_ADDR \<le> va \<and> va < VIRTUAL_USER_BASE_ADDR + SIZE_4MB"

text \<open>The physical frame of a pid, as \<open>set_user_page\<close> computes its base.\<close>

definition user_frame :: "nat \<Rightarrow> u32" where
  "user_frame pid = USER_MEM_BASE_ADDR + of_nat pid * SIZE_4MB"

definition user_load :: "mmu \<Rightarrow> (u32 \<Rightarrow> u8) \<Rightarrow> u32 \<Rightarrow> u8 option" where
  "user_load m mem va = map_option mem (translate m True va)"

definition user_store :: "mmu \<Rightarrow> (u32 \<Rightarrow> u8) \<Rightarrow> u32 \<Rightarrow> u8 \<Rightarrow> (u32 \<Rightarrow> u8) option" where
  "user_store m mem va b = map_option (\<lambda>pa. mem(pa := b)) (translate m True va)"

section \<open>Address arithmetic\<close>

lemma window_bounds:
  "in_user_window va \<Longrightarrow> 0x08000000 \<le> unat va \<and> unat va < 0x08400000"
  by (auto simp: in_user_window_def layout_defs word_le_nat_alt word_less_nat_alt)
lemma window_pde_index:
  assumes "in_user_window va" shows "unat (drop_bit 22 va) = USER_MEM_PD_ENTRY"
proof -
  have "unat va div 2^22 = 32" using window_bounds[OF assms] by (simp add: div_nat_eqI)
  then show ?thesis by (simp add: unat_drop_bit_eq drop_bit_eq_div unat_div USER_MEM_PD_ENTRY_def)
qed
lemma unat_and_3FFFFF: "unat ((va::u32) AND 0x3FFFFF) = unat va mod 2^22"
proof -
  have "(va AND 0x3FFFFF) = take_bit 22 va" by (simp add: take_bit_eq_mask mask_eq_exp_minus_1)
  then show ?thesis by (simp add: unsigned_take_bit_eq take_bit_eq_mod unat_mod)
qed
lemma window_offset:
  assumes "in_user_window va" shows "va AND 0x3FFFFF = va - VIRTUAL_USER_BASE_ADDR"
proof -
  note b = window_bounds[OF assms]
  have "unat va mod 2^22 = unat va - 0x08000000"
    using b by (intro mod_nat_eqI) (auto simp: dvd_def intro: exI[of _ 32])
  then have "unat (va AND 0x3FFFFF) = unat va - 0x08000000"
    by (simp add: unat_and_3FFFFF)
  also have "\<dots> = unat (va - VIRTUAL_USER_BASE_ADDR)"
    using b by (simp add: layout_defs unat_sub word_le_nat_alt)
  finally show ?thesis by (simp add: word_unat_eq_iff)
qed
lemma window_offset_bound: "in_user_window va \<Longrightarrow> unat (va - VIRTUAL_USER_BASE_ADDR) < 0x400000"
  using window_bounds[of va] by (auto simp: layout_defs unat_sub word_le_nat_alt)
lemma push_bit_and_not_mask: "push_bit n (x::'a::len word) AND NOT (mask n) = push_bit n x"
  by (rule bit_word_eqI) (auto simp: bit_and_iff bit_push_bit_iff bit_not_iff bit_mask_iff)

lemma frame_aligned: "user_frame pid AND 0xFFC00000 = user_frame pid"
proof -
  have "user_frame pid = push_bit 22 (2 + of_nat pid)"
    by (simp add: user_frame_def layout_defs push_bit_eq_mult algebra_simps)
  moreover have "(0xFFC00000::u32) = NOT (mask 22)"
    by (simp add: mask_eq_exp_minus_1 not_eq_complement)
  ultimately show ?thesis by (metis push_bit_and_not_mask)
qed

lemma video_target_aligned:
  "(VMEM_BASE_ADDR + (of_nat ta + 1) * SIZE_4KB) AND 0xFFFFF000 = VMEM_BASE_ADDR + (of_nat ta + 1) * SIZE_4KB"
proof -
  have "VMEM_BASE_ADDR + (of_nat ta + 1) * SIZE_4KB = push_bit 12 (0xB9 + of_nat ta)"
    by (simp add: layout_defs push_bit_eq_mult algebra_simps)
  moreover have "(0xFFFFF000::u32) = NOT (mask 12)"
    by (simp add: mask_eq_exp_minus_1 not_eq_complement)
  ultimately show ?thesis by (metis push_bit_and_not_mask)
qed
lemma unat_frame_plus:
  assumes "pid < 8" "unat off < 0x400000"
  shows "unat (user_frame pid + off) = 0x800000 + pid * 0x400000 + unat off"
  using assms by (simp add: user_frame_def layout_defs unat_word_ariths unat_of_nat)

lemma set_user_page_tlb: "tlb (set_user_page pid m) = cur (set_user_page pid m)"
  by (simp add: set_user_page_def flush_tlb_def)

lemma set_user_page_translate:
  assumes "in_user_window va"
  shows "translate (set_user_page pid m) usr va = Some (user_frame pid + (va - VIRTUAL_USER_BASE_ADDR))"
  using assms
  by (simp add: translate_def walk_def set_user_page_def flush_tlb_def window_pde_index
      SET_4MB_PD_ENTRY_def window_offset frame_aligned flip: user_frame_def)

lemma user_frames_disjoint:
  assumes "i < 8" "j < 8" "i \<noteq> j" "unat off < 0x400000" "unat off' < 0x400000"
  shows "user_frame i + off \<noteq> user_frame j + off'"
proof
  assume "user_frame i + off = user_frame j + off'"
  then have "unat (user_frame i + off) = unat (user_frame j + off')" by simp
  with assms have "i * 0x400000 + unat off = j * 0x400000 + unat off'"
    by (simp add: unat_frame_plus)
  moreover have "i * 0x400000 + 0x400000 \<le> j * 0x400000" if "i < j" for i j :: nat
    using that by simp
  ultimately show False using assms by (cases "i < j") (fastforce dest: le_neq_implies_less)+
qed

text \<open>C1: For two distinct pids below MAX_PROCESSES, a byte stored through the user window while it is bound to one pid is never observed through the window bound to the other: the physical frames of set_user_page are disjoint.\<close>

lemma user_window_isolation:
  assumes "i < 8" "j < 8" "i \<noteq> j" "in_user_window va" "in_user_window va'"
    and "user_store (set_user_page j m) mem va b = Some mem'"
  shows "user_load (set_user_page i m') mem' va' = user_load (set_user_page i m') mem va'"
  using assms user_frames_disjoint[OF assms(1-3) window_offset_bound[OF assms(5)] window_offset_bound[OF assms(4)]]
  by (auto simp: user_load_def user_store_def set_user_page_translate)

lemma video_pte_index: "unat (drop_bit 12 VIRTUAL_VMEM_BASE_ADDR AND 0x3FF) = 1"
  by (simp add: VIRTUAL_VMEM_BASE_ADDR_def)
lemma video_pde_index: "unat (drop_bit 22 VIRTUAL_VMEM_BASE_ADDR) = USER_MEM_PD_ENTRY + 1"
  by (simp add: VIRTUAL_VMEM_BASE_ADDR_def USER_MEM_PD_ENTRY_def)

text \<open>C5: After set_video_mem_page, the user video page translates to the primary video buffer when the active terminal is shown, to the active terminal shadow buffer otherwise, and is absent when the present flag is clear.\<close>

lemma set_video_mem_page_translate:
  "translate (set_video_mem_page ta ts present m) True VIRTUAL_VMEM_BASE_ADDR =
     (if present AND 1 \<noteq> 0
      then Some (if ta \<noteq> ts then VMEM_BASE_ADDR + (of_nat ta + 1) * SIZE_4KB else VMEM_BASE_ADDR)
      else None)"
  by (simp add: translate_def walk_def set_video_mem_page_def flush_tlb_def Let_def
      video_pde_index video_pte_index SET_4KB_PD_ENTRY_def SET_PT_ENTRY_def video_target_aligned)
      (simp add: VIRTUAL_VMEM_BASE_ADDR_def VMEM_BASE_ADDR_def)

lemma pt_of_pd_update [simp]: "pt_of (t\<lparr>page_dir := x\<rparr>) tid = pt_of t tid"
  by (cases tid) simp_all

lemma walk_pd_update_other:
  "unat (drop_bit 22 va) \<noteq> k \<Longrightarrow>
   walk (t\<lparr>page_dir := (page_dir t)(k := e)\<rparr>) usr va = walk t usr va"
  unfolding walk_def
  by (cases "pde_target (page_dir t (unat (drop_bit 22 va)))") (simp_all add: Let_def)

text \<open>C4: After set_user_page pid, every address of the user window translates (through the flushed TLB) to the frame of pid at the same offset, and every address outside that directory entry translates as the current tables did before.\<close>

lemma set_user_page_binds_window:
  "(in_user_window va \<longrightarrow>
      translate (set_user_page pid m) usr va = Some (user_frame pid + (va - VIRTUAL_USER_BASE_ADDR))) \<and>
   (unat (drop_bit 22 va') \<noteq> USER_MEM_PD_ENTRY \<longrightarrow>
      translate (set_user_page pid m) usr va' = walk (cur m) usr va')"
proof (intro conjI impI)
  assume "in_user_window va"
  then show "translate (set_user_page pid m) usr va = Some (user_frame pid + (va - VIRTUAL_USER_BASE_ADDR))"
    by (rule set_user_page_translate)
next
  assume "unat (drop_bit 22 va') \<noteq> USER_MEM_PD_ENTRY"
  then show "translate (set_user_page pid m) usr va' = walk (cur m) usr va'"
    by (simp add: translate_def set_user_page_def flush_tlb_def walk_pd_update_other)
qed

end
