(* ===== verification/Fsys.thy ===== *)
theory Fsys
  imports Prelude
begin

text \<open>
  The read-only file system of drivers/fsys.c.  The memory-mapped disk image is
  a record: the three counts of the boot block, the directory entries, the
  inodes (a file size and the data-block indices) and the 4KB data blocks, each
  as the function from its index to the memory there (the C code indexes the
  arrays after its own bound checks).  The operations are the dentry lookups,
  \<open>read_data\<close> with its three-part block walk, \<open>get_file_length\<close> and the
  per-descriptor operations of the regular-file and directory jump tables.
  A result type \<open>rd_result\<close> separates a failed call (-1), a successful one
  and a call whose \<open>memcpy\<close> runs past the end of a data block (undefined
  behaviour in C).  The lemmas prove the block walk equal to slicing the
  concatenated file contents, and that the range check is defeated by 32-bit
  wrap-around.
\<close>

section \<open>Disk image (fsys.h)\<close>

definition DISK_BLOCK_SIZE :: nat where "DISK_BLOCK_SIZE = 4096"
definition RTC_FILE_TYPE :: u32 where "RTC_FILE_TYPE = 0"
definition DIRECTORY_FILE_TYPE :: u32 where "DIRECTORY_FILE_TYPE = 1"
definition REGULAR_FILE_TYPE :: u32 where "REGULAR_FILE_TYPE = 2"

record dentry =
  file_name :: string
  file_type :: u32
  inode_idx :: u32

record inode =
  file_size :: u32
  block_idx_arr :: "nat \<Rightarrow> u32"

record fsys =
  num_dir_entries :: u32
  num_inodes :: u32
  num_dblocks :: u32
  file_dir_arr :: "nat \<Rightarrow> dentry"
  inodes_arr :: "nat \<Rightarrow> inode"
  data_block :: "nat \<Rightarrow> u8 list"

text \<open>The file-operations jump tables and which of their entries are not NULL.\<close>

datatype fops = rtc_jmptable | file_jmptable | directory_jmptable | stdin_jmptable | stdout_jmptable

datatype fop = Op_read | Op_write | Op_open | Op_close

fun jt_entry :: "fops \<Rightarrow> fop \<Rightarrow> bool" where
  "jt_entry stdin_jmptable f = (f = Op_read \<or> f = Op_open)"
| "jt_entry stdout_jmptable f = (f = Op_write \<or> f = Op_open)"
| "jt_entry _ f = True"

record file_desc =
  fops_table_ptr :: "fops option"
  inode_num :: u32
  file_pos :: u32
  flags :: u32

section \<open>Lookups\<close>

function find_dentry :: "fsys \<Rightarrow> string \<Rightarrow> nat \<Rightarrow> dentry option" where
  "find_dentry fs fname i =
     (if i < unat (num_dir_entries fs) then
        (if strncmp_eq 32 (file_name (file_dir_arr fs i)) fname then Some (file_dir_arr fs i)
         else find_dentry fs fname (Suc i))
      else None)"
  by pat_completeness auto
termination
  by (relation "measure (\<lambda>(fs, fname, i). unat (num_dir_entries fs) - i)") auto

declare find_dentry.simps [simp del]

definition read_dentry_by_name :: "fsys \<Rightarrow> string \<Rightarrow> dentry option" where
  "read_dentry_by_name fs fname = find_dentry fs fname 0"

definition read_dentry_by_index :: "fsys \<Rightarrow> u32 \<Rightarrow> dentry option" where
  "read_dentry_by_index fs index =
     (if index = 0 \<or> index > num_dir_entries fs then None
      else Some (file_dir_arr fs (unat index - 1)))"

section \<open>Reading data\<close>

datatype rd_result = RD_Fail | RD_Ok u32 "u8 list" | RD_Overrun

definition blk :: "fsys \<Rightarrow> inode \<Rightarrow> nat \<Rightarrow> u8 list" where
  "blk fs ino k = data_block fs (unat (block_idx_arr ino k))"

definition read_data :: "fsys \<Rightarrow> u32 \<Rightarrow> u32 \<Rightarrow> u32 \<Rightarrow> rd_result" where
  "read_data fs inode offset len =
     (if inode \<ge> num_inodes fs then RD_Fail else
      let ino = inodes_arr fs (unat inode) in
      if offset \<ge> file_size ino then RD_Fail else
      if offset + len > file_size ino then RD_Fail else
      if list_ex (\<lambda>i. block_idx_arr ino i \<ge> num_dblocks fs) [0..<63] then RD_Fail else
      let sb = unat offset div DISK_BLOCK_SIZE;
          so = unat offset mod DISK_BLOCK_SIZE;
          eb = unat (offset + len) div DISK_BLOCK_SIZE;
          eo = unat (offset + len) mod DISK_BLOCK_SIZE
      in if sb = eb then
           (if so + unat len > DISK_BLOCK_SIZE then RD_Overrun else
            let bytes = take (unat len) (drop so (blk fs ino sb));
                bytes_read = len
            in RD_Ok (if offset + bytes_read = file_size ino then 0 else bytes_read) bytes)
         else
           let bytes = drop so (blk fs ino sb)
                       @ concat (map (blk fs ino) [Suc sb..<eb])
                       @ take eo (blk fs ino eb);
               bytes_read = of_nat (DISK_BLOCK_SIZE - so) + of_nat (eb - Suc sb) * of_nat DISK_BLOCK_SIZE
                            + of_nat eo
           in RD_Ok (if offset + bytes_read = file_size ino then 0 else bytes_read) bytes)"

definition get_file_length :: "fsys \<Rightarrow> string \<Rightarrow> u32 option" where
  "get_file_length fs fname =
     (case read_dentry_by_name fs fname of
        None \<Rightarrow> None
      | Some d \<Rightarrow>
          if file_type d \<noteq> REGULAR_FILE_TYPE then None
          else if inode_idx d \<ge> num_inodes fs then None
          else Some (file_size (inodes_arr fs (unat (inode_idx d)))))"

section \<open>Jump-table operations of regular files and the directory\<close>

text \<open>
  \<open>file_read\<close> works on the descriptor of the current process; it returns the
  count, the bytes copied to the user buffer and the updated descriptor.
  \<open>nbytes\<close> is \<open>int32_t\<close> and is converted to \<open>uint32_t\<close> where the C code
  adds it to the file position.
\<close>

datatype read_out = Read_ret i32 "u8 list" | Read_overrun

definition file_read :: "fsys \<Rightarrow> file_desc \<Rightarrow> i32 \<Rightarrow> read_out \<times> file_desc" where
  "file_read fs fd nbytes =
     (let ino = inodes_arr fs (unat (inode_num fd)) in
      if file_pos fd \<ge> file_size ino then (Read_ret 0 [], fd) else
      let n = (if file_pos fd + word_of_int nbytes \<ge> file_size ino
               then file_size ino - file_pos fd else word_of_int nbytes) in
      case read_data fs (inode_num fd) (file_pos fd) n of
        RD_Overrun \<Rightarrow> (Read_overrun, fd)
      | RD_Fail \<Rightarrow> (Read_ret (sint n) [], fd\<lparr>file_pos := file_pos fd + n\<rparr>)
      | RD_Ok _ bytes \<Rightarrow> (Read_ret (sint n) bytes, fd\<lparr>file_pos := file_pos fd + n\<rparr>))"

definition file_write :: i32 where "file_write = -1"
definition file_open :: i32 where "file_open = 0"
definition file_close :: i32 where "file_close = 0"

text \<open>\<open>strncpy(buf, name, n)\<close>: the name, padded with NULs, cut to \<open>n\<close> bytes.\<close>

definition strncpy_bytes :: "nat \<Rightarrow> string \<Rightarrow> u8 list" where
  "strncpy_bytes n s = take n (map of_char s @ replicate n 0)"

definition directory_read :: "fsys \<Rightarrow> file_desc \<Rightarrow> i32 \<Rightarrow> read_out \<times> file_desc" where
  "directory_read fs fd nbytes =
     (let n = (if nbytes > 32 then 32 else nbytes) in
      if file_pos fd \<ge> num_dir_entries fs then (Read_ret 0 [], fd)
      else if n < 0 then (Read_overrun, fd)
      else (Read_ret n (strncpy_bytes (nat n) (file_name (file_dir_arr fs (unat (file_pos fd))))),
            fd\<lparr>file_pos := file_pos fd + 1\<rparr>))"

definition directory_write :: i32 where "directory_write = -1"
definition directory_open :: i32 where "directory_open = 0"
definition directory_close :: i32 where "directory_close = 0"

section \<open>Reference contents of a file\<close>

text \<open>
  The abstract view of a regular file: the concatenation of its data blocks,
  as many as its size needs.  \<open>blocks_sized\<close> is the well-formedness of the
  image: every data block is 4KB long.
\<close>

definition blocks_sized :: "fsys \<Rightarrow> bool" where
  "blocks_sized fs \<longleftrightarrow> (\<forall>k. length (data_block fs k) = DISK_BLOCK_SIZE)"

definition file_bytes :: "fsys \<Rightarrow> inode \<Rightarrow> u8 list" where
  "file_bytes fs ino = concat (map (blk fs ino) [0..<unat (file_size ino) div DISK_BLOCK_SIZE + 1])"

section \<open>Lemmas\<close>

lemma length_concat_uniform:
  "(\<And>k. length (f k) = B) \<Longrightarrow> length (concat (map f [a..<b])) = (b - a) * B"
  by (induction b) (auto simp: length_concat Suc_diff_le)

lemma concat_upt_split:
  "a \<le> b \<Longrightarrow> b \<le> c \<Longrightarrow> concat (map f [a..<c]) = concat (map f [a..<b]) @ concat (map f [b..<c])"
  by (metis concat_append map_append upt_add_eq_append le_Suc_ex)

lemma walk_count:
  fixes B :: nat
  assumes "0 < B" "off div B < (off + L) div B"
  shows "L = (B - off mod B) + ((off + L) div B - Suc (off div B)) * B + (off + L) mod B"
proof -
  obtain d where d: "(off + L) div B = Suc (off div B) + d" using assms(2) less_iff_Suc_add by blast
  have "off + L = (off + L) div B * B + (off + L) mod B" by simp
  also have "\<dots> = off div B * B + B + d * B + (off + L) mod B" using d by (simp add: algebra_simps)
  finally have "off + L = off div B * B + B + d * B + (off + L) mod B" .
  then have "L + off mod B = B + d * B + (off + L) mod B"
    using div_mult_mod_eq[of off B] by linarith
  moreover have "off mod B < B" using assms(1) by simp
  ultimately show ?thesis using d by simp
qed

lemma blocks_slice:
  fixes f :: "nat \<Rightarrow> 'a list"
  assumes len: "\<And>k. length (f k) = B" and B: "0 < B"
    and lim: "off + L < N * B"
  defines "sb \<equiv> off div B" and "so \<equiv> off mod B" and "eb \<equiv> (off + L) div B" and "eo \<equiv> (off + L) mod B"
  shows "take L (drop off (concat (map f [0..<N]))) =
           (if sb = eb then take L (drop so (f sb))
            else drop so (f sb) @ concat (map f [Suc sb..<eb]) @ take eo (f eb))"
proof -
  have off: "off = sb * B + so" by (simp add: sb_def so_def)
  have so: "so < B" using B by (simp add: so_def)
  have sbeb: "sb \<le> eb" by (simp add: sb_def eb_def div_le_mono)
  have ebN: "eb < N" using lim B by (simp add: eb_def div_less_iff_less_mult)
  have split1: "concat (map f [0..<N]) = concat (map f [0..<sb]) @ f sb @ concat (map f [Suc sb..<N])"
    using sbeb ebN concat_upt_split[of 0 sb N f] by (simp add: upt_conv_Cons)
  have drop1: "drop off (concat (map f [0..<N])) = drop so (f sb) @ concat (map f [Suc sb..<N])"
    using so len by (simp add: split1 off length_concat_uniform[OF len] drop_append)
  show ?thesis
  proof (cases "sb = eb")
    case True
    have "off + L = eb * B + eo" by (simp add: eb_def eo_def)
    with True off have "so + L = eo" by simp
    moreover have "eo < B" using B by (simp add: eo_def)
    ultimately have "so + L < B" by simp
    then show ?thesis using True drop1 len so by (simp add: take_append)
  next
    case False
    then have lt: "sb < eb" using sbeb by simp
    have split2: "concat (map f [Suc sb..<N]) = concat (map f [Suc sb..<eb]) @ f eb @ concat (map f [Suc eb..<N])"
      using lt ebN concat_upt_split[of "Suc sb" eb N f] by (simp add: upt_conv_Cons)
    have L: "L = (B - so) + (eb - Suc sb) * B + eo"
      using walk_count[OF B, of off L] lt by (simp add: sb_def so_def eb_def eo_def)
    have eo: "eo < B" using B by (simp add: eo_def)
    show ?thesis using False drop1 split2 len so eo
      by (simp add: L take_append length_concat_uniform[OF len] min_def)
  qed
qed

text \<open>C2: On a well-formed image, for a valid inode and a range inside the file, read_data returns exactly the bytes of the file contents from offset to offset + length, and 0 instead of the count when the range ends at the end of the file.\<close>

lemma read_data_slice:
  assumes "inode < num_inodes fs" and ino: "ino = inodes_arr fs (unat inode)"
    and "offset < file_size ino" and fits: "unat offset + unat len \<le> unat (file_size ino)"
    and blocks: "\<forall>i<63. block_idx_arr ino i < num_dblocks fs" and "blocks_sized fs"
  shows "read_data fs inode offset len =
           RD_Ok (if offset + len = file_size ino then 0 else len)
                 (take (unat len) (drop (unat offset) (file_bytes fs ino)))"
proof -
  let ?B = DISK_BLOCK_SIZE and ?f = "blk fs ino"
  have B: "0 < ?B" by (simp add: DISK_BLOCK_SIZE_def)
  have len: "length (?f k) = ?B" for k using assms(6) by (simp add: blocks_sized_def blk_def)
  have "unat (file_size ino) < 2 ^ LENGTH(32)" by (rule unsigned_less)
  then have sum: "unat (offset + len) = unat offset + unat len"
    using fits by (intro unat_add_lem[THEN iffD1]) simp
  have nowrap: "\<not> file_size ino < offset + len"
    using fits by (simp add: word_less_nat_alt sum)
  have noblk: "\<not> list_ex (\<lambda>i. num_dblocks fs \<le> block_idx_arr ino i) [0..<63]"
    using blocks by (auto simp: list_ex_iff not_le)
  have lim: "unat offset + unat len < (unat (file_size ino) div ?B + 1) * ?B"
    unfolding distrib_right
    using fits div_mult_mod_eq[of "unat (file_size ino)" ?B] mod_less_divisor[OF B, of "unat (file_size ino)"]
    by linarith
  note slice = blocks_slice[where f = "blk fs ino", OF len B lim]
  show ?thesis
  proof (cases "unat offset div ?B = unat (offset + len) div ?B")
    case True
    have "unat offset mod ?B + unat len < ?B"
    proof -
      have "unat offset div ?B * ?B + unat offset mod ?B + unat len = unat (offset + len) div ?B * ?B + unat (offset + len) mod ?B"
        using sum by simp
      then have "unat offset mod ?B + unat len = unat (offset + len) mod ?B"
        using True by (metis add.assoc add_left_imp_eq)
      then show ?thesis using B by simp
    qed
    then show ?thesis using True assms(1,3) nowrap noblk slice
      unfolding read_data_def Let_def ino[symmetric] 
      by (simp add: not_le sum file_bytes_def)
  next
    case False
    have lt: "unat offset div ?B < (unat offset + unat len) div ?B"
      using False sum by (simp add: div_le_mono le_neq_implies_less)
    have cnt: "of_nat (?B - unat offset mod ?B) + of_nat ((unat offset + unat len) div ?B - Suc (unat offset div ?B)) * of_nat ?B
               + of_nat ((unat offset + unat len) mod ?B) = (len::u32)"
      using arg_cong[OF walk_count[OF B lt], of "of_nat :: nat \<Rightarrow> u32"] by simp
    show ?thesis using False assms(1,3) nowrap noblk slice cnt
      unfolding read_data_def Let_def ino[symmetric]
      by (simp add: not_le sum file_bytes_def)
  qed
qed

lemma read_data_wrap_overrun:
  assumes "inode < num_inodes fs" and ino: "ino = inodes_arr fs (unat inode)"
    and "offset < file_size ino" and "unat offset mod DISK_BLOCK_SIZE \<noteq> 0"
    and blocks: "\<forall>i<63. block_idx_arr ino i < num_dblocks fs"
  shows "read_data fs inode offset (- 1) = RD_Overrun"
proof -
  let ?B = DISK_BLOCK_SIZE
  have pos: "0 < unat offset" using assms(4) by (cases "unat offset") auto
  have sum: "offset + - 1 = offset - 1" by simp
  have m1: "unat (- 1 :: u32) = 4294967295" by (simp add: unsigned_minus_1_eq_mask mask_eq_exp_minus_1)
  have usum: "unat (offset - 1) = unat offset - 1"
    using pos by (simp add: unat_sub word_le_nat_alt)
  have le: "offset - 1 \<le> file_size ino"
    using assms(3) pos by (simp add: word_le_nat_alt word_less_nat_alt usum)
  have same: "unat offset div ?B = (unat offset - 1) div ?B"
  proof -
    have d: "?B * (unat offset div ?B) + unat offset mod ?B = unat offset" by simp
    have "0 < ?B" by (simp add: DISK_BLOCK_SIZE_def)
    then have m: "unat offset mod ?B < ?B" by simp
    have "(unat offset - 1) div ?B = unat offset div ?B"
      by (rule div_nat_eqI) (use d m assms(4) in \<open>simp_all, linarith+\<close>)
    then show ?thesis by simp
  qed
  have noblk: "\<not> list_ex (\<lambda>i. num_dblocks fs \<le> block_idx_arr ino i) [0..<63]"
    using blocks by (auto simp: list_ex_iff not_le)
  show ?thesis
    using assms(1,3) le same noblk
    unfolding read_data_def Let_def ino[symmetric]
    by (simp add: not_le not_less sum usum m1 DISK_BLOCK_SIZE_def)
qed

text \<open>C3: file_read with nbytes = -1 on a file whose position is inside the file and not block aligned is not clamped: the 32-bit sum wraps, read_data passes its range check and its memcpy runs past the data block.\<close>

lemma file_read_negative_overrun:
  assumes "inode_num fd < num_inodes fs" and ino: "ino = inodes_arr fs (unat (inode_num fd))"
    and "file_pos fd < file_size ino" and "unat (file_pos fd) mod DISK_BLOCK_SIZE \<noteq> 0"
    and "\<forall>i<63. block_idx_arr ino i < num_dblocks fs"
  shows "file_read fs fd (-1) = (Read_overrun, fd)"
proof -
  have pos: "0 < unat (file_pos fd)" using assms(4) by (cases "unat (file_pos fd)") auto
  have "file_pos fd - 1 < file_size ino"
    using assms(3) pos by (simp add: word_less_nat_alt unat_sub word_le_nat_alt)
  then have n: "\<not> file_size ino \<le> file_pos fd - 1" by (simp add: not_le)
  have p: "\<not> file_size ino \<le> file_pos fd" using assms(3) by (simp add: not_le)
  have "read_data fs (inode_num fd) (file_pos fd) (- 1) = RD_Overrun"
    using read_data_wrap_overrun[OF assms(1) ino assms(3-5)] .
  then show ?thesis
    by (simp add: file_read_def Let_def ino[symmetric] n p)
qed
end
