(* ===== verification/Kstate.thy ===== *)
theory Kstate
  imports Paging Fsys
begin

text \<open>
  The kernel's shared state.  The process control block of process.h, the
  per-terminal record of terminal.h and the globals the C files share
  (\<open>activeProcesses\<close>, \<open>currentPID\<close>, \<open>current_PCB\<close> of process.h,
  \<open>tss.esp0\<close> and \<open>tss.ss0\<close> of x86_desc.h, \<open>TA_idx\<close>, \<open>TS_idx\<close>, \<open>terminal_arr\<close> of
  terminal.c, \<open>exception_flag\<close> of intr.c, \<open>pit_counter\<close> of pit.c,
  \<open>rtc_counter\<close> of rtc.h, the paging structures and physical memory) are
  one record, \<open>kstate\<close>, passed through every operation.

  PCBs live at fixed kernel addresses, \<open>USER_MEM_BASE_ADDR - (pid + 1) * 8KB\<close>;
  the model indexes them by pid (\<open>pcbs\<close>), so the pointer \<open>current_PCB\<close> is
  the pid whose block it addresses, \<open>None\<close> for the NULL it holds at boot.
  The pointer \<open>terminal_active\<close> is always \<open>&terminal_arr[TA_idx]\<close> in the
  code, so it is not a separate field.  The console position of lib.c
  (\<open>getX\<close>, \<open>getY\<close>, \<open>setVidPointer\<close>, the hardware cursor) is kept as the
  fields \<open>screen_x\<close>, \<open>screen_y\<close>, \<open>vid_ptr\<close> and \<open>hw_cursor\<close>.
\<close>

section \<open>Constants (process.h, terminal.h)\<close>

definition MAX_PROCESSES :: nat where "MAX_PROCESSES = 8"
definition SIZE_8KB :: u32 where "SIZE_8KB = 8192"
definition MAX_FDS :: nat where "MAX_FDS = 8"
definition MAX_TERMINALS :: nat where "MAX_TERMINALS = 3"
definition KERNEL_DS :: u16 where "KERNEL_DS = 0x0018"

lemmas kconst_defs = MAX_PROCESSES_def SIZE_8KB_def MAX_FDS_def MAX_TERMINALS_def

section \<open>Records\<close>

record pcb =
  pcb_id :: nat
  parent_pid :: nat
  parent_esp0 :: u32
  parent_ebp :: u32
  open_files :: u8
  vidmap_inuse :: u32
  cmd_args :: string
  file_desc_arr :: "file_desc list"

record terminal =
  saved_ebp :: u32
  saved_esp0 :: u32
  t_currentPID :: nat
  t_currentPCB :: "nat option"
  cursor_x :: nat
  cursor_y :: nat
  keyboard_buffer :: "u8 list"
  keyboard_idx :: nat
  terminal_newline :: bool
  rtc_interrupt_occurred :: bool
  rtc_freq_bit :: nat

record kstate =
  activeProcesses :: u32
  currentPID :: nat
  current_PCB :: "nat option"
  pcbs :: "nat \<Rightarrow> pcb"
  tss_esp0 :: u32
  tss_ss0 :: u16
  TA_idx :: nat
  TS_idx :: nat
  terminal_arr :: "terminal list"
  paging :: mmu
  phys_mem :: "u32 \<Rightarrow> u8"
  exception_flag :: bool
  pit_counter :: nat
  rtc_counter :: u32
  screen_x :: nat
  screen_y :: nat
  vid_ptr :: u32
  hw_cursor :: "nat \<times> nat"

section \<open>Access helpers\<close>

text \<open>\<open>terminal_active\<close> and \<open>terminal_shown\<close> of terminal.c.\<close>

definition terminal_active :: "kstate \<Rightarrow> terminal" where
  "terminal_active s = terminal_arr s ! TA_idx s"

definition terminal_shown :: "kstate \<Rightarrow> terminal" where
  "terminal_shown s = terminal_arr s ! TS_idx s"

definition upd_terminal_active :: "(terminal \<Rightarrow> terminal) \<Rightarrow> kstate \<Rightarrow> kstate" where
  "upd_terminal_active f s = s\<lparr>terminal_arr := (terminal_arr s)[TA_idx s := f (terminal_active s)]\<rparr>"

definition upd_pcb :: "nat \<Rightarrow> (pcb \<Rightarrow> pcb) \<Rightarrow> kstate \<Rightarrow> kstate" where
  "upd_pcb p f s = s\<lparr>pcbs := (pcbs s)(p := f (pcbs s p))\<rparr>"

text \<open>The kernel stack top of a pid, \<open>USER_MEM_BASE_ADDR - pid * 8KB\<close> (syscall.c).\<close>

definition kernel_stack_top :: "nat \<Rightarrow> u32" where
  "kernel_stack_top pid = USER_MEM_BASE_ADDR - of_nat pid * SIZE_8KB"

text \<open>\<open>memcpy(dst, src, n)\<close> on physical memory (lib.c), for non-overlapping ranges.\<close>

definition memcpy_phys :: "u32 \<Rightarrow> u32 \<Rightarrow> nat \<Rightarrow> (u32 \<Rightarrow> u8) \<Rightarrow> (u32 \<Rightarrow> u8)" where
  "memcpy_phys dst src n mem =
     (\<lambda>a. if unat (a - dst) < n then mem (src + (a - dst)) else mem a)"

end
