(* ===== verification/Terminal.thy ===== *)
theory Terminal
  imports Kstate
begin

text \<open>
  The terminal session manager of drivers/terminal.c: \<open>init_terminals\<close>, the
  switch of the shown terminal (\<open>set_shown_terminal\<close>, which swaps the physical
  video page with the shadow pages) and of the active terminal
  (\<open>set_active_terminal\<close>, which saves the outgoing terminal's \<open>tss.esp0\<close>,
  pcb and pid and loads the incoming one's, remapping the user window), and
  the stdin/stdout operations.  \<open>terminal_read\<close> spins until the keyboard
  handler raises the newline flag; it is split at the spin into
  \<open>terminal_read_begin\<close> (the call to \<open>setIdx(0)\<close>) and
  \<open>terminal_read_copy\<close> (the copy loop once the flag is up).  Characters that
  \<open>putc\<close> prints are returned, not drawn.
\<close>

section \<open>Operations\<close>

definition init_terminal :: "nat \<Rightarrow> terminal" where
  "init_terminal i =
     \<lparr>saved_ebp = 0, saved_esp0 = kernel_stack_top i, t_currentPID = i, t_currentPCB = Some i,
      cursor_x = 0, cursor_y = 0, keyboard_buffer = replicate 128 0, keyboard_idx = 0,
      terminal_newline = False, rtc_interrupt_occurred = False, rtc_freq_bit = 8\<rparr>"

definition init_terminals :: "kstate \<Rightarrow> kstate" where
  "init_terminals s = s\<lparr>terminal_arr := map init_terminal [0..<MAX_TERMINALS], TA_idx := 0, TS_idx := 0\<rparr>"

definition shadow_page :: "nat \<Rightarrow> u32" where
  "shadow_page i = VMEM_BASE_ADDR + (of_nat i + 1) * SIZE_4KB"

definition set_shown_terminal :: "nat \<Rightarrow> kstate \<Rightarrow> kstate" where
  "set_shown_terminal next_TS s =
     (let arr = (terminal_arr s)[TS_idx s := (terminal_shown s)\<lparr>cursor_x := screen_x s, cursor_y := screen_y s\<rparr>];
          mem1 = memcpy_phys (shadow_page (TS_idx s)) VMEM_BASE_ADDR 4096 (phys_mem s);
          mem2 = memcpy_phys VMEM_BASE_ADDR (shadow_page next_TS) 4096 mem1;
          t = arr ! next_TS
      in s\<lparr>terminal_arr := arr, phys_mem := mem2, TS_idx := next_TS,
           hw_cursor := (cursor_x t, cursor_y t), screen_x := cursor_x t, screen_y := cursor_y t\<rparr>)"

definition set_active_terminal :: "nat \<Rightarrow> kstate \<Rightarrow> kstate" where
  "set_active_terminal next_TA s =
     (let s1 = upd_terminal_active (\<lambda>t. t\<lparr>saved_esp0 := tss_esp0 s, t_currentPCB := current_PCB s,
                                           t_currentPID := currentPID s,
                                           cursor_x := screen_x s, cursor_y := screen_y s\<rparr>) s;
          vp = (if next_TA \<noteq> TS_idx s then shadow_page next_TA else VMEM_BASE_ADDR);
          t = terminal_arr s1 ! next_TA;
          cur = (if next_TA = TS_idx s then (cursor_x t, cursor_y t) else hw_cursor s)
      in s1\<lparr>vid_ptr := vp, TA_idx := next_TA, hw_cursor := cur,
            screen_x := cursor_x t, screen_y := cursor_y t,
            tss_esp0 := saved_esp0 t, current_PCB := t_currentPCB t, currentPID := t_currentPID t,
            paging := set_user_page (t_currentPID t) (paging s1)\<rparr>)"

text \<open>\<open>setIdx\<close> of keyboard.c, called at the start of \<open>terminal_read\<close>.\<close>

definition setIdx :: "nat \<Rightarrow> kstate \<Rightarrow> kstate" where
  "setIdx v s = upd_terminal_active (\<lambda>t. t\<lparr>keyboard_idx := v, terminal_newline := False\<rparr>) s"

definition terminal_read_begin :: "kstate \<Rightarrow> kstate" where
  "terminal_read_begin s = setIdx 0 s"

text \<open>The copy loop of \<open>terminal_read\<close>: at most 128 characters, up to and including the newline; each copied slot of the line buffer is cleared.\<close>

fun tr_loop :: "nat \<Rightarrow> nat \<Rightarrow> u8 list \<Rightarrow> u8 list \<times> u8 list" where
  "tr_loop 0 i kb = ([], kb)"
| "tr_loop (Suc n) i kb =
     (let c = kb ! i; kb' = kb[i := 0] in
      if c = 10 then ([c], kb')
      else (let (out, kb'') = tr_loop n (Suc i) kb' in (c # out, kb'')))"

definition terminal_read_copy :: "kstate \<Rightarrow> (i32 \<times> u8 list) \<times> kstate" where
  "terminal_read_copy s =
     (let (out, kb) = tr_loop 128 0 (keyboard_buffer (terminal_active s))
      in ((int (length out), out), upd_terminal_active (\<lambda>t. t\<lparr>keyboard_buffer := kb\<rparr>) s))"

text \<open>
  \<open>terminal_write\<close> compares the \<open>uint32_t\<close> index with the \<open>int32_t\<close> count, so
  the count is read as unsigned; a count beyond the buffer reads past it.
\<close>

definition terminal_write :: "u8 list \<Rightarrow> i32 \<Rightarrow> (i32 \<times> u8 list) option" where
  "terminal_write buf nbytes =
     (let n = unat (word_of_int nbytes :: u32) in
      if n > length buf then None else Some (0, filter (\<lambda>c. c \<noteq> 0) (take n buf)))"

definition terminal_open :: i32 where "terminal_open = 0"
definition terminal_close :: i32 where "terminal_close = 0"

end
