(* ===== verification/Process.thy ===== *)
theory Process
  imports Terminal
begin

text \<open>
  The process lifecycle controller: \<open>execute\<close> and \<open>halt\<close> of syscall.c and
  \<open>restore_parent\<close> of process.c.  \<open>execute\<close> returns \<open>Exec_enter eip\<close> where
  the C code performs the \<open>iret\<close> into the loaded program (it never returns to
  its caller then), \<open>Exec_fail\<close> for the -1 of every early return, and
  \<open>Exec_UB\<close> where the C code has undefined behaviour (an argument string that
  overflows the local buffers, an image that does not fit the user page).
  \<open>halt\<close> returns \<open>Halt_respawn eip\<close> when a base shell is replaced by a fresh
  shell, and \<open>Halt_return ebp v\<close> for the jump of \<open>halt_asm\<close> back into the
  parent's \<open>execute\<close> frame \<open>ebp\<close> with return value \<open>v\<close>.  The frame
  pointer of the C function that calls \<open>execute\<close> is the argument \<open>ebp\<close>.
\<close>

section \<open>Helpers of execute\<close>

datatype exec_result = Exec_fail | Exec_enter u32 | Exec_UB

text \<open>
  The command parse of \<open>execute\<close>: the name runs to the first space (at most
  32 characters are kept), the rest from the space on is copied into the
  128-byte \<open>args\<close> with \<open>strncpy(args, &command[args_idx], 128 - args_idx)\<close>,
  and the arguments are \<open>&args[1]\<close>.  A name of 128 or more characters makes
  the count wrap; an argument tail that fills \<open>args\<close> leaves it without a NUL
  for the later \<open>strcpy\<close>: both are \<open>None\<close>.
\<close>

definition parse_command :: "string \<Rightarrow> (string \<times> string) option" where
  "parse_command cmd =
     (let args_idx = length (takeWhile (\<lambda>c. c \<noteq> CHR '' '') cmd);
          exe_fname = (if args_idx \<ge> 32 then take 32 cmd else take args_idx cmd);
          rest = drop args_idx cmd
      in if args_idx \<ge> 128 then None
         else if rest = [] then Some (exe_fname, [])
         else if length rest \<ge> 128 - args_idx then None
         else Some (exe_fname, tl rest))"

definition find_free_pid :: "u32 \<Rightarrow> nat option" where
  "find_free_pid active = find (\<lambda>i. \<not> CHECK_FLAG active i) [0..<MAX_PROCESSES]"

definition stdout_file_desc :: file_desc where
  "stdout_file_desc = \<lparr>fops_table_ptr = Some stdout_jmptable, inode_num = 0, file_pos = 0, flags = 0\<rparr>"

definition stdin_file_desc :: file_desc where
  "stdin_file_desc = \<lparr>fops_table_ptr = Some stdin_jmptable, inode_num = 0, file_pos = 0, flags = 0\<rparr>"

text \<open>The entry point, bytes 24 to 27 of the image read as a little-endian \<open>uint32_t\<close>.\<close>

definition le32 :: "u8 list \<Rightarrow> u32" where
  "le32 bs = foldr (\<lambda>b acc. ucast b + push_bit 8 acc) bs 0"

text \<open>The kernel's \<open>memcpy\<close> of the image to virtual 0x08048000, through the current paging.\<close>

fun store_bytes :: "mmu \<Rightarrow> (u32 \<Rightarrow> u8) \<Rightarrow> u32 \<Rightarrow> u8 list \<Rightarrow> (u32 \<Rightarrow> u8) option" where
  "store_bytes m mem va [] = Some mem"
| "store_bytes m mem va (b # bs) =
     (case translate m False va of
        None \<Rightarrow> None
      | Some pa \<Rightarrow> store_bytes m (mem(pa := b)) (va + 1) bs)"

definition PROGRAM_IMAGE_ADDR :: u32 where "PROGRAM_IMAGE_ADDR = 0x08048000"

text \<open>Publishing the current process into the active terminal's record (execute and halt).\<close>

definition publish_terminal :: "kstate \<Rightarrow> kstate" where
  "publish_terminal s =
     upd_terminal_active (\<lambda>t. t\<lparr>saved_esp0 := tss_esp0 s, t_currentPCB := current_PCB s,
                               t_currentPID := currentPID s\<rparr>) s"

section \<open>execute\<close>

definition new_pcb :: "nat \<Rightarrow> nat \<Rightarrow> string \<Rightarrow> pcb \<Rightarrow> pcb" where
  "new_pcb pid parent args p =
     p\<lparr>pcb_id := pid, parent_pid := parent, open_files := 3, vidmap_inuse := 0,
       file_desc_arr := (file_desc_arr p)[0 := stdin_file_desc, 1 := stdout_file_desc],
       cmd_args := args\<rparr>"

definition execute :: "fsys \<Rightarrow> string \<Rightarrow> u32 \<Rightarrow> kstate \<Rightarrow> exec_result \<times> kstate" where
  "execute fs command ebp s =
     (case parse_command command of None \<Rightarrow> (Exec_UB, s) | Some (exe_fname, args) \<Rightarrow>
      case read_dentry_by_name fs exe_fname of None \<Rightarrow> (Exec_fail, s) | Some d \<Rightarrow>
      case read_data fs (inode_idx d) 1 3 of RD_Fail \<Rightarrow> (Exec_fail, s) | RD_Overrun \<Rightarrow> (Exec_UB, s)
      | RD_Ok _ magic \<Rightarrow>
      if magic \<noteq> map of_char ''ELF'' then (Exec_fail, s) else
      case find_free_pid (activeProcesses s) of None \<Rightarrow> (Exec_fail, s) | Some pid \<Rightarrow>
      let s1 = s\<lparr>paging := set_user_page pid (paging s)\<rparr>;
          reset = (\<lambda>t. (Exec_fail, t\<lparr>paging := set_user_page (currentPID s) (paging t)\<rparr>))
      in case get_file_length fs (file_name d) of None \<Rightarrow> reset s1 | Some fsize \<Rightarrow>
      case read_data fs (inode_idx d) 0 fsize of RD_Fail \<Rightarrow> reset s1 | RD_Overrun \<Rightarrow> (Exec_UB, s1)
      | RD_Ok _ img \<Rightarrow>
      case store_bytes (paging s1) (phys_mem s1) PROGRAM_IMAGE_ADDR img of None \<Rightarrow> (Exec_UB, s1)
      | Some mem \<Rightarrow>
      let s2 = s1\<lparr>phys_mem := mem\<rparr> in
      case read_data fs (inode_idx d) 24 4 of RD_Fail \<Rightarrow> reset s2 | RD_Overrun \<Rightarrow> (Exec_UB, s2)
      | RD_Ok _ eip_bytes \<Rightarrow>
      let s3 = upd_pcb pid (new_pcb pid (currentPID s2) args) s2;
          s4 = s3\<lparr>activeProcesses := mask_set (activeProcesses s3) pid, currentPID := pid,
                  current_PCB := Some pid\<rparr>;
          s5 = (upd_pcb pid (\<lambda>p. p\<lparr>parent_ebp := ebp\<rparr>) s4)\<lparr>tss_ss0 := KERNEL_DS\<rparr>;
          s6 = upd_pcb pid (\<lambda>p. p\<lparr>parent_esp0 := tss_esp0 s5\<rparr>) s5;
          s7 = s6\<lparr>tss_esp0 := kernel_stack_top pid\<rparr>
      in (Exec_enter (le32 eip_bytes), publish_terminal s7))"

section \<open>restore_parent and halt\<close>

text \<open>
  The close loop of \<open>restore_parent\<close> calls the \<open>close\<close> entry of every open
  descriptor 2 to 7; each close of the kernel returns 0 and changes nothing, so
  the loop either passes or calls a NULL entry.
\<close>

definition closes_defined :: "pcb \<Rightarrow> bool" where
  "closes_defined p \<longleftrightarrow>
     list_all (\<lambda>i. \<not> CHECK_FLAG (open_files p) i \<or>
                   (case fops_table_ptr (file_desc_arr p ! i) of None \<Rightarrow> False
                    | Some t \<Rightarrow> jt_entry t Op_close)) [2..<MAX_FDS]"

definition restore_parent :: "kstate \<Rightarrow> kstate option" where
  "restore_parent s =
     (case current_PCB s of None \<Rightarrow> None | Some c \<Rightarrow>
      let p = pcbs s c in
      if \<not> closes_defined p then None else
      let s1 = s\<lparr>tss_esp0 := parent_esp0 p,
                 activeProcesses := mask_clear (activeProcesses s) (pcb_id p),
                 currentPID := parent_pid p, current_PCB := Some (parent_pid p)\<rparr>;
          s2 = s1\<lparr>paging := set_user_page (currentPID s1) (paging s1)\<rparr>
      in Some (s2\<lparr>paging := set_video_mem_page (TA_idx s2) (TS_idx s2)
                              (vidmap_inuse (pcbs s2 (parent_pid p))) (paging s2)\<rparr>))"

datatype halt_result = Halt_respawn u32 | Halt_return u32 u32 | Halt_UB

definition halt_finish :: "u32 \<Rightarrow> u8 \<Rightarrow> kstate \<Rightarrow> halt_result \<times> kstate" where
  "halt_finish pebp status s =
     (case restore_parent s of None \<Rightarrow> (Halt_UB, s) | Some s1 \<Rightarrow>
      let s2 = publish_terminal s1
      in if exception_flag s2 then (Halt_return pebp 256, s2\<lparr>exception_flag := False\<rparr>)
         else (Halt_return pebp (ucast status), s2))"

definition halt :: "fsys \<Rightarrow> u8 \<Rightarrow> u32 \<Rightarrow> kstate \<Rightarrow> halt_result \<times> kstate" where
  "halt fs status ebp s =
     (case current_PCB s of None \<Rightarrow> (Halt_UB, s) | Some c \<Rightarrow>
      let pebp = parent_ebp (pcbs s c) in
      if currentPID s < MAX_TERMINALS then
        (let s0 = s\<lparr>activeProcesses := mask_clear (activeProcesses s) (currentPID s)\<rparr> in
         case execute fs ''shell'' ebp s0 of
           (Exec_enter e, s1) \<Rightarrow> (Halt_respawn e, s1)
         | (Exec_UB, s1) \<Rightarrow> (Halt_UB, s1)
         | (Exec_fail, s1) \<Rightarrow> halt_finish pebp status s1)
      else halt_finish pebp status s)"

text \<open>The state \<open>execute\<close> leaves when it enters a program: new pcb, pid bit, published terminal.\<close>

definition exec_state :: "nat \<Rightarrow> string \<Rightarrow> u32 \<Rightarrow> (u32 \<Rightarrow> u8) \<Rightarrow> kstate \<Rightarrow> kstate" where
  "exec_state pid args ebp mem s =
     publish_terminal (s\<lparr>paging := set_user_page pid (paging s), phys_mem := mem,
        activeProcesses := mask_set (activeProcesses s) pid, currentPID := pid, current_PCB := Some pid,
        tss_ss0 := KERNEL_DS,
        pcbs := (pcbs s)(pid := (new_pcb pid (currentPID s) args (pcbs s pid))\<lparr>parent_ebp := ebp, parent_esp0 := tss_esp0 s\<rparr>),
        tss_esp0 := kernel_stack_top pid\<rparr>)"

section \<open>Properties of execute and halt\<close>

lemma find_free_pid_Some:
  "find_free_pid a = Some pid \<Longrightarrow> pid < MAX_PROCESSES \<and> \<not> bit a pid \<and> (\<forall>j<pid. bit a j)"
  by (auto simp: find_free_pid_def find_Some_iff MAX_PROCESSES_def)

lemma find_free_pid_None:
  "find_free_pid a = None \<longleftrightarrow> (\<forall>j<MAX_PROCESSES. bit a j)"
  by (auto simp: find_free_pid_def find_None_iff)

lemma execute_enter_shape:
  assumes "execute fs cmd ebp s = (Exec_enter e, s')"
  shows "\<exists>pid args mem. find_free_pid (activeProcesses s) = Some pid \<and> s' = exec_state pid args ebp mem s"
  using assms
  by (auto simp: execute_def Let_def exec_state_def upd_pcb_def
           split: option.splits rd_result.splits prod.splits if_splits)

lemma set_user_page_twice: "set_user_page p (set_user_page q m) = set_user_page p m"
  by (simp add: set_user_page_def flush_tlb_def)
lemma closes_defined_fresh: "open_files p = 3 \<Longrightarrow> closes_defined p"
  by (simp add: closes_defined_def MAX_FDS_def list_all_iff bit_three)

lemma execute_halt_general:
  assumes ex: "execute fs cmd ebp s = (Exec_enter e, s1)"
    and cur: "current_PCB s = Some (currentPID s)" "bit (activeProcesses s) (currentPID s)"
    and base: "\<forall>i<MAX_TERMINALS. bit (activeProcesses s) i"
    and ta: "TA_idx s < length (terminal_arr s)"
    and pub: "saved_esp0 (terminal_active s) = tss_esp0 s" "t_currentPCB (terminal_active s) = current_PCB s"
             "t_currentPID (terminal_active s) = currentPID s"
  shows "halt fs st ebp' s1 =
           (Halt_return ebp (if exception_flag s then 256 else ucast st),
            s\<lparr>pcbs := pcbs s1, phys_mem := phys_mem s1, tss_ss0 := KERNEL_DS,
               paging := set_video_mem_page (TA_idx s) (TS_idx s) (vidmap_inuse (pcbs s (currentPID s)))
                           (set_user_page (currentPID s) (paging s)),
               exception_flag := False\<rparr>)"
proof -
  obtain pid args mem where fp: "find_free_pid (activeProcesses s) = Some pid"
    and s1: "s1 = exec_state pid args ebp mem s"
    using execute_enter_shape[OF ex] by blast
  from find_free_pid_Some[OF fp] have free: "\<not> bit (activeProcesses s) pid" by simp
  with base have "MAX_TERMINALS \<le> pid" using not_le by blast
  moreover from free cur have ne: "pid \<noteq> currentPID s" by auto
  ultimately have big: "\<not> pid < MAX_TERMINALS" by simp
  have arr: "(terminal_arr s)[TA_idx s := terminal_active s] = terminal_arr s"
    by (simp add: terminal_active_def)
  let ?p = "pcbs s1 pid"
  have cpcb: "current_PCB s1 = Some pid" and cpid: "currentPID s1 = pid"
    by (simp_all add: s1 exec_state_def publish_terminal_def upd_terminal_active_def)
  have pp: "?p = (new_pcb pid (currentPID s) args (pcbs s pid))\<lparr>parent_ebp := ebp, parent_esp0 := tss_esp0 s\<rparr>"
    by (simp add: s1 exec_state_def publish_terminal_def upd_terminal_active_def)
  have rp: "restore_parent s1 = Some (s1\<lparr>tss_esp0 := tss_esp0 s, activeProcesses := activeProcesses s,
                 currentPID := currentPID s, current_PCB := Some (currentPID s),
                 paging := set_video_mem_page (TA_idx s) (TS_idx s) (vidmap_inuse (pcbs s (currentPID s)))
                           (set_user_page (currentPID s) (paging s))\<rparr>)"
    using ne free by (simp add: restore_parent_def cpcb pp new_pcb_def closes_defined_fresh
        mask_clear_set_same s1 exec_state_def publish_terminal_def upd_terminal_active_def set_user_page_twice Let_def)
  have ebp1: "parent_ebp (pcbs s1 pid) = ebp" by (simp add: pp)
  have exc1: "exception_flag s1 = exception_flag s"
    by (simp add: s1 exec_state_def publish_terminal_def upd_terminal_active_def)
  have t1: "terminal_arr s1 = (terminal_arr s)[TA_idx s := (terminal_active s)\<lparr>saved_esp0 := kernel_stack_top pid,
              t_currentPCB := Some pid, t_currentPID := pid\<rparr>]" and ta1: "TA_idx s1 = TA_idx s"
    by (simp_all add: s1 exec_state_def publish_terminal_def upd_terminal_active_def terminal_active_def)
  have pub_id: "(terminal_active s)\<lparr>saved_esp0 := tss_esp0 s, t_currentPCB := Some (currentPID s),
                  t_currentPID := currentPID s\<rparr> = terminal_active s"
    using pub cur by simp
  show ?thesis
    using big ta pub_id
    by (simp add: halt_def halt_finish_def cpcb cpid ebp1 rp exc1 publish_terminal_def
        upd_terminal_active_def t1 ta1 terminal_active_def)
       (simp_all add: s1 exec_state_def publish_terminal_def upd_terminal_active_def cur(1)[symmetric])
qed

text \<open>
  C6: executing a program from a process and then halting the new process
  returns to the caller's \<open>execute\<close> frame with the halt status, and restores
  the caller's pid, pcb pointer, \<open>tss.esp0\<close>, process mask and terminal
  record; only the pcb table, memory and the normalised paging differ.
\<close>

lemma execute_halt_roundtrip:
  assumes ex: "execute fs cmd ebp s = (Exec_enter e, s1)"
    and cur: "current_PCB s = Some (currentPID s)" "bit (activeProcesses s) (currentPID s)"
    and base: "\<forall>i<MAX_TERMINALS. bit (activeProcesses s) i"
    and ta: "TA_idx s < length (terminal_arr s)"
    and pub: "saved_esp0 (terminal_active s) = tss_esp0 s" "t_currentPCB (terminal_active s) = current_PCB s"
             "t_currentPID (terminal_active s) = currentPID s"
    and noexc: "\<not> exception_flag s"
  shows "halt fs st ebp' s1 =
           (Halt_return ebp (ucast st),
            s\<lparr>pcbs := pcbs s1, phys_mem := phys_mem s1, tss_ss0 := KERNEL_DS,
               paging := set_video_mem_page (TA_idx s) (TS_idx s) (vidmap_inuse (pcbs s (currentPID s)))
                           (set_user_page (currentPID s) (paging s))\<rparr>)"
proof -
  have "s\<lparr>exception_flag := False\<rparr> = s" using noexc by simp
  then show ?thesis
    using execute_halt_general[OF ex cur base ta pub, of st ebp'] noexc by simp
qed

lemma find_free_pid_least:
  "i < MAX_PROCESSES \<Longrightarrow> \<not> bit a i \<Longrightarrow> \<forall>j<i. bit a j \<Longrightarrow> find_free_pid a = Some i"
  by (auto simp: find_free_pid_def find_Some_iff MAX_PROCESSES_def)

lemma exec_state_facts:
  assumes "TA_idx s < length (terminal_arr s)"
  shows "currentPID (exec_state pid args ebp mem s) = pid"
    and "current_PCB (exec_state pid args ebp mem s) = Some pid"
    and "activeProcesses (exec_state pid args ebp mem s) = activeProcesses s OR 2 ^ pid"
    and "exception_flag (exec_state pid args ebp mem s) = exception_flag s"
    and "TA_idx (exec_state pid args ebp mem s) = TA_idx s"
    and "length (terminal_arr (exec_state pid args ebp mem s)) = length (terminal_arr s)"
    and "tss_esp0 (exec_state pid args ebp mem s) = kernel_stack_top pid"
    and "terminal_active (exec_state pid args ebp mem s) =
           (terminal_active s)\<lparr>saved_esp0 := kernel_stack_top pid, t_currentPCB := Some pid, t_currentPID := pid\<rparr>"
  using assms
  by (simp_all add: exec_state_def publish_terminal_def upd_terminal_active_def terminal_active_def)

lemma halt_respawn_state:
  assumes base: "currentPID s < MAX_TERMINALS" and cur: "current_PCB s = Some (currentPID s)"
    and shells: "\<forall>j<MAX_TERMINALS. bit (activeProcesses s) j"
    and ta: "TA_idx s < length (terminal_arr s)"
    and ex: "execute fs ''shell'' ebp (s\<lparr>activeProcesses := mask_clear (activeProcesses s) (currentPID s)\<rparr>) = (Exec_enter e, s')"
  shows "halt fs st ebp s = (Halt_respawn e, s')" "currentPID s' = currentPID s"
    "current_PCB s' = Some (currentPID s)" "activeProcesses s' = activeProcesses s"
    "exception_flag s' = exception_flag s" "TA_idx s' = TA_idx s"
    "length (terminal_arr s') = length (terminal_arr s)"
    "saved_esp0 (terminal_active s') = tss_esp0 s'" "t_currentPCB (terminal_active s') = current_PCB s'"
    "t_currentPID (terminal_active s') = currentPID s'"
proof -
  let ?i = "currentPID s" and ?s0 = "s\<lparr>activeProcesses := mask_clear (activeProcesses s) (currentPID s)\<rparr>"
  obtain pid args mem where fp: "find_free_pid (activeProcesses ?s0) = Some pid"
    and s': "s' = exec_state pid args ebp mem ?s0"
    using execute_enter_shape[OF ex] by blast
  have "find_free_pid (activeProcesses ?s0) = Some ?i"
    using base shells by (intro find_free_pid_least) (auto simp: MAX_TERMINALS_def MAX_PROCESSES_def)
  with fp have pid: "pid = ?i" by simp
  show "halt fs st ebp s = (Halt_respawn e, s')"
    using base cur ex by (simp add: halt_def)
  show "activeProcesses s' = activeProcesses s"
    using shells base by (simp add: s' pid exec_state_facts ta mask_set_clear_same)
  show "currentPID s' = ?i" "current_PCB s' = Some ?i" "exception_flag s' = exception_flag s"
    "TA_idx s' = TA_idx s" "length (terminal_arr s') = length (terminal_arr s)"
    "saved_esp0 (terminal_active s') = tss_esp0 s'" "t_currentPCB (terminal_active s') = current_PCB s'"
    "t_currentPID (terminal_active s') = currentPID s'"
    using ta by (simp_all add: s' pid exec_state_facts)
qed

text \<open>
  C7: halting a base shell (pid 0 to 2) restarts a fresh shell under the same
  pid in the same terminal, and the process mask is unchanged.
\<close>

lemma halt_base_shell_respawn:
  assumes base: "currentPID s < MAX_TERMINALS" and cur: "current_PCB s = Some (currentPID s)"
    and shells: "\<forall>j<MAX_TERMINALS. bit (activeProcesses s) j"
    and ta: "TA_idx s < length (terminal_arr s)"
    and ex: "execute fs ''shell'' ebp (s\<lparr>activeProcesses := mask_clear (activeProcesses s) (currentPID s)\<rparr>) = (Exec_enter e, s')"
  shows "halt fs st ebp s = (Halt_respawn e, s') \<and> currentPID s' = currentPID s \<and>
         current_PCB s' = Some (currentPID s) \<and> t_currentPID (terminal_active s') = currentPID s \<and>
         activeProcesses s' = activeProcesses s \<and> exception_flag s' = exception_flag s"
  using halt_respawn_state[OF assms] by simp

text \<open>
  C8: the respawn path of \<open>halt\<close> does not clear \<open>exception_flag\<close>: after a
  base shell dies by an exception, the next child it starts returns 256 from
  its \<open>halt(0)\<close> although it exited normally.
\<close>

lemma stale_exception_flag:
  assumes base: "currentPID s < MAX_TERMINALS" and cur: "current_PCB s = Some (currentPID s)"
    and shells: "\<forall>j<MAX_TERMINALS. bit (activeProcesses s) j"
    and ta: "TA_idx s < length (terminal_arr s)"
    and exc: "exception_flag s"
    and respawn: "execute fs ''shell'' ebp (s\<lparr>activeProcesses := mask_clear (activeProcesses s) (currentPID s)\<rparr>) = (Exec_enter e, s')"
    and child: "execute fs cmd ebp2 s' = (Exec_enter e2, s2)"
  shows "fst (halt fs st ebp s) = Halt_respawn e \<and> fst (halt fs 0 ebp3 s2) = Halt_return ebp2 256"
proof -
  note r = halt_respawn_state[OF base cur shells ta respawn]
  have "\<forall>j<MAX_TERMINALS. bit (activeProcesses s') j" using shells r(4) by simp
  moreover have "bit (activeProcesses s') (currentPID s')" using shells base r(2,4) by simp
  ultimately have "fst (halt fs 0 ebp3 s2) = Halt_return ebp2 (if exception_flag s' then 256 else ucast (0::u8))"
    using execute_halt_general[OF child _ _ _ _ r(8-10)] r(2,3,6,7) ta by simp
  then show ?thesis using r(1,5) exc by simp
qed
lemma store_bytes_None:
  "k < length bs \<Longrightarrow> translate m False (va + of_nat k) = None \<Longrightarrow> store_bytes m mem va bs = None"
proof (induction bs arbitrary: va k mem)
  case Nil then show ?case by simp
next
  case (Cons b bs)
  show ?case
  proof (cases k)
    case 0 then show ?thesis using Cons.prems by simp
  next
    case (Suc k')
    have "translate m False ((va + 1) + of_nat k') = None" using Cons.prems Suc by (simp add: add.assoc)
    then show ?thesis using Cons.IH[of k' "va + 1"] Cons.prems Suc by (simp split: option.splits)
  qed
qed

text \<open>
  C17: a failed \<open>execute\<close> leaves the process mask, the pcbs, the current
  pid and pcb, \<open>tss.esp0\<close> and the terminals as they were; the user window is
  either untouched or rebound to the current pid.
\<close>

lemma execute_fail_no_leak:
  assumes "execute fs cmd ebp s = (Exec_fail, s')"
  shows "s' = s\<lparr>paging := paging s', phys_mem := phys_mem s'\<rparr> \<and>
         (paging s' = paging s \<or> paging s' = set_user_page (currentPID s) (paging s))"
  using assms
  by (auto simp: execute_def Let_def set_user_page_twice
      split: option.splits rd_result.splits prod.splits if_splits)
end
