(* ===== verification/Rtc.thy ===== *)
theory Rtc
  imports Kstate
begin

text \<open>
  The RTC driver of drivers/rtc.c.  The chip ticks at 512 Hz and
  \<open>RTC_Handler\<close> counts the ticks in \<open>rtc_counter\<close>; each terminal keeps a
  bit index \<open>rtc_freq_bit\<close> and its flag \<open>rtc_interrupt_occurred\<close> is raised
  on every tick that flips that bit of the counter, i.e. every
  \<open>2 ^ rtc_freq_bit\<close> ticks.  \<open>rtc_write\<close> turns a frequency into that bit
  index with a shift loop; \<open>rtc_read\<close> clears the active terminal's flag and
  spins until a tick raises it.
\<close>

section \<open>Operations\<close>

definition init_RTC :: "kstate \<Rightarrow> kstate" where
  "init_RTC s = s\<lparr>rtc_counter := 0\<rparr>"

definition rtc_tick_terminal :: "u32 \<Rightarrow> terminal \<Rightarrow> terminal" where
  "rtc_tick_terminal c t =
     (if CHECK_FLAG c (rtc_freq_bit t) \<noteq> CHECK_FLAG (c + 1) (rtc_freq_bit t)
      then t\<lparr>rtc_interrupt_occurred := True\<rparr> else t)"

definition RTC_Handler :: "kstate \<Rightarrow> kstate" where
  "RTC_Handler s =
     s\<lparr>terminal_arr := map (rtc_tick_terminal (rtc_counter s)) (take MAX_TERMINALS (terminal_arr s))
                        @ drop MAX_TERMINALS (terminal_arr s),
       rtc_counter := rtc_counter s + 1\<rparr>"

text \<open>\<open>rtc_read\<close> up to its spin: the flag of the active terminal is cleared.\<close>

definition rtc_read_begin :: "kstate \<Rightarrow> kstate" where
  "rtc_read_begin s = upd_terminal_active (\<lambda>t. t\<lparr>rtc_interrupt_occurred := False\<rparr>) s"

text \<open>The spin of \<open>rtc_read\<close> ends (and it returns 0) once the active terminal's flag is up.\<close>

definition rtc_read_ready :: "kstate \<Rightarrow> bool" where
  "rtc_read_ready s \<longleftrightarrow> rtc_interrupt_occurred (terminal_active s)"

definition rtc_freq_valid :: "u32 \<Rightarrow> bool" where
  "rtc_freq_valid freq \<longleftrightarrow> (freq AND (freq - 1)) = 0 \<and> 2 \<le> freq \<and> freq \<le> 512"

text \<open>The loop \<open>while (freq != 2) { freq >>= 1; freq_bit--; }\<close>; it never ends for 0 and 1.\<close>

partial_function (option) freq_bit_loop :: "u32 \<Rightarrow> u32 \<Rightarrow> u32 option" where
  "freq_bit_loop freq freq_bit =
     (if freq \<noteq> 2 then freq_bit_loop (drop_bit 1 freq) (freq_bit - 1) else Some freq_bit)"

text \<open>\<open>rtc_write\<close>: \<open>Some\<close> return value, or \<open>None\<close> where the loop does not end.\<close>

definition rtc_write :: "u32 \<Rightarrow> kstate \<Rightarrow> i32 option \<times> kstate" where
  "rtc_write freq s =
     (if \<not> rtc_freq_valid freq then (Some (-1), s) else
      case freq_bit_loop freq 8 of
        None \<Rightarrow> (None, s)
      | Some fb \<Rightarrow> (Some 0, upd_terminal_active (\<lambda>t. t\<lparr>rtc_freq_bit := unat fb\<rparr>) s))"

definition rtc_open :: "kstate \<Rightarrow> i32 \<times> kstate" where
  "rtc_open s = (0, upd_terminal_active (\<lambda>t. t\<lparr>rtc_freq_bit := 8\<rparr>) s)"

definition rtc_close :: i32 where "rtc_close = 0"

section \<open>Lemmas\<close>

lemma rtc_tick_flag:
  "rtc_freq_bit t < 32 \<Longrightarrow>
   rtc_interrupt_occurred (rtc_tick_terminal c t) \<longleftrightarrow>
     rtc_interrupt_occurred t \<or> take_bit (rtc_freq_bit t) (c + 1) = 0"
  by (auto simp: rtc_tick_terminal_def bit_flip_iff[symmetric])

lemma rtc_tick_freq_bit [simp]: "rtc_freq_bit (rtc_tick_terminal c t) = rtc_freq_bit t"
  by (simp add: rtc_tick_terminal_def)

lemma RTC_Handler_terminal:
  "i < MAX_TERMINALS \<Longrightarrow> i < length (terminal_arr s) \<Longrightarrow>
   terminal_arr (RTC_Handler s) ! i = rtc_tick_terminal (rtc_counter s) (terminal_arr s ! i)"
  by (simp add: RTC_Handler_def nth_append)

lemma RTC_Handler_simps [simp]:
  "length (terminal_arr (RTC_Handler s)) = length (terminal_arr s)"
  "rtc_counter (RTC_Handler s) = rtc_counter s + 1"
  "TA_idx (RTC_Handler s) = TA_idx s"
  by (simp_all add: RTC_Handler_def)

lemma RTC_Handler_iter:
  assumes i: "i < MAX_TERMINALS" "i < length (terminal_arr s)"
    and b: "rtc_freq_bit (terminal_arr s ! i) < 32"
  shows "length (terminal_arr ((RTC_Handler ^^ n) s)) = length (terminal_arr s) \<and>
         rtc_counter ((RTC_Handler ^^ n) s) = rtc_counter s + of_nat n \<and>
         TA_idx ((RTC_Handler ^^ n) s) = TA_idx s \<and>
         rtc_freq_bit (terminal_arr ((RTC_Handler ^^ n) s) ! i) = rtc_freq_bit (terminal_arr s ! i) \<and>
         (rtc_interrupt_occurred (terminal_arr ((RTC_Handler ^^ n) s) ! i) \<longleftrightarrow>
            rtc_interrupt_occurred (terminal_arr s ! i) \<or>
            (\<exists>j<n. take_bit (rtc_freq_bit (terminal_arr s ! i)) (rtc_counter s + of_nat j + 1) = 0))"
proof (induction n)
  case 0 then show ?case by simp
next
  case (Suc n)
  let ?s = "(RTC_Handler ^^ n) s"
  have t: "terminal_arr (RTC_Handler ?s) ! i = rtc_tick_terminal (rtc_counter ?s) (terminal_arr ?s ! i)"
    using Suc.IH i by (intro RTC_Handler_terminal) simp_all
  show ?case
    using Suc.IH b by (auto simp: t rtc_tick_flag less_Suc_eq add.assoc)
qed

lemma rtc_freq_valid_pow2:
  assumes "rtc_freq_valid f"
  shows "\<exists>k. 1 \<le> k \<and> k \<le> 9 \<and> f = 2 ^ k"
proof -
  have a: "f AND (f - 1) = 0" and lo: "2 \<le> f" and hi: "f \<le> 512"
    using assms by (simp_all add: rtc_freq_valid_def)
  have "unat (f - 1) = unat f - 1" using lo by (simp add: unat_sub word_le_nat_alt)
  then have "unat f AND (unat f - 1) = 0" using a by (metis unsigned_and_eq unat_0)
  moreover have "0 < unat f" using lo by (simp add: word_le_nat_alt)
  ultimately obtain k where k: "unat f = 2 ^ k" using and_pred_eq_0_pow2 by blast
  have "2 \<le> unat f" "unat f \<le> 512" using lo hi by (simp_all add: word_le_nat_alt)
  then have "(2::nat) ^ 1 \<le> 2 ^ k" "(2::nat) ^ k \<le> 2 ^ 9" by (simp_all add: k)
  then have "1 \<le> k" "k \<le> 9" by (simp_all only: power_increasing_iff)
  moreover have "f = 2 ^ k"
  proof -
    have "f = of_nat (unat f)" by simp
    then show ?thesis by (simp add: k)
  qed
  ultimately show ?thesis by blast
qed

lemma pow2_rtc_freq_valid_list: "list_all (\<lambda>k. rtc_freq_valid (2 ^ k)) [1..<10]"
  by (simp add: rtc_freq_valid_def upt_rec)

lemma freq_bit_loop_pow2:
  "1 \<le> k \<Longrightarrow> k < 32 \<Longrightarrow> freq_bit_loop (2 ^ k) fb = Some (fb - of_nat (k - 1))"
proof (induction k arbitrary: fb)
  case 0 then show ?case by simp
next
  case (Suc k)
  show ?case
  proof (cases "k = 0")
    case True then show ?thesis by (simp add: freq_bit_loop.simps)
  next
    case False
    have ne: "(2::u32) ^ Suc k \<noteq> 2"
    proof
      assume "(2::u32) ^ Suc k = 2"
      then have "unat ((2::u32) ^ Suc k) = 2" by simp
      with Suc.prems have "(2::nat) ^ Suc k = 2" by (simp add: unat_pow2 del: power_Suc)
      then show False using False by simp
    qed
    have "freq_bit_loop (2 ^ Suc k) fb = freq_bit_loop (2 ^ k) (fb - 1)"
      using ne Suc.prems drop_bit_pow2[of k] by (simp add: freq_bit_loop.simps[of "2 ^ Suc k"] del: power_Suc)
    also have "\<dots> = Some (fb - 1 - of_nat (k - 1))" using Suc.IH[of "fb - 1"] Suc.prems False by simp
    also have "fb - 1 - of_nat (k - 1) = fb - of_nat (Suc k - 1)"
      using False by (cases k) (simp_all add: algebra_simps)
    finally show ?thesis .
  qed
qed
text \<open>
  \<open>rtc_write\<close> with a frequency it accepts terminates: the frequency is
  \<open>2 ^ k\<close> for some k in 1..9, the shift loop ends, and the active terminal's
  tick bit becomes \<open>9 - k\<close>, so its flag rises every \<open>2 ^ (9 - k)\<close> ticks of the
  512 Hz clock, i.e. at the requested frequency.
\<close>

lemma rtc_write_valid:
  assumes "rtc_freq_valid f"
  shows "\<exists>k. 1 \<le> k \<and> k \<le> 9 \<and> f = 2 ^ k \<and>
           rtc_write f s = (Some 0, upd_terminal_active (\<lambda>t. t\<lparr>rtc_freq_bit := 9 - k\<rparr>) s)"
proof -
  obtain k where k: "1 \<le> k" "k \<le> 9" "f = 2 ^ k" using rtc_freq_valid_pow2[OF assms] by blast
  have l: "freq_bit_loop f 8 = Some (8 - of_nat (k - 1))" using k by (simp add: freq_bit_loop_pow2)
  have h1: "(8::u32) - of_nat (k - 1) = 9 - of_nat k" using k by (simp add: of_nat_diff)
  have h2: "unat ((9::u32) - of_nat k) = 9 - k"
    using k by (subst unat_sub) (simp_all add: word_le_nat_alt unat_of_nat)
  have "unat ((8::u32) - of_nat (k - 1)) = 9 - k" by (simp only: h1 h2)
  then show ?thesis using k l assms by (auto simp: rtc_write_def)
qed

text \<open>
  The frequencies \<open>rtc_write\<close> accepts are exactly the powers of two from
  2 to 512; 1024, which its header comment allows, is rejected.
\<close>

lemma rtc_freq_valid_iff:
  "rtc_freq_valid f \<longleftrightarrow> f \<in> {2, 4, 8, 16, 32, 64, 128, 256, 512}"
proof
  assume "rtc_freq_valid f"
  then obtain k where "1 \<le> k" "k \<le> 9" "f = 2 ^ k" using rtc_freq_valid_pow2 by blast
  then have "k \<in> set [1..<10]" "f = 2 ^ k" by auto
  then show "f \<in> {2, 4, 8, 16, 32, 64, 128, 256, 512}" by (auto simp: upt_rec)
next
  assume "f \<in> {2, 4, 8, 16, 32, 64, 128, 256, 512}"
  then show "rtc_freq_valid f" by (auto simp: rtc_freq_valid_def)
qed

lemma pow2_u32_inj:
  assumes "k \<le> 9" "k' \<le> 9" "(2::u32) ^ k = 2 ^ k'"
  shows "k = k'"
proof -
  have a: "unat ((2::u32) ^ k) = 2 ^ k" using assms(1) by (intro unat_pow2) simp
  have b: "unat ((2::u32) ^ k') = 2 ^ k'" using assms(2) by (intro unat_pow2) simp
  have "(2::nat) ^ k = 2 ^ k'" by (simp only: a[symmetric] b[symmetric] assms(3))
  then show ?thesis by (simp only: power_inject_exp)
qed

text \<open>
  C9: \<open>rtc_write\<close> accepts exactly the powers of two from 2 to 512: any other
  frequency, 1024 included although the function comment allows it, returns
  -1 and changes nothing; for a frequency \<open>2 ^ k\<close>, k in 1..9, the shift loop
  ends, the call returns 0 and the active terminal's tick bit becomes
  \<open>9 - k\<close>, so its flag rises every \<open>2 ^ (9 - k)\<close> ticks of the 512 Hz clock,
  i.e. at the requested frequency.
\<close>

theorem rtc_write_spec:
  "(rtc_freq_valid f \<longleftrightarrow> f \<in> {2, 4, 8, 16, 32, 64, 128, 256, 512}) \<and>
   (f \<notin> {2, 4, 8, 16, 32, 64, 128, 256, 512} \<longrightarrow> rtc_write f s = (Some (-1), s)) \<and>
   (1 \<le> k \<and> k \<le> 9 \<longrightarrow> rtc_write (2 ^ k) s = (Some 0, upd_terminal_active (\<lambda>t. t\<lparr>rtc_freq_bit := 9 - k\<rparr>) s))"
proof -
  have pow: "rtc_write (2 ^ k) s = (Some 0, upd_terminal_active (\<lambda>t. t\<lparr>rtc_freq_bit := 9 - k\<rparr>) s)"
    if k: "1 \<le> k" "k \<le> 9"
  proof -
    have "k \<in> set [1..<10]" using k by simp
    then have v: "rtc_freq_valid (2 ^ k)" using pow2_rtc_freq_valid_list by (simp add: list_all_iff)
    obtain k' where k': "1 \<le> k'" "k' \<le> 9" "(2::u32) ^ k = 2 ^ k'"
      and w: "rtc_write (2 ^ k) s = (Some 0, upd_terminal_active (\<lambda>t. t\<lparr>rtc_freq_bit := 9 - k'\<rparr>) s)"
      using rtc_write_valid[OF v, of s] by blast
    have "k = k'" using k(2) k'(2,3) by (rule pow2_u32_inj)
    then show ?thesis using w by simp
  qed
  show ?thesis using rtc_freq_valid_iff[of f] pow by (auto simp: rtc_write_def)
qed

text \<open>
  C11: the spin of \<open>rtc_read\<close> ends: after it clears the active terminal's
  flag, some tick among the next \<open>2 ^ rtc_freq_bit\<close> RTC interrupts raises it.
\<close>

lemma rtc_read_returns:
  assumes ta: "TA_idx s < MAX_TERMINALS" and len: "MAX_TERMINALS \<le> length (terminal_arr s)"
    and b: "rtc_freq_bit (terminal_active s) < 32"
  shows "\<exists>n. 0 < n \<and> n \<le> 2 ^ rtc_freq_bit (terminal_active s) \<and>
             rtc_read_ready ((RTC_Handler ^^ n) (rtc_read_begin s))"
proof -
  let ?s0 = "rtc_read_begin s" and ?i = "TA_idx s" and ?b = "rtc_freq_bit (terminal_active s)"
  let ?c = "rtc_counter s"
  define j where "j = 2 ^ ?b - Suc (unat ?c mod 2 ^ ?b)"
  have r: "unat ?c mod 2 ^ ?b < 2 ^ ?b" by simp
  have jlt: "j < 2 ^ ?b" using r by (simp add: j_def)
  have i: "?i < length (terminal_arr ?s0)" "TA_idx ?s0 = ?i"
    using ta len by (simp_all add: rtc_read_begin_def upd_terminal_active_def MAX_TERMINALS_def)
  have t0: "terminal_arr ?s0 ! ?i = (terminal_active s)\<lparr>rtc_interrupt_occurred := False\<rparr>"
    using ta len by (simp add: rtc_read_begin_def upd_terminal_active_def MAX_TERMINALS_def)
  have c0: "rtc_counter ?s0 = ?c" by (simp add: rtc_read_begin_def upd_terminal_active_def)
  have dv: "(unat ?c + j + 1) mod 2 ^ ?b = 0"
  proof -
    define x p q rr where "x = unat ?c" and "p = (2::nat) ^ ?b" and "q = x div p" and "rr = x mod p"
    have e: "x = q * p + rr" unfolding q_def rr_def by (rule div_mult_mod_eq[symmetric])
    have rp: "rr < p" unfolding rr_def p_def by simp
    have "x + j + 1 = (q + 1) * p" unfolding j_def using e rp
      by (simp flip: x_def p_def rr_def add: algebra_simps)
    then show ?thesis by (simp flip: x_def p_def)
  qed
  have "?c + of_nat j + 1 = of_nat (unat ?c + j + 1)" by simp
  then have "unat (?c + of_nat j + 1) mod 2 ^ ?b = (unat ?c + j + 1) mod 2 ^ 32 mod 2 ^ ?b"
    by (simp only: unat_of_nat take_bit_eq_mod len_of_numeral_defs) simp
  also have "\<dots> = 0" using b dv by (simp only: mod_2_32_mod)
  finally have hit: "take_bit ?b (?c + of_nat j + 1) = 0" by (simp only: take_bit_u32_eq_0)
  have "rtc_interrupt_occurred (terminal_arr ((RTC_Handler ^^ Suc j) ?s0) ! ?i)"
    using RTC_Handler_iter[of ?i ?s0 "Suc j"] ta i t0 c0 b hit by auto
  moreover have "TA_idx ((RTC_Handler ^^ Suc j) ?s0) = ?i"
    using RTC_Handler_iter[of ?i ?s0 "Suc j"] ta i t0 b by simp
  ultimately show ?thesis using jlt
    by (intro exI[of _ "Suc j"]) (simp add: rtc_read_ready_def terminal_active_def)
qed
end
