(* ===== verification/Syscall.thy ===== *)
theory Syscall
  imports Process Rtc
begin

text \<open>
  The descriptor system calls of syscall.c: \<open>read\<close>, \<open>write\<close>, \<open>open\<close>,
  \<open>close\<close>, \<open>getargs\<close>, \<open>vidmap\<close> and the two signal stubs.  Each takes the
  kernel state and returns a \<open>sys_result\<close> with the state after the call:
  \<open>Sys_ret v bs\<close> for the return value \<open>v\<close> (with the bytes \<open>bs\<close> delivered to
  the user buffer or printed), \<open>Sys_block\<close> where the call spins on a flag
  that only an interrupt raises (\<open>rtc_read\<close>, \<open>terminal_read\<close>),
  \<open>Sys_hang\<close> where it loops forever, \<open>Sys_null\<close> where it dereferences NULL
  (a NULL \<open>current_PCB\<close> or jump-table entry), and \<open>Sys_overrun\<close> where it
  writes or reads outside a buffer.  \<open>read\<close>, \<open>write\<close>, \<open>open\<close> and
  \<open>close\<close> are keywords of Isabelle, so the calls are named \<open>read_syscall\<close>,
  \<open>write_syscall\<close>, \<open>open_syscall\<close> and \<open>close_syscall\<close>.  The jump-table call
  \<open>fops_table_ptr->op(...)\<close> is a case on the table of the descriptor.
\<close>

section \<open>Results and descriptor helpers\<close>

datatype sys_result = Sys_ret i32 "u8 list" | Sys_block | Sys_hang | Sys_null | Sys_overrun

definition upd_fd :: "nat \<Rightarrow> nat \<Rightarrow> file_desc \<Rightarrow> kstate \<Rightarrow> kstate" where
  "upd_fd c fd d s = upd_pcb c (\<lambda>p. p\<lparr>file_desc_arr := (file_desc_arr p)[fd := d]\<rparr>) s"

text \<open>The cleared descriptor \<open>close\<close> leaves behind.\<close>

definition empty_file_desc :: file_desc where
  "empty_file_desc = \<lparr>fops_table_ptr = None, inode_num = 0, file_pos = 0, flags = 0\<rparr>"

text \<open>The \<open>uint32_t\<close> a pointer store writes, as four little-endian bytes.\<close>

definition u32_bytes :: "u32 \<Rightarrow> u8 list" where
  "u32_bytes w = [ucast w, ucast (drop_bit 8 w), ucast (drop_bit 16 w), ucast (drop_bit 24 w)]"

section \<open>read and write\<close>

definition read_dispatch :: "fsys \<Rightarrow> nat \<Rightarrow> nat \<Rightarrow> i32 \<Rightarrow> kstate \<Rightarrow> sys_result \<times> kstate" where
  "read_dispatch fs c fd nbytes s =
     (let d = file_desc_arr (pcbs s c) ! fd in
      case fops_table_ptr d of None \<Rightarrow> (Sys_null, s) | Some t \<Rightarrow>
      if \<not> jt_entry t Op_read then (Sys_null, s) else
      case t of
        file_jmptable \<Rightarrow>
          (case file_read fs d nbytes of
             (Read_ret n bs, d') \<Rightarrow> (Sys_ret n bs, upd_fd c fd d' s)
           | (Read_overrun, _) \<Rightarrow> (Sys_overrun, s))
      | directory_jmptable \<Rightarrow>
          (case directory_read fs d nbytes of
             (Read_ret n bs, d') \<Rightarrow> (Sys_ret n bs, upd_fd c fd d' s)
           | (Read_overrun, _) \<Rightarrow> (Sys_overrun, s))
      | rtc_jmptable \<Rightarrow> (Sys_block, rtc_read_begin s)
      | stdin_jmptable \<Rightarrow> (Sys_block, terminal_read_begin s)
      | stdout_jmptable \<Rightarrow> (Sys_null, s))"

definition read_syscall :: "fsys \<Rightarrow> i32 \<Rightarrow> i32 \<Rightarrow> kstate \<Rightarrow> sys_result \<times> kstate" where
  "read_syscall fs fd nbytes s =
     (if fd < 0 \<or> fd = 1 \<or> int MAX_FDS \<le> fd then (Sys_ret (-1) [], s) else
      case current_PCB s of None \<Rightarrow> (Sys_null, s) | Some c \<Rightarrow>
      if \<not> CHECK_FLAG (open_files (pcbs s c)) (nat fd) then (Sys_ret (-1) [], s)
      else read_dispatch fs c (nat fd) nbytes s)"

text \<open>\<open>rtc_write\<close> reads the frequency as the \<open>uint32_t\<close> at the start of the buffer.\<close>

definition write_dispatch :: "nat \<Rightarrow> nat \<Rightarrow> u8 list \<Rightarrow> i32 \<Rightarrow> kstate \<Rightarrow> sys_result \<times> kstate" where
  "write_dispatch c fd buf nbytes s =
     (let d = file_desc_arr (pcbs s c) ! fd in
      case fops_table_ptr d of None \<Rightarrow> (Sys_null, s) | Some t \<Rightarrow>
      if \<not> jt_entry t Op_write then (Sys_null, s) else
      case t of
        file_jmptable \<Rightarrow> (Sys_ret file_write [], s)
      | directory_jmptable \<Rightarrow> (Sys_ret directory_write [], s)
      | rtc_jmptable \<Rightarrow>
          (if length buf < 4 then (Sys_overrun, s) else
           case rtc_write (le32 (take 4 buf)) s of
             (None, s') \<Rightarrow> (Sys_hang, s')
           | (Some r, s') \<Rightarrow> (Sys_ret r [], s'))
      | stdout_jmptable \<Rightarrow>
          (case terminal_write buf nbytes of
             None \<Rightarrow> (Sys_overrun, s)
           | Some (r, out) \<Rightarrow> (Sys_ret r out, s))
      | stdin_jmptable \<Rightarrow> (Sys_null, s))"

definition write_syscall :: "i32 \<Rightarrow> u8 list \<Rightarrow> i32 \<Rightarrow> kstate \<Rightarrow> sys_result \<times> kstate" where
  "write_syscall fd buf nbytes s =
     (if fd < 1 \<or> int MAX_FDS \<le> fd then (Sys_ret (-1) [], s) else
      case current_PCB s of None \<Rightarrow> (Sys_null, s) | Some c \<Rightarrow>
      if \<not> CHECK_FLAG (open_files (pcbs s c)) (nat fd) then (Sys_ret (-1) [], s)
      else write_dispatch c (nat fd) buf nbytes s)"

section \<open>open and close\<close>

definition find_free_fd :: "u8 \<Rightarrow> nat option" where
  "find_free_fd ofs = find (\<lambda>i. \<not> CHECK_FLAG ofs i) [2..<MAX_FDS]"

text \<open>The \<open>switch\<close> on the file type has no default: another type keeps the old table pointer.\<close>

definition fops_of_type :: "u32 \<Rightarrow> fops option \<Rightarrow> fops option" where
  "fops_of_type ty old =
     (if ty = RTC_FILE_TYPE then Some rtc_jmptable
      else if ty = DIRECTORY_FILE_TYPE then Some directory_jmptable
      else if ty = REGULAR_FILE_TYPE then Some file_jmptable
      else old)"

text \<open>The \<open>open\<close> entry of each table; only the RTC's changes state.\<close>

fun open_op :: "fops \<Rightarrow> kstate \<Rightarrow> i32 \<times> kstate" where
  "open_op rtc_jmptable s = rtc_open s"
| "open_op file_jmptable s = (file_open, s)"
| "open_op directory_jmptable s = (directory_open, s)"
| "open_op stdin_jmptable s = (terminal_open, s)"
| "open_op stdout_jmptable s = (terminal_open, s)"

definition open_syscall :: "fsys \<Rightarrow> string \<Rightarrow> kstate \<Rightarrow> sys_result \<times> kstate" where
  "open_syscall fs filename s =
     (case current_PCB s of None \<Rightarrow> (Sys_null, s) | Some c \<Rightarrow>
      case find_free_fd (open_files (pcbs s c)) of None \<Rightarrow> (Sys_ret (-1) [], s) | Some fd \<Rightarrow>
      case read_dentry_by_name fs filename of None \<Rightarrow> (Sys_ret (-1) [], s) | Some dentry \<Rightarrow>
      let d = file_desc_arr (pcbs s c) ! fd;
          d' = d\<lparr>fops_table_ptr := fops_of_type (file_type dentry) (fops_table_ptr d),
                 inode_num := inode_idx dentry, file_pos := 0, flags := 0\<rparr>;
          s1 = upd_fd c fd d' s
      in case fops_table_ptr d' of None \<Rightarrow> (Sys_null, s1) | Some t \<Rightarrow>
         let (r, s2) = open_op t s1 in
         if r = -1 then (Sys_ret (-1) [], s2)
         else (Sys_ret (int fd) [], upd_pcb c (\<lambda>p. p\<lparr>open_files := mask_set (open_files p) fd\<rparr>) s2))"

fun close_op :: "fops \<Rightarrow> i32 option" where
  "close_op rtc_jmptable = Some rtc_close"
| "close_op file_jmptable = Some file_close"
| "close_op directory_jmptable = Some directory_close"
| "close_op stdin_jmptable = None"
| "close_op stdout_jmptable = None"

definition close_syscall :: "i32 \<Rightarrow> kstate \<Rightarrow> sys_result \<times> kstate" where
  "close_syscall fd s =
     (if fd < 2 \<or> int MAX_FDS \<le> fd then (Sys_ret (-1) [], s) else
      case current_PCB s of None \<Rightarrow> (Sys_null, s) | Some c \<Rightarrow>
      let i = nat fd in
      if \<not> CHECK_FLAG (open_files (pcbs s c)) i then (Sys_ret (-1) [], s) else
      case fops_table_ptr (file_desc_arr (pcbs s c) ! i) of None \<Rightarrow> (Sys_null, s) | Some t \<Rightarrow>
      case close_op t of None \<Rightarrow> (Sys_null, s) | Some r \<Rightarrow>
      if r = -1 then (Sys_ret (-1) [], s) else
      let s1 = upd_fd c i empty_file_desc s
      in (Sys_ret 0 [], upd_pcb c (\<lambda>p. p\<lparr>open_files := mask_clear (open_files p) i\<rparr>) s1))"

section \<open>getargs, vidmap and the signal stubs\<close>

text \<open>A negative count becomes a huge \<open>uint32_t\<close> for \<open>strncpy\<close>, which then writes past the user buffer.\<close>

definition getargs :: "i32 \<Rightarrow> kstate \<Rightarrow> sys_result \<times> kstate" where
  "getargs nbytes s =
     (case current_PCB s of None \<Rightarrow> (Sys_null, s) | Some c \<Rightarrow>
      if cmd_args (pcbs s c) = [] then (Sys_ret (-1) [], s)
      else if nbytes < 0 then (Sys_overrun, s)
      else (Sys_ret 0 (strncpy_bytes (nat nbytes) (cmd_args (pcbs s c))), s))"

text \<open>\<open>*screen_start = VIRTUAL_VMEM_BASE_ADDR\<close> is a kernel store through the paging; a fault there is \<open>Sys_overrun\<close>.\<close>

definition vidmap :: "u32 \<Rightarrow> kstate \<Rightarrow> sys_result \<times> kstate" where
  "vidmap screen_start s =
     (if screen_start < VIRTUAL_USER_BASE_ADDR \<or> VIRTUAL_USER_BASE_ADDR + SIZE_4MB \<le> screen_start
      then (Sys_ret (-1) [], s) else
      case current_PCB s of None \<Rightarrow> (Sys_null, s) | Some c \<Rightarrow>
      let s1 = s\<lparr>paging := set_video_mem_page (TA_idx s) (TS_idx s) 1 (paging s)\<rparr>;
          s2 = upd_pcb c (\<lambda>p. p\<lparr>vidmap_inuse := 1\<rparr>) s1
      in case store_bytes (paging s2) (phys_mem s2) screen_start (u32_bytes VIRTUAL_VMEM_BASE_ADDR) of
           None \<Rightarrow> (Sys_overrun, s2)
         | Some mem \<Rightarrow> (Sys_ret 0 [], s2\<lparr>phys_mem := mem\<rparr>))"

definition set_handler :: i32 where "set_handler = -1"
definition sigreturn :: i32 where "sigreturn = -1"

section \<open>The descriptor invariant and the system call step\<close>

text \<open>
  The part of the spec's descriptor invariant the code maintains: the table is
  \<open>MAX_FDS\<close> long, slots 0 and 1 are open on stdin and stdout, and every open
  slot from 2 on holds one of the tables whose entries are all defined.
\<close>

definition fd_inv :: "pcb \<Rightarrow> bool" where
  "fd_inv p \<longleftrightarrow> length (file_desc_arr p) = MAX_FDS \<and>
     CHECK_FLAG (open_files p) 0 \<and> CHECK_FLAG (open_files p) 1 \<and>
     fops_table_ptr (file_desc_arr p ! 0) = Some stdin_jmptable \<and>
     fops_table_ptr (file_desc_arr p ! 1) = Some stdout_jmptable \<and>
     list_all (\<lambda>i. CHECK_FLAG (open_files p) i \<longrightarrow>
        fops_table_ptr (file_desc_arr p ! i) \<in> {Some rtc_jmptable, Some file_jmptable, Some directory_jmptable})
       [2..<MAX_FDS]"

text \<open>A disk whose directory entries all have one of the three file types \<open>open\<close> handles.\<close>

definition types_ok :: "fsys \<Rightarrow> bool" where
  "types_ok fs \<longleftrightarrow> list_all (\<lambda>i. file_type (file_dir_arr fs i) \<le> 2) [0..<unat (num_dir_entries fs)]"

datatype fd_call = Call_read i32 i32 | Call_write i32 "u8 list" i32 | Call_open string
  | Call_close i32 | Call_getargs i32 | Call_vidmap u32

fun fd_syscall :: "fsys \<Rightarrow> fd_call \<Rightarrow> kstate \<Rightarrow> sys_result \<times> kstate" where
  "fd_syscall fs (Call_read fd n) s = read_syscall fs fd n s"
| "fd_syscall fs (Call_write fd buf n) s = write_syscall fd buf n s"
| "fd_syscall fs (Call_open name) s = open_syscall fs name s"
| "fd_syscall fs (Call_close fd) s = close_syscall fd s"
| "fd_syscall fs (Call_getargs n) s = getargs n s"
| "fd_syscall fs (Call_vidmap a) s = vidmap a s"

section \<open>Properties\<close>

lemma fd_inv_slots:
  "fd_inv p \<longleftrightarrow> length (file_desc_arr p) = MAX_FDS \<and> bit (open_files p) 0 \<and> bit (open_files p) 1 \<and>
     fops_table_ptr (file_desc_arr p ! 0) = Some stdin_jmptable \<and>
     fops_table_ptr (file_desc_arr p ! 1) = Some stdout_jmptable \<and>
     (\<forall>i. 2 \<le> i \<and> i < MAX_FDS \<longrightarrow> bit (open_files p) i \<longrightarrow>
        fops_table_ptr (file_desc_arr p ! i) \<in> {Some rtc_jmptable, Some file_jmptable, Some directory_jmptable})"
  by (auto simp: fd_inv_def list_all_iff)

lemma find_dentry_entry:
  "find_dentry fs name i = Some d \<Longrightarrow> \<exists>j<unat (num_dir_entries fs). d = file_dir_arr fs j"
proof (induction fs name i rule: find_dentry.induct)
  case (1 fs fname i)
  then show ?case by (auto simp: find_dentry.simps split: if_splits)
qed

lemma types_ok_dentry:
  "types_ok fs \<Longrightarrow> read_dentry_by_name fs name = Some d \<Longrightarrow> file_type d \<le> 2"
  by (auto simp: types_ok_def read_dentry_by_name_def list_all_iff dest!: find_dentry_entry)

lemma find_free_fd_Some:
  "find_free_fd ofs = Some fd \<Longrightarrow> 2 \<le> fd \<and> fd < MAX_FDS \<and> \<not> bit ofs fd \<and> (\<forall>j. 2 \<le> j \<and> j < fd \<longrightarrow> bit ofs j)"
proof -
  assume "find_free_fd ofs = Some fd"
  then obtain k where k: "k < MAX_FDS - 2" "fd = 2 + k" "\<not> bit ofs fd"
    and before: "\<forall>m<k. bit ofs (2 + m)"
    by (auto simp: find_free_fd_def find_Some_iff)
  have "bit ofs j" if "2 \<le> j" "j < fd" for j
  proof -
    have e: "2 + (j - 2) = j" using that(1) by simp
    have "j - 2 < k" using that k(2) by simp
    then have "bit ofs (2 + (j - 2))" using before by blast
    then show ?thesis by (simp only: e)
  qed
  then show ?thesis using k by (simp add: MAX_FDS_def)
qed

lemma fops_of_type_valid:
  "ty \<le> 2 \<Longrightarrow> fops_of_type ty old \<in> {Some rtc_jmptable, Some file_jmptable, Some directory_jmptable}"
proof -
  assume "ty \<le> 2"
  then have "unat ty \<le> 2" by (simp add: word_le_nat_alt)
  then have "unat ty = 0 \<or> unat ty = 1 \<or> unat ty = 2" by linarith
  then have "ty = 0 \<or> ty = 1 \<or> ty = 2" by (auto simp: word_unat_eq_iff)
  then show ?thesis by (auto simp: fops_of_type_def RTC_FILE_TYPE_def DIRECTORY_FILE_TYPE_def REGULAR_FILE_TYPE_def)
qed

lemma open_op_facts:
  "fst (open_op t s) = 0 \<and> pcbs (snd (open_op t s)) = pcbs s \<and> current_PCB (snd (open_op t s)) = current_PCB s"
  by (cases t) (simp_all add: rtc_open_def upd_terminal_active_def file_open_def directory_open_def terminal_open_def)

lemma open_success:
  assumes c: "current_PCB s = Some c" and ff: "find_free_fd (open_files (pcbs s c)) = Some fd"
    and rd: "read_dentry_by_name fs name = Some d" and ty: "file_type d \<le> 2"
  shows "\<exists>s'. open_syscall fs name s = (Sys_ret (int fd) [], s') \<and> current_PCB s' = Some c \<and>
           pcbs s' c = (pcbs s c)\<lparr>file_desc_arr := (file_desc_arr (pcbs s c))[fd :=
             (file_desc_arr (pcbs s c) ! fd)\<lparr>fops_table_ptr := fops_of_type (file_type d) (fops_table_ptr (file_desc_arr (pcbs s c) ! fd)),
                inode_num := inode_idx d, file_pos := 0, flags := 0\<rparr>],
             open_files := open_files (pcbs s c) OR 2 ^ fd\<rparr> \<and>
           (\<forall>q. q \<noteq> c \<longrightarrow> pcbs s' q = pcbs s q)"
proof -
  let ?d = "file_desc_arr (pcbs s c) ! fd"
  let ?d' = "?d\<lparr>fops_table_ptr := fops_of_type (file_type d) (fops_table_ptr ?d),
                inode_num := inode_idx d, file_pos := 0, flags := 0\<rparr>"
  let ?s1 = "upd_fd c fd ?d' s"
  obtain t where t: "fops_of_type (file_type d) (fops_table_ptr ?d) = Some t"
    using fops_of_type_valid[OF ty] by blast
  obtain r s2 where o: "open_op t ?s1 = (r, s2)" by (cases "open_op t ?s1")
  have r: "r = 0" "pcbs s2 = pcbs ?s1" "current_PCB s2 = current_PCB ?s1"
    using open_op_facts[of t ?s1] o by simp_all
  have "open_syscall fs name s =
          (Sys_ret (int fd) [], upd_pcb c (\<lambda>p. p\<lparr>open_files := open_files p OR 2 ^ fd\<rparr>) s2)"
    using c ff rd t o r(1) by (simp add: open_syscall_def Let_def)
  then show ?thesis using r c by (auto simp: upd_pcb_def upd_fd_def)
qed

lemma open_ret_cases:
  assumes c: "current_PCB s = Some c" and o: "open_syscall fs name s = (Sys_ret r [], s')" and r: "r \<noteq> -1"
    and ok: "types_ok fs"
  obtains fd d where "find_free_fd (open_files (pcbs s c)) = Some fd" "read_dentry_by_name fs name = Some d"
    "file_type d \<le> 2"
proof -
  obtain fd where fd: "find_free_fd (open_files (pcbs s c)) = Some fd"
    using c o r by (cases "find_free_fd (open_files (pcbs s c))") (simp_all add: open_syscall_def)
  obtain d where d: "read_dentry_by_name fs name = Some d"
    using c o r fd by (cases "read_dentry_by_name fs name") (simp_all add: open_syscall_def)
  show ?thesis using that fd d types_ok_dentry[OF ok d] by blast
qed

text \<open>
  C12: a successful \<open>open\<close> returns the lowest free descriptor \<open>fd\<close> in [2,7]
  and sets exactly its bit in the process's \<open>open_files\<close> mask.
\<close>

lemma open_sets_one_bit:
  assumes c: "current_PCB s = Some c" and o: "open_syscall fs name s = (Sys_ret r [], s')" and r: "r \<noteq> -1"
    and ok: "types_ok fs"
  shows "\<exists>fd. r = int fd \<and> 2 \<le> fd \<and> fd < MAX_FDS \<and> \<not> bit (open_files (pcbs s c)) fd \<and>
           (\<forall>j. 2 \<le> j \<and> j < fd \<longrightarrow> bit (open_files (pcbs s c)) j) \<and>
           open_files (pcbs s' c) = open_files (pcbs s c) OR 2 ^ fd"
proof -
  obtain fd d where fd: "find_free_fd (open_files (pcbs s c)) = Some fd"
    and d: "read_dentry_by_name fs name = Some d" and ty: "file_type d \<le> 2"
    using open_ret_cases[OF c o r ok] by blast
  show ?thesis using open_success[OF c fd d ty] o find_free_fd_Some[OF fd] by auto
qed

lemma close_success:
  assumes c: "current_PCB s = Some c" and i: "2 \<le> i" "i < MAX_FDS" and b: "bit (open_files (pcbs s c)) i"
    and t: "fops_table_ptr (file_desc_arr (pcbs s c) ! i) \<in> {Some rtc_jmptable, Some file_jmptable, Some directory_jmptable}"
  shows "close_syscall (int i) s =
           (Sys_ret 0 [], upd_pcb c (\<lambda>p. p\<lparr>open_files := open_files p AND NOT (2 ^ i)\<rparr>) (upd_fd c i empty_file_desc s))"
  using c i b t by (auto simp: close_syscall_def MAX_FDS_def rtc_close_def file_close_def directory_close_def)

text \<open>
  \<open>close\<close> of a descriptor out of [2,7] or whose bit is clear returns -1
  and leaves the whole kernel state unchanged.
\<close>

lemma close_unset_fails:
  assumes c: "current_PCB s = Some c"
    and bad: "fd < 2 \<or> int MAX_FDS \<le> fd \<or> \<not> bit (open_files (pcbs s c)) (nat fd)"
  shows "close_syscall fd s = (Sys_ret (-1) [], s)"
  using c bad by (auto simp: close_syscall_def)

text \<open>
  C13: closing the descriptor a successful \<open>open\<close> returned succeeds and gives
  back the process's mask as it was before the open, with the slot cleared.
\<close>

lemma open_close_roundtrip:
  assumes c: "current_PCB s = Some c" and o: "open_syscall fs name s = (Sys_ret r [], s1)" and r: "r \<noteq> -1"
    and ok: "types_ok fs" and len: "length (file_desc_arr (pcbs s c)) = MAX_FDS"
  shows "\<exists>s2. close_syscall r s1 = (Sys_ret 0 [], s2) \<and> current_PCB s2 = Some c \<and>
              open_files (pcbs s2 c) = open_files (pcbs s c) \<and>
              file_desc_arr (pcbs s2 c) = (file_desc_arr (pcbs s c))[nat r := empty_file_desc]"
proof -
  obtain fd d where fd: "find_free_fd (open_files (pcbs s c)) = Some fd"
    and d: "read_dentry_by_name fs name = Some d" and ty: "file_type d \<le> 2"
    using open_ret_cases[OF c o r ok] by blast
  note f = find_free_fd_Some[OF fd]
  note os = open_success[OF c fd d ty]
  have r': "r = int fd" and c1: "current_PCB s1 = Some c"
    and m1: "open_files (pcbs s1 c) = open_files (pcbs s c) OR 2 ^ fd"
    and a1: "file_desc_arr (pcbs s1 c) = (file_desc_arr (pcbs s c))[fd :=
             (file_desc_arr (pcbs s c) ! fd)\<lparr>fops_table_ptr := fops_of_type (file_type d) (fops_table_ptr (file_desc_arr (pcbs s c) ! fd)),
                inode_num := inode_idx d, file_pos := 0, flags := 0\<rparr>]"
    using os o by auto
  have b1: "bit (open_files (pcbs s1 c)) fd" using m1 f by (simp add: bit_or_iff bit_exp_iff MAX_FDS_def)
  have t1: "fops_table_ptr (file_desc_arr (pcbs s1 c) ! fd) \<in> {Some rtc_jmptable, Some file_jmptable, Some directory_jmptable}"
    using a1 len f fops_of_type_valid[OF ty] by simp
  have cl: "close_syscall r s1 =
           (Sys_ret 0 [], upd_pcb c (\<lambda>p. p\<lparr>open_files := open_files p AND NOT (2 ^ fd)\<rparr>) (upd_fd c fd empty_file_desc s1))"
    using close_success[OF c1 _ _ b1 t1] f r' by simp
  have "open_files (pcbs s1 c) AND NOT (2 ^ fd) = open_files (pcbs s c)"
    using m1 f mask_clear_set_same[of "open_files (pcbs s c)" fd] by simp
  then show ?thesis using cl c1 a1 r' by (simp add: upd_pcb_def upd_fd_def)
qed

lemma file_read_fops [simp]:
  "fops_table_ptr (snd (file_read fs d n)) = fops_table_ptr d"
  "fops_table_ptr (snd (directory_read fs d n)) = fops_table_ptr d"
  by (auto simp: file_read_def directory_read_def Let_def split: rd_result.splits)

lemma terminal_ops_pcbs [simp]:
  "pcbs (upd_terminal_active f s) = pcbs s" "current_PCB (upd_terminal_active f s) = current_PCB s"
  by (simp_all add: upd_terminal_active_def)

lemma fd_inv_upd_same:
  assumes "fd_inv p" "fops_table_ptr d' = fops_table_ptr (file_desc_arr p ! i)"
  shows "fd_inv (p\<lparr>file_desc_arr := (file_desc_arr p)[i := d']\<rparr>)"
  using assms by (cases "i < length (file_desc_arr p)") (auto simp: fd_inv_slots nth_list_update MAX_FDS_def list_update_beyond)

lemma fd_inv_open:
  assumes "fd_inv p" "2 \<le> i" "t \<in> {Some rtc_jmptable, Some file_jmptable, Some directory_jmptable}"
  shows "fd_inv (p\<lparr>file_desc_arr := (file_desc_arr p)[i := d\<lparr>fops_table_ptr := t, inode_num := n, file_pos := 0, flags := 0\<rparr>],
                   open_files := open_files p OR 2 ^ i\<rparr>)"
  using assms by (cases "i < length (file_desc_arr p)") (auto simp: fd_inv_slots nth_list_update bit_or_iff bit_exp_iff MAX_FDS_def list_update_beyond)

lemma fd_inv_close:
  assumes "fd_inv p" "2 \<le> i"
  shows "fd_inv (p\<lparr>file_desc_arr := (file_desc_arr p)[i := empty_file_desc],
                   open_files := open_files p AND NOT (2 ^ i)\<rparr>)"
  using assms by (cases "i < length (file_desc_arr p)") (auto simp: fd_inv_slots nth_list_update bit_and_iff bit_not_iff bit_exp_iff MAX_FDS_def empty_file_desc_def list_update_beyond)

lemma read_keeps_fd_inv:
  assumes c: "current_PCB s = Some c" and inv: "fd_inv (pcbs s c)" and r: "read_syscall fs fd n s = (x, s')"
  shows "current_PCB s' = Some c \<and> fd_inv (pcbs s' c)"
  using c inv r
  by (auto simp: read_syscall_def read_dispatch_def upd_fd_def upd_pcb_def Let_def rtc_read_begin_def
      terminal_read_begin_def setIdx_def fd_inv_upd_same
      split: if_splits option.splits fops.splits prod.splits read_out.splits
      dest: arg_cong[where f = "\<lambda>x. fops_table_ptr (snd x)"])

lemma write_keeps_fd_inv:
  assumes c: "current_PCB s = Some c" and inv: "fd_inv (pcbs s c)" and r: "write_syscall fd buf n s = (x, s')"
  shows "current_PCB s' = Some c \<and> fd_inv (pcbs s' c)"
  using c inv r
  by (auto simp: write_syscall_def write_dispatch_def rtc_write_def Let_def
      split: if_splits option.splits fops.splits prod.splits)

lemma open_keeps_fd_inv:
  assumes c: "current_PCB s = Some c" and inv: "fd_inv (pcbs s c)" and ok: "types_ok fs"
    and r: "open_syscall fs name s = (x, s')"
  shows "current_PCB s' = Some c \<and> fd_inv (pcbs s' c)"
proof (cases "\<exists>fd d. find_free_fd (open_files (pcbs s c)) = Some fd \<and> read_dentry_by_name fs name = Some d")
  case True
  then obtain fd d where fd: "find_free_fd (open_files (pcbs s c)) = Some fd"
    and d: "read_dentry_by_name fs name = Some d" by blast
  note ty = types_ok_dentry[OF ok d]
  show ?thesis
    using open_success[OF c fd d ty] r fd_inv_open[OF inv _ fops_of_type_valid[OF ty]] find_free_fd_Some[OF fd]
    by auto
next
  case False
  then have "s' = s" using c r by (auto simp: open_syscall_def split: option.splits)
  then show ?thesis using c inv by simp
qed

lemma close_keeps_fd_inv:
  assumes c: "current_PCB s = Some c" and inv: "fd_inv (pcbs s c)" and r: "close_syscall fd s = (x, s')"
  shows "current_PCB s' = Some c \<and> fd_inv (pcbs s' c)"
  using c inv r fd_inv_close[OF inv, of "nat fd"]
  by (auto simp: close_syscall_def upd_fd_def upd_pcb_def Let_def split: if_splits option.splits)

lemma getargs_vidmap_keep_fd_inv:
  assumes c: "current_PCB s = Some c" and inv: "fd_inv (pcbs s c)"
  shows "getargs n s = (x, s') \<Longrightarrow> current_PCB s' = Some c \<and> fd_inv (pcbs s' c)"
    and "vidmap a s = (x, s') \<Longrightarrow> current_PCB s' = Some c \<and> fd_inv (pcbs s' c)"
  using c inv
  by (auto simp: getargs_def vidmap_def upd_pcb_def fd_inv_def Let_def split: if_splits option.splits)

text \<open>
  C15: every descriptor system call keeps the current process and preserves
  the descriptor invariant \<open>fd_inv\<close> of its pcb, on a disk whose entries
  have the three file types \<open>open\<close> knows.
\<close>

lemma fd_inv_preserved:
  assumes c: "current_PCB s = Some c" and inv: "fd_inv (pcbs s c)" and ok: "types_ok fs"
    and r: "fd_syscall fs call s = (x, s')"
  shows "current_PCB s' = Some c \<and> fd_inv (pcbs s' c)"
  using r
proof (cases call)
  case (Call_read fd n) then show ?thesis using read_keeps_fd_inv[OF c inv] r by simp
next
  case (Call_write fd buf n) then show ?thesis using write_keeps_fd_inv[OF c inv] r by simp
next
  case (Call_open name) then show ?thesis using open_keeps_fd_inv[OF c inv ok] r by simp
next
  case (Call_close fd) then show ?thesis using close_keeps_fd_inv[OF c inv] r by simp
next
  case (Call_getargs n) then show ?thesis using getargs_vidmap_keep_fd_inv(1)[OF c inv] r by simp
next
  case (Call_vidmap a) then show ?thesis using getargs_vidmap_keep_fd_inv(2)[OF c inv] r by simp
qed

lemma fd_inv_table:
  assumes "fd_inv p" "bit (open_files p) i" "i < MAX_FDS"
  shows "\<exists>t. fops_table_ptr (file_desc_arr p ! i) = Some t \<and> (i = 0 \<longrightarrow> t = stdin_jmptable) \<and>
           (i = 1 \<longrightarrow> t = stdout_jmptable) \<and> (2 \<le> i \<longrightarrow> t \<in> {rtc_jmptable, file_jmptable, directory_jmptable})"
proof (cases "i < 2")
  case True then have "i = 0 \<or> i = 1" by auto
  then show ?thesis using assms(1) by (auto simp: fd_inv_slots)
next
  case False
  with assms have "fops_table_ptr (file_desc_arr p ! i) \<in> {Some rtc_jmptable, Some file_jmptable, Some directory_jmptable}"
    by (auto simp: fd_inv_slots)
  then show ?thesis using False by auto
qed

lemma read_dispatch_not_null:
  "fops_table_ptr (file_desc_arr (pcbs s c) ! i) = Some t \<Longrightarrow> jt_entry t Op_read \<Longrightarrow>
   fst (read_dispatch fs c i n s) \<noteq> Sys_null"
  by (cases t) (auto simp: read_dispatch_def split: prod.splits read_out.splits)

lemma write_dispatch_not_null:
  "fops_table_ptr (file_desc_arr (pcbs s c) ! i) = Some t \<Longrightarrow> jt_entry t Op_write \<Longrightarrow>
   fst (write_dispatch c i buf n s) \<noteq> Sys_null"
  by (cases t) (auto simp: write_dispatch_def split: prod.splits option.splits)

text \<open>
  C16: for a running process (\<open>current_PCB\<close> names its pcb) whose descriptor
  table satisfies the descriptor invariant, on a disk whose directory entries
  all have file type 0, 1 or 2, no descriptor system call calls a NULL
  jump-table entry.  The disk condition is needed: C20 shows \<open>open\<close> of a
  file of another type calling through NULL under the same invariant.
\<close>

lemma fd_syscall_no_null:
  assumes c: "current_PCB s = Some c" and inv: "fd_inv (pcbs s c)" and ok: "types_ok fs"
  shows "fst (fd_syscall fs call s) \<noteq> Sys_null"
proof (cases call)
  case (Call_read fd n)
  show ?thesis
  proof (cases "fd < 0 \<or> fd = 1 \<or> int MAX_FDS \<le> fd \<or> \<not> bit (open_files (pcbs s c)) (nat fd)")
    case True then show ?thesis using c Call_read by (auto simp: read_syscall_def)
  next
    case False
    then have "nat fd \<noteq> 1" "nat fd < MAX_FDS" by auto
    with False obtain t where "fops_table_ptr (file_desc_arr (pcbs s c) ! nat fd) = Some t" "jt_entry t Op_read"
      using fd_inv_table[OF inv, of "nat fd"] by auto
    then show ?thesis using c False Call_read read_dispatch_not_null by (simp add: read_syscall_def)
  qed
next
  case (Call_write fd buf n)
  show ?thesis
  proof (cases "fd < 1 \<or> int MAX_FDS \<le> fd \<or> \<not> bit (open_files (pcbs s c)) (nat fd)")
    case True then show ?thesis using c Call_write by (auto simp: write_syscall_def)
  next
    case False
    then have "nat fd \<noteq> 0" "nat fd < MAX_FDS" by auto
    with False obtain t where "fops_table_ptr (file_desc_arr (pcbs s c) ! nat fd) = Some t" "jt_entry t Op_write"
      using fd_inv_table[OF inv, of "nat fd"] by auto
    then show ?thesis using c False Call_write write_dispatch_not_null by (simp add: write_syscall_def)
  qed
next
  case (Call_open name)
  show ?thesis
  proof (cases "\<exists>fd d. find_free_fd (open_files (pcbs s c)) = Some fd \<and> read_dentry_by_name fs name = Some d")
    case True
    then obtain fd d where fd: "find_free_fd (open_files (pcbs s c)) = Some fd"
      and d: "read_dentry_by_name fs name = Some d" by blast
    show ?thesis using open_success[OF c fd d types_ok_dentry[OF ok d]] Call_open by auto
  next
    case False
    then show ?thesis using c Call_open by (auto simp: open_syscall_def split: option.splits)
  qed
next
  case (Call_close fd)
  show ?thesis
  proof (cases "fd < 2 \<or> int MAX_FDS \<le> fd \<or> \<not> bit (open_files (pcbs s c)) (nat fd)")
    case True then show ?thesis using c Call_close by (auto simp: close_syscall_def)
  next
    case False
    then have "2 \<le> nat fd" "nat fd < MAX_FDS" by auto
    with False obtain t where "fops_table_ptr (file_desc_arr (pcbs s c) ! nat fd) = Some t"
      "t \<in> {rtc_jmptable, file_jmptable, directory_jmptable}"
      using fd_inv_table[OF inv, of "nat fd"] by auto
    then show ?thesis using c False Call_close
      by (auto simp: close_syscall_def Let_def rtc_close_def file_close_def directory_close_def)
  qed
next
  case (Call_getargs n) then show ?thesis using c by (simp add: getargs_def)
next
  case (Call_vidmap a) then show ?thesis using c by (auto simp: vidmap_def Let_def split: option.splits)
qed
lemma new_pcb_fd_inv:
  "length (file_desc_arr p) = MAX_FDS \<Longrightarrow> fd_inv (new_pcb pid parent args p)"
  unfolding fd_inv_def
  by (simp add: new_pcb_def MAX_FDS_def upt_rec bit_three stdin_file_desc_def stdout_file_desc_def)

text \<open>
  C18: the process \<open>execute\<close> enters is current, starts with the mask
  \<open>0b11\<close> and satisfies the descriptor invariant.
\<close>

lemma execute_fresh_fds:
  assumes ex: "execute fs cmd ebp s = (Exec_enter e, s')"
    and len: "\<forall>p. length (file_desc_arr (pcbs s p)) = MAX_FDS"
  shows "current_PCB s' = Some (currentPID s') \<and> open_files (pcbs s' (currentPID s')) = 3 \<and>
         fd_inv (pcbs s' (currentPID s'))"
proof -
  obtain pid args mem where s': "s' = exec_state pid args ebp mem s"
    using execute_enter_shape[OF ex] by blast
  have p: "pcbs s' pid = (new_pcb pid (currentPID s) args (pcbs s pid))\<lparr>parent_ebp := ebp, parent_esp0 := tss_esp0 s\<rparr>"
    by (simp add: s' exec_state_def publish_terminal_def upd_terminal_active_def)
  have "fd_inv (new_pcb pid (currentPID s) args (pcbs s pid))" using len by (simp add: new_pcb_fd_inv)
  then have "fd_inv (pcbs s' pid)" by (simp add: p fd_inv_def)
  moreover have "currentPID s' = pid" "current_PCB s' = Some pid"
    by (simp_all add: s' exec_state_def publish_terminal_def upd_terminal_active_def)
  ultimately show ?thesis by (simp add: p new_pcb_def)
qed

text \<open>
  C20: \<open>open\<close> of a file whose type is not RTC, directory or regular keeps the
  slot's old table pointer; on a clean slot it calls the NULL pointer.
\<close>

lemma open_unknown_type_null:
  assumes c: "current_PCB s = Some c" and fd: "find_free_fd (open_files (pcbs s c)) = Some fd"
    and d: "read_dentry_by_name fs name = Some d" and ty: "2 < file_type d"
    and stale: "fops_table_ptr (file_desc_arr (pcbs s c) ! fd) = None"
  shows "fst (open_syscall fs name s) = Sys_null"
proof -
  have "fops_of_type (file_type d) None = None"
    using ty by (auto simp: fops_of_type_def RTC_FILE_TYPE_def DIRECTORY_FILE_TYPE_def REGULAR_FILE_TYPE_def)
  then show ?thesis using c fd d stale by (simp add: open_syscall_def Let_def)
qed

text \<open>
  C21: \<open>getargs\<close> with a count shorter than the arguments succeeds with
  the truncated prefix, although its comment promises -1 for arguments that
  do not fit.
\<close>

lemma getargs_truncates:
  assumes c: "current_PCB s = Some c" and ne: "cmd_args (pcbs s c) \<noteq> []"
    and n: "0 \<le> n" "nat n < length (cmd_args (pcbs s c))"
  shows "getargs n s = (Sys_ret 0 (map of_char (take (nat n) (cmd_args (pcbs s c)))), s)"
  using c ne n by (simp add: getargs_def strncpy_bytes_def take_map)

text \<open>
  C22: \<open>vidmap\<close> accepts a pointer in the last three bytes of the user
  window; its 4-byte store then crosses into the unmapped page at 132MB and
  faults in the kernel.
\<close>

lemma vidmap_straddle_faults:
  assumes c: "current_PCB s = Some c"
    and np: "\<not> pte_present (user_page_table (cur (paging s)) 0)"
    and a: "0x083FFFFD \<le> a" "a < 0x08400000"
  shows "fst (vidmap a s) = Sys_overrun"
proof -
  let ?m = "set_video_mem_page (TA_idx s) (TS_idx s) 1 (paging s)"
  define k where "k = unat (0x08400000 - a)"
  have k: "k < 4" "a + of_nat k = 0x08400000"
    using a by (simp_all add: k_def word_le_nat_alt word_less_nat_alt unat_sub)
  have "translate ?m False 0x08400000 = None"
    using np by (simp add: translate_def walk_def set_video_mem_page_def flush_tlb_def Let_def
        USER_MEM_PD_ENTRY_def SET_4KB_PD_ENTRY_def VIRTUAL_VMEM_BASE_ADDR_def)
  then have "store_bytes ?m mem a (u32_bytes VIRTUAL_VMEM_BASE_ADDR) = None" for mem
    using k by (intro store_bytes_None[of k]) (simp_all add: u32_bytes_def)
  moreover have "\<not> a < 0x08000000" using a(1) by (simp add: word_le_nat_alt word_less_nat_alt)
  ultimately show ?thesis using c a
    by (simp add: vidmap_def VIRTUAL_USER_BASE_ADDR_def SIZE_4MB_def upd_pcb_def Let_def not_le)
qed
end
