(* ===== verification/Sched.thy ===== *)
theory Sched
  imports Process "HOL-Library.Multiset"
begin

text \<open>
  The round-robin scheduler of drivers/pit.c.  \<open>PIT_Handler\<close> saves the
  frame pointer of the interrupted kernel path (\<open>ebp\<close>) into the active
  terminal, starts the base shell of terminals 0, 1 and 2 on the first three
  ticks, and otherwise makes the next terminal active, rebinds the user video
  page to it and switches to the frame that terminal saved
  (\<open>swtch_ctx\<close>).  \<open>pit_counter\<close> is the static counter of pit.c,
  kept in \<open>kstate\<close>.  The result says where control goes: into a new shell
  (\<open>Pit_enter eip\<close>), to a saved frame (\<open>Pit_switch ebp\<close>), or undefined
  behaviour (\<open>Pit_UB\<close>: a NULL \<open>current_PCB\<close> or an \<open>execute\<close> with
  undefined behaviour).  \<open>pit_run\<close> applies a sequence of ticks, one frame
  pointer each.
\<close>

section \<open>Operations\<close>

datatype pit_result = Pit_enter u32 | Pit_switch u32 | Pit_UB

definition init_PIT :: "kstate \<Rightarrow> kstate" where
  "init_PIT s = s\<lparr>pit_counter := 0\<rparr>"

text \<open>Steps 4 to 6 of the handler: the next terminal, its video page, the switch to its frame.\<close>

definition pit_round_robin :: "kstate \<Rightarrow> pit_result \<times> kstate" where
  "pit_round_robin s =
     (let s1 = set_active_terminal ((TA_idx s + 1) mod MAX_TERMINALS) s in
      case current_PCB s1 of None \<Rightarrow> (Pit_UB, s1) | Some c \<Rightarrow>
      let s2 = s1\<lparr>paging := set_video_mem_page (TA_idx s1) (TS_idx s1) (vidmap_inuse (pcbs s1 c)) (paging s1)\<rparr>
      in (Pit_switch (saved_ebp (terminal_active s2)), s2))"

definition PIT_Handler :: "fsys \<Rightarrow> u32 \<Rightarrow> kstate \<Rightarrow> pit_result \<times> kstate" where
  "PIT_Handler fs ebp s =
     (let s1 = upd_terminal_active (\<lambda>t. t\<lparr>saved_ebp := ebp\<rparr>) s in
      if pit_counter s1 < 3 then
        (let s2 = set_active_terminal (pit_counter s1) s1;
             s3 = s2\<lparr>pit_counter := pit_counter s2 + 1\<rparr>
         in case execute fs ''shell'' ebp s3 of
              (Exec_enter e, s4) \<Rightarrow> (Pit_enter e, s4)
            | (Exec_UB, s4) \<Rightarrow> (Pit_UB, s4)
            | (Exec_fail, s4) \<Rightarrow> pit_round_robin s4)
      else pit_round_robin s1)"

fun pit_run :: "fsys \<Rightarrow> u32 list \<Rightarrow> kstate \<Rightarrow> pit_result list \<times> kstate" where
  "pit_run fs [] s = ([], s)"
| "pit_run fs (e # es) s =
     (let (r, s1) = PIT_Handler fs e s; (rs, s2) = pit_run fs es s1 in (r # rs, s2))"

text \<open>The active terminal after each tick.\<close>

fun pit_trace :: "fsys \<Rightarrow> u32 list \<Rightarrow> kstate \<Rightarrow> nat list" where
  "pit_trace fs [] s = []"
| "pit_trace fs (e # es) s = (let s1 = snd (PIT_Handler fs e s) in TA_idx s1 # pit_trace fs es s1)"

section \<open>The steady-state invariant\<close>

text \<open>
  Once the shells run: three terminals, a valid active index, and a pcb in
  the globals and in every terminal record.
\<close>

definition sched_inv :: "kstate \<Rightarrow> bool" where
  "sched_inv s \<longleftrightarrow> length (terminal_arr s) = MAX_TERMINALS \<and> TA_idx s < MAX_TERMINALS \<and>
     3 \<le> pit_counter s \<and> current_PCB s \<noteq> None \<and> list_all (\<lambda>t. t_currentPCB t \<noteq> None) (terminal_arr s)"

section \<open>Lemmas\<close>

lemma parse_command_shell: "parse_command ''shell'' = Some (''shell'', [])"
  by (simp add: parse_command_def)

lemma pit_steady_all:
  assumes inv: "sched_inv s"
  defines "n \<equiv> (TA_idx s + 1) mod MAX_TERMINALS"
  shows "fst (PIT_Handler fs e s) = Pit_switch (saved_ebp (terminal_arr s ! n)) \<and>
         sched_inv (snd (PIT_Handler fs e s)) \<and> TA_idx (snd (PIT_Handler fs e s)) = n \<and>
         saved_ebp (terminal_arr (snd (PIT_Handler fs e s)) ! TA_idx s) = e \<and>
         (\<forall>i. i \<noteq> TA_idx s \<longrightarrow> saved_ebp (terminal_arr (snd (PIT_Handler fs e s)) ! i) = saved_ebp (terminal_arr s ! i)) \<and>
         currentPID (snd (PIT_Handler fs e s)) = t_currentPID (terminal_arr s ! n) \<and>
         current_PCB (snd (PIT_Handler fs e s)) = t_currentPCB (terminal_arr s ! n) \<and>
         TS_idx (snd (PIT_Handler fs e s)) = TS_idx s \<and> pcbs (snd (PIT_Handler fs e s)) = pcbs s \<and>
         paging (snd (PIT_Handler fs e s)) = set_video_mem_page n (TS_idx s)
           (vidmap_inuse (pcbs s (the (t_currentPCB (terminal_arr s ! n))))) (set_user_page (t_currentPID (terminal_arr s ! n)) (paging s))"
proof -
  have len: "length (terminal_arr s) = 3" and ta: "TA_idx s < 3" and pc: "3 \<le> pit_counter s"
    and cp: "current_PCB s \<noteq> None" and all: "\<forall>t\<in>set (terminal_arr s). t_currentPCB t \<noteq> None"
    using inv by (simp_all add: sched_inv_def MAX_TERMINALS_def list_all_iff)
  have "TA_idx s = 0 \<or> TA_idx s = 1 \<or> TA_idx s = 2" using ta by auto
  then have n: "n < 3" "n \<noteq> TA_idx s" by (auto simp: n_def MAX_TERMINALS_def)
  let ?s1 = "upd_terminal_active (\<lambda>t. t\<lparr>saved_ebp := e\<rparr>) s"
  let ?t0 = "(terminal_arr s ! TA_idx s)\<lparr>saved_ebp := e, saved_esp0 := tss_esp0 s, t_currentPCB := current_PCB s,
              t_currentPID := currentPID s, cursor_x := screen_x s, cursor_y := screen_y s\<rparr>"
  let ?arr = "(terminal_arr s)[TA_idx s := ?t0]"
  let ?t = "terminal_arr s ! n"
  have arr_n: "?arr ! n = ?t" using n by simp
  have s2: "set_active_terminal n ?s1 =
      ?s1\<lparr>terminal_arr := ?arr, vid_ptr := (if n \<noteq> TS_idx s then shadow_page n else VMEM_BASE_ADDR),
          TA_idx := n, hw_cursor := (if n = TS_idx s then (cursor_x ?t, cursor_y ?t) else hw_cursor s),
          screen_x := cursor_x ?t, screen_y := cursor_y ?t, tss_esp0 := saved_esp0 ?t,
          current_PCB := t_currentPCB ?t, currentPID := t_currentPID ?t,
          paging := set_user_page (t_currentPID ?t) (paging s)\<rparr>"
    using ta len n by (simp add: set_active_terminal_def upd_terminal_active_def terminal_active_def Let_def)
  obtain c where c: "t_currentPCB ?t = Some c" using all n len by (metis nth_mem option.exhaust)
  have h: "PIT_Handler fs e s = pit_round_robin ?s1"
    using pc by (simp add: PIT_Handler_def upd_terminal_active_def)
  have nn: "(TA_idx ?s1 + 1) mod MAX_TERMINALS = n" by (simp add: n_def upd_terminal_active_def)
  define u where "u = set_active_terminal n ?s1"
  have cu: "current_PCB u = Some c" using s2 c by (simp add: u_def)
  have rr: "pit_round_robin ?s1 = (Pit_switch (saved_ebp (terminal_active u)),
              u\<lparr>paging := set_video_mem_page (TA_idx u) (TS_idx u) (vidmap_inuse (pcbs u c)) (paging u)\<rparr>)"
    unfolding pit_round_robin_def Let_def nn u_def[symmetric] using cu by (simp add: terminal_active_def)
  have tu: "terminal_arr u = ?arr" "TA_idx u = n" "pit_counter u = pit_counter s" "currentPID u = t_currentPID ?t"
    "current_PCB u = t_currentPCB ?t" "TS_idx u = TS_idx s" "pcbs u = pcbs s"
    "paging u = set_user_page (t_currentPID ?t) (paging s)"
    using s2 by (simp_all add: u_def upd_terminal_active_def)
  have au: "terminal_active u = ?t" using tu arr_n by (simp add: terminal_active_def)
  have l2: "length ?arr = 3" using len by simp
  have all2: "\<forall>t\<in>set ?arr. t_currentPCB t \<noteq> None"
    using all cp by (auto dest: subsetD[OF set_update_subset_insert])
  have sv: "saved_ebp (?arr ! i) = (if i = TA_idx s then e else saved_ebp (terminal_arr s ! i))" for i
    using ta len by (cases "i < 3") (simp_all add: nth_list_update)
  show ?thesis
    using h rr tu au l2 all2 cu c n pc sv
    by (simp add: sched_inv_def list_all_iff MAX_TERMINALS_def)
qed

lemma pit_steady:
  assumes "sched_inv s"
  shows "fst (PIT_Handler fs e s) = Pit_switch (saved_ebp (terminal_arr s ! ((TA_idx s + 1) mod MAX_TERMINALS))) \<and>
         sched_inv (snd (PIT_Handler fs e s)) \<and> TA_idx (snd (PIT_Handler fs e s)) = (TA_idx s + 1) mod MAX_TERMINALS \<and>
         saved_ebp (terminal_arr (snd (PIT_Handler fs e s)) ! TA_idx s) = e \<and>
         (\<forall>i. i \<noteq> TA_idx s \<longrightarrow> saved_ebp (terminal_arr (snd (PIT_Handler fs e s)) ! i) = saved_ebp (terminal_arr s ! i))"
  using pit_steady_all[OF assms, of fs e] by blast

lemma pit_trace_steady:
  "sched_inv s \<Longrightarrow> pit_trace fs es s = map (\<lambda>j. (TA_idx s + j) mod MAX_TERMINALS) [1..<Suc (length es)]"
proof (induction es arbitrary: s)
  case Nil then show ?case by simp
next
  case (Cons e es)
  let ?s1 = "snd (PIT_Handler fs e s)"
  have st: "sched_inv ?s1" "TA_idx ?s1 = (TA_idx s + 1) mod MAX_TERMINALS"
    using pit_steady[OF Cons.prems, of fs e] by simp_all
  have "pit_trace fs (e # es) s = TA_idx ?s1 # map (\<lambda>j. (TA_idx ?s1 + j) mod MAX_TERMINALS) [1..<Suc (length es)]"
    using Cons.IH[OF st(1)] by (simp add: Let_def)
  also have "\<dots> = map (\<lambda>j. (TA_idx s + j) mod MAX_TERMINALS) [1..<Suc (length (e # es))]"
    by (simp add: st(2) upt_conv_Cons map_Suc_upt[symmetric] comp_def mod_add_left_eq del: upt_Suc)
  finally show ?case .
qed

lemma residue_count:
  "i < 3 \<Longrightarrow> count (mset (map (\<lambda>j. (a + j) mod 3) [1..<Suc (3 * K)])) i = K"
proof (induction K)
  case 0 then show ?case by simp
next
  case (Suc K)
  have u1: "[1..<Suc (3 * Suc K)] = [1..<Suc (3 * K)] @ [Suc (3 * K)..<Suc (3 * K) + 3]"
    using upt_add_eq_append[of 1 "Suc (3 * K)" 3] by simp
  have u2: "[Suc (3 * K)..<Suc (3 * K) + 3] = [Suc (3 * K), Suc (Suc (3 * K)), Suc (Suc (Suc (3 * K)))]"
    by (simp add: numeral_3_eq_3)
  have u: "[1..<Suc (3 * Suc K)] = [1..<Suc (3 * K)] @ [Suc (3 * K), Suc (Suc (3 * K)), Suc (Suc (Suc (3 * K)))]"
    by (simp only: u1 u2)
  have r: "(a + Suc (3 * K)) mod 3 = (a + 1) mod 3" "(a + Suc (Suc (3 * K))) mod 3 = (a + 2) mod 3"
    "(a + Suc (Suc (Suc (3 * K)))) mod 3 = a mod 3"
  proof -
    have e: "a + Suc (3 * K) = (a + 1) + 3 * K" "a + Suc (Suc (3 * K)) = (a + 2) + 3 * K"
      "a + Suc (Suc (Suc (3 * K))) = a + 3 * Suc K" by simp_all
    show "(a + Suc (3 * K)) mod 3 = (a + 1) mod 3" "(a + Suc (Suc (3 * K))) mod 3 = (a + 2) mod 3"
      "(a + Suc (Suc (Suc (3 * K)))) mod 3 = a mod 3" by (simp_all only: e mod_mult_self2)
  qed
  have one: "count (mset [(a + 1) mod 3, (a + 2) mod 3, a mod 3]) i = 1"
  proof -
    have "a mod 3 = 0 \<or> a mod 3 = 1 \<or> a mod 3 = 2" by auto
    moreover have "(a + 1) mod 3 = (a mod 3 + 1) mod 3" "(a + 2) mod 3 = (a mod 3 + 2) mod 3" by (simp_all add: mod_simps)
    ultimately show ?thesis using Suc.prems by auto
  qed
  have m: "map (\<lambda>j. (a + j) mod 3) [1..<Suc (3 * Suc K)] =
            map (\<lambda>j. (a + j) mod 3) [1..<Suc (3 * K)] @ [(a + 1) mod 3, (a + 2) mod 3, a mod 3]"
    by (simp only: u map_append list.map r)
  have "count (mset (map (\<lambda>j. (a + j) mod 3) [1..<Suc (3 * Suc K)])) i =
          count (mset (map (\<lambda>j. (a + j) mod 3) [1..<Suc (3 * K)])) i +
          count (mset [(a + 1) mod 3, (a + 2) mod 3, a mod 3]) i"
    by (simp only: m mset_append count_union)
  then show ?case using Suc.IH[OF Suc.prems] one by (simp only:)
qed

text \<open>C23: Fairness of the round-robin scheduler: once the three base shells run, over any 3K timer ticks every terminal is made active exactly K times.\<close>

lemma pit_fair:
  assumes "sched_inv s" "length es = 3 * K" "i < MAX_TERMINALS"
  shows "count (mset (pit_trace fs es s)) i = K"
  using assms residue_count[of i "TA_idx s" K] by (simp add: pit_trace_steady MAX_TERMINALS_def)

text \<open>C24: Three steady-state ticks switch to the frames saved by the two other terminals and then back to the frame saved at the first tick, in the terminal that was active at the start; the steady-state invariant holds again.\<close>

lemma pit_resume_saved_frame:
  assumes inv: "sched_inv s"
  shows "\<exists>s'. pit_run fs [e0, e1, e2] s =
           ([Pit_switch (saved_ebp (terminal_arr s ! ((TA_idx s + 1) mod MAX_TERMINALS))),
             Pit_switch (saved_ebp (terminal_arr s ! ((TA_idx s + 2) mod MAX_TERMINALS))),
             Pit_switch e0], s') \<and> TA_idx s' = TA_idx s \<and> sched_inv s'"
proof -
  define a where "a = TA_idx s"
  have a3: "a < 3" using inv by (simp add: sched_inv_def a_def MAX_TERMINALS_def)
  have "a = 0 \<or> a = 1 \<or> a = 2" using a3 by auto
  then have ne0: "(a + 1) mod 3 \<noteq> a \<and> (a + 2) mod 3 \<noteq> a \<and> (a + 2) mod 3 \<noteq> (a + 1) mod 3 \<and>
    ((a + 2) mod 3 + 1) mod 3 = a \<and> ((a + 1) mod 3 + 1) mod 3 = (a + 2) mod 3" by (elim disjE) simp_all
  then have ne: "(a + 1) mod 3 \<noteq> a" "(a + 2) mod 3 \<noteq> a" "(a + 2) mod 3 \<noteq> (a + 1) mod 3"
    "((a + 2) mod 3 + 1) mod 3 = a" "((a + 1) mod 3 + 1) mod 3 = (a + 2) mod 3" by simp_all
  define s1 where "s1 = snd (PIT_Handler fs e0 s)"
  define s2 where "s2 = snd (PIT_Handler fs e1 s1)"
  define s3 where "s3 = snd (PIT_Handler fs e2 s2)"
  note t1 = pit_steady[OF inv, of fs e0, folded s1_def a_def]
  have i1: "sched_inv s1" and ta1: "TA_idx s1 = (a + 1) mod 3" using t1 by (simp_all add: MAX_TERMINALS_def)
  note t2 = pit_steady[OF i1, of fs e1, folded s2_def]
  have i2: "sched_inv s2" and ta2: "TA_idx s2 = (a + 2) mod 3" using t2 ta1 ne by (simp_all add: MAX_TERMINALS_def)
  note t3 = pit_steady[OF i2, of fs e2, folded s3_def]
  have r1: "fst (PIT_Handler fs e0 s) = Pit_switch (saved_ebp (terminal_arr s ! ((a + 1) mod 3)))"
    using t1 by (simp add: MAX_TERMINALS_def)
  have r2: "fst (PIT_Handler fs e1 s1) = Pit_switch (saved_ebp (terminal_arr s ! ((a + 2) mod 3)))"
    using t2 t1 ta1 ne by (simp add: MAX_TERMINALS_def)
  have r3: "fst (PIT_Handler fs e2 s2) = Pit_switch e0"
    using t3 t2 t1 ta2 ta1 ne by (simp add: MAX_TERMINALS_def)
  have ta3: "TA_idx s3 = a" "sched_inv s3" using t3 ta2 ne by (simp_all add: MAX_TERMINALS_def)
  have p1: "PIT_Handler fs e0 s = (Pit_switch (saved_ebp (terminal_arr s ! ((a + 1) mod 3))), s1)"
    using r1 by (simp add: s1_def prod_eq_iff)
  have p2: "PIT_Handler fs e1 s1 = (Pit_switch (saved_ebp (terminal_arr s ! ((a + 2) mod 3))), s2)"
    using r2 by (simp add: s2_def prod_eq_iff)
  have p3: "PIT_Handler fs e2 s2 = (Pit_switch e0, s3)"
    using r3 by (simp add: s3_def prod_eq_iff)
  show ?thesis using p1 p2 p3 ta3 by (simp add: a_def MAX_TERMINALS_def)
qed

lemma find_free_pid_mask: "k < 3 \<Longrightarrow> find_free_pid (mask k) = Some k"
  by (intro find_free_pid_least) (auto simp: MAX_PROCESSES_def bit_mask_iff)

lemma exec_state_terminals:
  "terminal_arr (exec_state pid args ebp mem s) =
     (terminal_arr s)[TA_idx s := (terminal_active s)\<lparr>saved_esp0 := kernel_stack_top pid,
        t_currentPCB := Some pid, t_currentPID := pid\<rparr>]"
  "pit_counter (exec_state pid args ebp mem s) = pit_counter s"
  by (simp_all add: exec_state_def publish_terminal_def upd_terminal_active_def terminal_active_def)


lemma pit_boot_step:
  assumes k: "pit_counter s = k" "k < 3" and act: "activeProcesses s = mask k"
    and len: "length (terminal_arr s) = MAX_TERMINALS" and ta: "TA_idx s < MAX_TERMINALS"
    and all: "list_all (\<lambda>t. t_currentPCB t \<noteq> None) (terminal_arr s)"
    and boot: "current_PCB s = None \<longrightarrow> TA_idx s = k"
    and r: "PIT_Handler fs e s = (Pit_enter x, s')"
  shows "TA_idx s' = k \<and> currentPID s' = k \<and> current_PCB s' = Some k \<and> activeProcesses s' = mask (Suc k) \<and>
         pit_counter s' = Suc k \<and> length (terminal_arr s') = MAX_TERMINALS \<and>
         list_all (\<lambda>t. t_currentPCB t \<noteq> None) (terminal_arr s') \<and> t_currentPID (terminal_arr s' ! k) = k"
proof -
  define s3 where "s3 = (set_active_terminal (pit_counter (upd_terminal_active (\<lambda>t. t\<lparr>saved_ebp := e\<rparr>) s))
                          (upd_terminal_active (\<lambda>t. t\<lparr>saved_ebp := e\<rparr>) s))
                        \<lparr>pit_counter := pit_counter (set_active_terminal (pit_counter (upd_terminal_active (\<lambda>t. t\<lparr>saved_ebp := e\<rparr>) s))
                          (upd_terminal_active (\<lambda>t. t\<lparr>saved_ebp := e\<rparr>) s)) + 1\<rparr>"
  have k3: "k < MAX_TERMINALS" using k by (simp add: MAX_TERMINALS_def)
  have ex: "execute fs ''shell'' e s3 = (Exec_enter x, s')"
  proof (cases "execute fs ''shell'' e s3")
    case (Pair r4 s4)
    have "PIT_Handler fs e s = (case execute fs ''shell'' e s3 of
              (Exec_enter e', s4) \<Rightarrow> (Pit_enter e', s4) | (Exec_UB, s4) \<Rightarrow> (Pit_UB, s4)
            | (Exec_fail, s4) \<Rightarrow> pit_round_robin s4)"
      using k by (simp add: PIT_Handler_def s3_def upd_terminal_active_def Let_def)
    then show ?thesis using r Pair
      by (cases r4) (auto simp: pit_round_robin_def Let_def split: option.splits)
  qed
  obtain pid args mem where fp: "find_free_pid (activeProcesses s3) = Some pid"
    and s': "s' = exec_state pid args e mem s3"
    using execute_enter_shape[OF ex] by blast
  have a3: "activeProcesses s3 = mask k" "TA_idx s3 = k" "pit_counter s3 = Suc k"
    "length (terminal_arr s3) = MAX_TERMINALS"
    using act len ta k3 k by (simp_all add: s3_def set_active_terminal_def upd_terminal_active_def Let_def)
  have pid: "pid = k" using fp a3 find_free_pid_mask[OF k(2)] by simp
  have arr3: "terminal_arr s3 = (terminal_arr s)[TA_idx s := (terminal_arr s ! TA_idx s)\<lparr>saved_ebp := e,
      saved_esp0 := tss_esp0 s, t_currentPCB := current_PCB s, t_currentPID := currentPID s,
      cursor_x := screen_x s, cursor_y := screen_y s\<rparr>]"
    using ta len by (simp add: s3_def set_active_terminal_def upd_terminal_active_def terminal_active_def Let_def)
  have all3: "\<forall>j<MAX_TERMINALS. j \<noteq> k \<longrightarrow> t_currentPCB (terminal_arr s3 ! j) \<noteq> None"
    using all boot len ta by (auto simp: arr3 list_all_iff nth_list_update)
  have arr': "terminal_arr s' = (terminal_arr s3)[k := (terminal_arr s3 ! k)\<lparr>saved_esp0 := kernel_stack_top k,
        t_currentPCB := Some k, t_currentPID := k\<rparr>]"
    using a3 by (simp add: s' pid exec_state_terminals terminal_active_def)
  have tl: "TA_idx s3 < length (terminal_arr s3)" using a3 k3 by simp
  have "list_all (\<lambda>t. t_currentPCB t \<noteq> None) (terminal_arr s')"
    unfolding list_all_length using all3 a3 k3 by (auto simp: arr' nth_list_update)
  moreover have "TA_idx s' = k" "currentPID s' = k" "current_PCB s' = Some k"
    "activeProcesses s' = mask (Suc k)" "pit_counter s' = Suc k" "length (terminal_arr s') = MAX_TERMINALS"
    using a3 by (simp_all add: s' pid exec_state_facts[OF tl] exec_state_terminals mask_Suc_or)
  moreover have "t_currentPID (terminal_arr s' ! k) = k" using a3 k3 by (simp add: arr')
  ultimately show ?thesis by simp
qed
lemma pit_boot_execute:
  assumes "pit_counter s < 3"
  shows "\<exists>s3. activeProcesses s3 = activeProcesses s \<and>
           PIT_Handler fs e s = (case execute fs ''shell'' e s3 of
              (Exec_enter e', s4) \<Rightarrow> (Pit_enter e', s4) | (Exec_UB, s4) \<Rightarrow> (Pit_UB, s4)
            | (Exec_fail, s4) \<Rightarrow> pit_round_robin s4)"
proof -
  let ?s1 = "upd_terminal_active (\<lambda>t. t\<lparr>saved_ebp := e\<rparr>) s"
  let ?s3 = "(set_active_terminal (pit_counter ?s1) ?s1)\<lparr>pit_counter := pit_counter (set_active_terminal (pit_counter ?s1) ?s1) + 1\<rparr>"
  have pc: "pit_counter ?s1 < 3" using assms by (simp add: upd_terminal_active_def)
  have "activeProcesses ?s3 = activeProcesses s"
    by (simp add: set_active_terminal_def upd_terminal_active_def Let_def)
  moreover have "PIT_Handler fs e s = (case execute fs ''shell'' e ?s3 of
              (Exec_enter e', s4) \<Rightarrow> (Pit_enter e', s4) | (Exec_UB, s4) \<Rightarrow> (Pit_UB, s4)
            | (Exec_fail, s4) \<Rightarrow> pit_round_robin s4)"
    unfolding PIT_Handler_def Let_def by (subst if_P[OF pc]) (rule refl)
  ultimately show ?thesis by blast
qed

lemma pit_run_three:
  assumes "pit_run fs [e0, e1, e2] s = ([r0, r1, r2], s')"
  obtains s1 s2 where "PIT_Handler fs e0 s = (r0, s1)" "PIT_Handler fs e1 s1 = (r1, s2)" "PIT_Handler fs e2 s2 = (r2, s')"
  using assms by (auto simp: Let_def split: prod.splits)

text \<open>C25: From the state init_PIT and init_terminals leave, if the first three ticks each start a base shell, they run terminals 0, 1 and 2 in this order, the shells get pids 0, 1 and 2, and the scheduler reaches its steady-state invariant.\<close>

lemma pit_boot_sequence:
  assumes boot: "pit_counter s = 0" "activeProcesses s = 0" "length (terminal_arr s) = MAX_TERMINALS"
    "TA_idx s = 0" "list_all (\<lambda>t. t_currentPCB t \<noteq> None) (terminal_arr s)"
    and r: "pit_run fs [e0, e1, e2] s = ([Pit_enter x0, Pit_enter x1, Pit_enter x2], s')"
  shows "pit_trace fs [e0, e1, e2] s = [0, 1, 2] \<and> sched_inv s' \<and> activeProcesses s' = 7 \<and>
         currentPID s' = 2 \<and> TA_idx s' = 2"
proof -
  obtain s1 s2 where p1: "PIT_Handler fs e0 s = (Pit_enter x0, s1)" and p2: "PIT_Handler fs e1 s1 = (Pit_enter x1, s2)"
    and p3: "PIT_Handler fs e2 s2 = (Pit_enter x2, s')"
    using pit_run_three[OF r] by blast
  have m: "mask 2 = (3::u32)" "mask 3 = (7::u32)" "mask (Suc (Suc 0)) = (3::u32)" "mask (Suc (Suc (Suc 0))) = (7::u32)"
    by (simp_all add: mask_eq_exp_minus_1)
  have b1: "TA_idx s1 = 0 \<and> currentPID s1 = 0 \<and> current_PCB s1 = Some 0 \<and> activeProcesses s1 = mask 1 \<and>
         pit_counter s1 = 1 \<and> length (terminal_arr s1) = MAX_TERMINALS \<and> list_all (\<lambda>t. t_currentPCB t \<noteq> None) (terminal_arr s1)"
    using pit_boot_step[of s 0, OF _ _ _ _ _ _ _ p1] boot by (simp add: MAX_TERMINALS_def)
  have b2: "TA_idx s2 = 1 \<and> currentPID s2 = 1 \<and> current_PCB s2 = Some 1 \<and> activeProcesses s2 = 3 \<and>
         pit_counter s2 = 2 \<and> length (terminal_arr s2) = MAX_TERMINALS \<and> list_all (\<lambda>t. t_currentPCB t \<noteq> None) (terminal_arr s2)"
    using pit_boot_step[of s1 1, OF _ _ _ _ _ _ _ p2] b1 m by (simp add: MAX_TERMINALS_def)
  have b3: "TA_idx s' = 2 \<and> currentPID s' = 2 \<and> current_PCB s' = Some 2 \<and> activeProcesses s' = 7 \<and>
         pit_counter s' = 3 \<and> length (terminal_arr s') = MAX_TERMINALS \<and> list_all (\<lambda>t. t_currentPCB t \<noteq> None) (terminal_arr s')"
    using pit_boot_step[of s2 2, OF _ _ _ _ _ _ _ p3] b2 m by (simp add: MAX_TERMINALS_def)
  have "pit_trace fs [e0, e1, e2] s = [0, 1, 2]" using p1 p2 p3 b1 b2 b3 by simp
  then show ?thesis using b3 by (simp add: sched_inv_def MAX_TERMINALS_def)
qed

lemma set_video_mem_page_window:
  "in_user_window va \<Longrightarrow>
   translate (set_video_mem_page ta ts p (set_user_page pid m)) usr va = Some (user_frame pid + (va - VIRTUAL_USER_BASE_ADDR))"
  by (simp add: translate_def walk_def set_video_mem_page_def set_user_page_def flush_tlb_def window_pde_index
      SET_4MB_PD_ENTRY_def window_offset frame_aligned Let_def flip: user_frame_def)

text \<open>C26: After a steady-state tick, the user program window translates to the frame of the process of the new active terminal, and the user video page to the primary buffer, the new terminal shadow buffer or nothing, as set_video_mem_page is asked.\<close>

lemma pit_tick_binds_pages:
  assumes inv: "sched_inv s" and va: "in_user_window va" and r: "PIT_Handler fs e s = (r, s')"
  shows "translate (paging s') True va = Some (user_frame (currentPID s') + (va - VIRTUAL_USER_BASE_ADDR)) \<and>
         translate (paging s') True VIRTUAL_VMEM_BASE_ADDR =
           (if vidmap_inuse (pcbs s' (the (current_PCB s'))) AND 1 \<noteq> 0
            then Some (if TA_idx s' \<noteq> TS_idx s' then shadow_page (TA_idx s') else VMEM_BASE_ADDR) else None)"
proof -
  have s': "s' = snd (PIT_Handler fs e s)" using r by simp
  note st = pit_steady_all[OF inv, of fs e, folded s']
  have pg: "paging s' = set_video_mem_page (TA_idx s') (TS_idx s') (vidmap_inuse (pcbs s' (the (current_PCB s'))))
              (set_user_page (currentPID s') (paging s))"
    using st by simp
  have "translate (paging s') True va = Some (user_frame (currentPID s') + (va - VIRTUAL_USER_BASE_ADDR))"
    unfolding pg using va by (rule set_video_mem_page_window)
  moreover have "translate (paging s') True VIRTUAL_VMEM_BASE_ADDR =
           (if vidmap_inuse (pcbs s' (the (current_PCB s'))) AND 1 \<noteq> 0
            then Some (if TA_idx s' \<noteq> TS_idx s' then shadow_page (TA_idx s') else VMEM_BASE_ADDR) else None)"
    unfolding pg
    by (simp add: translate_def walk_def set_video_mem_page_def flush_tlb_def Let_def
        video_pde_index video_pte_index SET_4KB_PD_ENTRY_def SET_PT_ENTRY_def video_target_aligned shadow_page_def)
       (simp add: VIRTUAL_VMEM_BASE_ADDR_def VMEM_BASE_ADDR_def)
  ultimately show ?thesis ..
qed
text \<open>C27: If the disk has no file named shell, the first tick after init_terminals and init_PIT
  ignores the failed execute, falls through to the round robin and switches to the frame pointer
  saved in terminal 1, which init_terminals left NULL.\<close>

lemma pit_boot_no_shell:
  assumes "read_dentry_by_name fs ''shell'' = None"
  shows "PIT_Handler fs e (init_PIT (init_terminals s)) =
           (Pit_switch 0, snd (PIT_Handler fs e (init_PIT (init_terminals s)))) \<and>
         TA_idx (snd (PIT_Handler fs e (init_PIT (init_terminals s)))) = 1 \<and>
         pit_counter (snd (PIT_Handler fs e (init_PIT (init_terminals s)))) = 1"
proof -
  have ex: "execute fs ''shell'' e t = (Exec_fail, t)" for t
    using assms by (simp add: execute_def parse_command_shell)
  show ?thesis
    by (simp add: PIT_Handler_def ex pit_round_robin_def set_active_terminal_def upd_terminal_active_def
        init_PIT_def init_terminals_def terminal_active_def init_terminal_def MAX_TERMINALS_def Let_def)
qed

end
