(* ===== verification/Keyboard.thy ===== *)
theory Keyboard
  imports Terminal
begin

text \<open>
  The keyboard driver of drivers/keyboard.c.  The driver's globals
  \<open>shiftcaps\<close> (bit 0 caps lock, bit 1 shift, bit 2 control, bit 3 alt) and
  \<open>keycode\<close> are the record \<open>kbd\<close>; the line buffers, their index and the
  newline flag are fields of the terminal records.  \<open>Keyboard_Handler\<close> takes
  the scancode read from port 0x60 and returns the new driver state, the new
  kernel state and the characters it prints (printing itself, and the
  screen clear of control-L, are not drawn).  \<open>kbd_decode\<close> is the chain of
  scancode cases (lines 60 to 117), \<open>kbd_put\<close> the store of a character into
  the shown terminal's line buffer (lines 120 to 139).
\<close>

section \<open>State and tables\<close>

record kbd =
  shiftcaps :: u8
  keycode :: u8

definition kbd_init :: kbd where
  "kbd_init = \<lparr>shiftcaps = 0, keycode = 0\<rparr>"

definition codeASCIINS :: "u8 list" where
  "codeASCIINS = [0x00, 0x00, 0x31, 0x32, 0x33, 0x34, 0x35, 0x36, 0x37, 0x38, 0x39, 0x30, 0x2D, 0x3D,
     0x08, 0x09, 0x71, 0x77, 0x65, 0x72, 0x74, 0x79, 0x75, 0x69, 0x6F, 0x70, 0x5B, 0x5D, 0x0A, 0x00,
     0x61, 0x73, 0x64, 0x66, 0x67, 0x68, 0x6A, 0x6B, 0x6C, 0x3B, 0x27, 0x60, 0x00, 0x5C, 0x7A, 0x78,
     0x63, 0x76, 0x62, 0x6E, 0x6D, 0x2C, 0x2E, 0x2F, 0x00, 0x2A, 0x00, 0x20, 0x00, 0x00, 0x00, 0x00]"

definition codeASCIIYS :: "u8 list" where
  "codeASCIIYS = [0x00, 0x00, 0x21, 0x40, 0x23, 0x24, 0x25, 0x5E, 0x26, 0x2A, 0x28, 0x29, 0x5F, 0x2B,
     0x08, 0x09, 0x51, 0x57, 0x45, 0x52, 0x54, 0x59, 0x55, 0x49, 0x4F, 0x50, 0x7B, 0x7D, 0x0A, 0x00,
     0x41, 0x53, 0x44, 0x46, 0x47, 0x48, 0x4A, 0x4B, 0x4C, 0x3A, 0x22, 0x7E, 0x00, 0x7C, 0x5A, 0x58,
     0x43, 0x56, 0x42, 0x4E, 0x4D, 0x3C, 0x3E, 0x3F, 0x00, 0x2A, 0x00, 0x20, 0x00, 0x00, 0x00, 0x00]"

text \<open>Writes through the \<open>terminal_shown\<close> pointer.\<close>

definition upd_terminal_shown :: "(terminal \<Rightarrow> terminal) \<Rightarrow> kstate \<Rightarrow> kstate" where
  "upd_terminal_shown f s = s\<lparr>terminal_arr := (terminal_arr s)[TS_idx s := f (terminal_shown s)]\<rparr>"

section \<open>Operations\<close>

text \<open>The buffer part of \<open>backspace\<close> (terminal.c); the erasing on screen is not drawn.\<close>

definition kbd_backspace :: "terminal \<Rightarrow> terminal" where
  "kbd_backspace t =
     (if keyboard_idx t \<noteq> 0
      then t\<lparr>keyboard_buffer := (keyboard_buffer t)[(keyboard_idx t - 1) mod 128 := 0],
             keyboard_idx := keyboard_idx t - 1\<rparr>
      else t)"

text \<open>The screen part of \<open>backspace\<close>: the number of cells to erase (four after a tab, one after another character, none on an empty line), and the loop moving the cursor back that many cells, wrapping to the end of the previous row and returning early (\<open>None\<close>) at the top-left corner.  \<open>NUM_COLS\<close> is the 80-column text mode of lib.h.\<close>

definition NUM_COLS :: nat where "NUM_COLS = 80"

definition bs_erase_count :: "u8 \<Rightarrow> nat" where
  "bs_erase_count prebp = (if prebp = 0x9 then 4 else if prebp \<noteq> 0 then 1 else 0)"

fun bs_move :: "nat \<Rightarrow> nat \<times> nat \<Rightarrow> (nat \<times> nat) option" where
  "bs_move 0 p = Some p"
| "bs_move (Suc j) (cx, cy) =
     (if cx = 0 then (if cy = 0 then None else bs_move j (NUM_COLS - 1, cy - 1)) else bs_move j (cx - 1, cy))"

text \<open>\<open>backspace\<close> on the shown terminal's line: the buffer part, then the cursor moved to the erased cell (\<open>editScreenCoords\<close>, \<open>update_cursor\<close>); the blank \<open>putc\<close> draws there is not modelled.\<close>

definition backspace :: "kstate \<Rightarrow> kstate" where
  "backspace s =
     (let t = terminal_shown s;
          prebp = (if keyboard_idx t \<noteq> 0 then keyboard_buffer t ! (keyboard_idx t - 1) else 0);
          s1 = upd_terminal_shown kbd_backspace s
      in case bs_move (bs_erase_count prebp) (screen_x s, screen_y s) of
           None \<Rightarrow> s1
         | Some (cx, cy) \<Rightarrow> s1\<lparr>screen_x := cx, screen_y := cy, hw_cursor := (cx, cy)\<rparr>)"

definition kbd_letter :: "u8 \<Rightarrow> bool" where
  "kbd_letter c \<longleftrightarrow> c < 0x7B \<and> 0x60 < c"

text \<open>The typable-character case without control-L: letters follow shift XOR caps lock, other keys shift only.\<close>

definition kbd_typable :: "u8 \<Rightarrow> u8 \<Rightarrow> u8" where
  "kbd_typable sc code =
     (let i = unat code in
      if kbd_letter (codeASCIINS ! i) then
        (if drop_bit 1 (sc AND 2) \<noteq> sc AND 1 then codeASCIIYS ! i else codeASCIINS ! i)
      else if sc AND 2 \<noteq> 0 then codeASCIIYS ! i else codeASCIINS ! i)"

definition kbd_decode :: "u8 \<Rightarrow> kbd \<Rightarrow> kstate \<Rightarrow> kbd \<times> kstate" where
  "kbd_decode code k s =
     (let sc = shiftcaps k in
      if code = 0x3A then (k\<lparr>shiftcaps := sc XOR 1, keycode := 0\<rparr>, s)
      else if code = 0x36 \<or> code = 0x2A then (k\<lparr>shiftcaps := sc OR 2, keycode := 0\<rparr>, s)
      else if code = 0xB6 \<or> code = 0xAA then (k\<lparr>shiftcaps := sc AND NOT 2, keycode := 0\<rparr>, s)
      else if code = 0x1D then (k\<lparr>shiftcaps := sc OR 4, keycode := 0\<rparr>, s)
      else if code = 0x9D then (k\<lparr>shiftcaps := sc AND NOT 4, keycode := 0\<rparr>, s)
      else if code = 0x0E then (k\<lparr>keycode := 0\<rparr>, backspace s)
      else if code = 0x38 then (k\<lparr>keycode := 0, shiftcaps := sc OR 8\<rparr>, s)
      else if code = 0xB8 then (k\<lparr>keycode := 0, shiftcaps := sc AND NOT 8\<rparr>, s)
      else if 0x3B + MAX_TERMINALS \<le> unat code then (k\<lparr>keycode := 0\<rparr>, s)
      else if 0 < sc AND 8 then
        (k, if 0x3B \<le> unat code \<and> unat code < 0x3B + MAX_TERMINALS
            then set_shown_terminal (unat code - 0x3B) s else s)
      else if kbd_letter (codeASCIINS ! unat code) \<and> 0 < sc AND 4 \<and> code = 0x26 then
        (k\<lparr>keycode := 0\<rparr>,
         (upd_terminal_shown (\<lambda>t. t\<lparr>keyboard_buffer := replicate 128 0, keyboard_idx := 0\<rparr>) s)
           \<lparr>screen_x := 0, screen_y := 0, hw_cursor := (0, 0)\<rparr>)
      else (k\<lparr>keycode := kbd_typable sc code\<rparr>, s))"

definition kbd_put :: "u8 \<Rightarrow> terminal \<Rightarrow> terminal \<times> u8 list" where
  "kbd_put kc t =
     (if keyboard_idx t = 127 then
        (if kc = 10 \<or> terminal_newline t
         then (t\<lparr>keyboard_buffer := (keyboard_buffer t)[127 := 10], terminal_newline := True\<rparr>, [kc])
         else (t, []))
      else (t\<lparr>keyboard_buffer := (keyboard_buffer t)[keyboard_idx t := kc], keyboard_idx := Suc (keyboard_idx t),
              terminal_newline := (kc = 10 \<or> terminal_newline t)\<rparr>, [kc]))"

text \<open>Lines 48 to 54: save the active terminal's cursor, draw into the shown terminal.\<close>

definition kbd_enter :: "kstate \<Rightarrow> kstate" where
  "kbd_enter s =
     (let s1 = upd_terminal_active (\<lambda>t. t\<lparr>cursor_x := screen_x s, cursor_y := screen_y s\<rparr>) s
      in s1\<lparr>vid_ptr := VMEM_BASE_ADDR, screen_x := cursor_x (terminal_shown s1),
             screen_y := cursor_y (terminal_shown s1)\<rparr>)"

text \<open>Lines 120 to 139: a non-zero keycode goes to the shown terminal's line buffer.\<close>

definition kbd_emit :: "kbd \<Rightarrow> kstate \<Rightarrow> kstate \<times> u8 list" where
  "kbd_emit k s =
     (if keycode k \<noteq> 0
      then (let (t, echo) = kbd_put (keycode k) (terminal_shown s) in (upd_terminal_shown (\<lambda>_. t) s, echo))
      else (s, []))"

text \<open>Lines 141 to 150: save the shown terminal's cursor, draw into the active terminal again.\<close>

definition kbd_leave :: "kstate \<Rightarrow> kstate" where
  "kbd_leave s =
     (let s5 = upd_terminal_shown (\<lambda>t. t\<lparr>cursor_x := screen_x s, cursor_y := screen_y s\<rparr>) s;
          s6 = (if TA_idx s5 \<noteq> TS_idx s5 then s5\<lparr>vid_ptr := shadow_page (TA_idx s5)\<rparr> else s5)
      in s6\<lparr>screen_x := cursor_x (terminal_active s6), screen_y := cursor_y (terminal_active s6)\<rparr>)"

definition Keyboard_Handler :: "u8 \<Rightarrow> kbd \<Rightarrow> kstate \<Rightarrow> (kbd \<times> kstate) \<times> u8 list" where
  "Keyboard_Handler code k s =
     (let (k3, s3) = kbd_decode code k (kbd_enter s);
          (s4, out) = kbd_emit k3 s3
      in ((k3, kbd_leave s4), out))"

text \<open>A sequence of characters reaching the put step, one interrupt each.\<close>

fun kbd_type :: "u8 list \<Rightarrow> terminal \<Rightarrow> terminal" where
  "kbd_type [] t = t"
| "kbd_type (c # cs) t = kbd_type cs (fst (kbd_put c t))"

section \<open>Invariants\<close>

definition kbd_buf_ok :: "terminal \<Rightarrow> bool" where
  "kbd_buf_ok t \<longleftrightarrow> length (keyboard_buffer t) = 128 \<and> keyboard_idx t \<le> 127"

definition kbd_inv :: "kstate \<Rightarrow> bool" where
  "kbd_inv s \<longleftrightarrow> length (terminal_arr s) = MAX_TERMINALS \<and> TA_idx s < MAX_TERMINALS \<and>
     TS_idx s < MAX_TERMINALS \<and> list_all kbd_buf_ok (terminal_arr s)"

text \<open>The line-buffer part of the terminals, which the keyboard and \<open>terminal_read\<close> share.\<close>

definition kbd_lines :: "kstate \<Rightarrow> (u8 list \<times> nat \<times> bool) list" where
  "kbd_lines s = map (\<lambda>t. (keyboard_buffer t, keyboard_idx t, terminal_newline t)) (terminal_arr s)"

definition alt_inv :: "kbd \<Rightarrow> bool" where
  "alt_inv k \<longleftrightarrow> (0 < shiftcaps k AND 8 \<longrightarrow> keycode k = 0)"

section \<open>Lemmas\<close>

lemma kbd_inv_updI:
  assumes "kbd_inv s" "\<And>t. kbd_buf_ok t \<Longrightarrow> kbd_buf_ok (f t)"
  shows "kbd_inv (upd_terminal_active f s)" "kbd_inv (upd_terminal_shown f s)"
  using assms
  by (auto simp: kbd_inv_def upd_terminal_active_def upd_terminal_shown_def terminal_active_def terminal_shown_def
      list_all_length nth_list_update)

lemma kbd_buf_ok_cursor [simp]: "kbd_buf_ok (t\<lparr>cursor_x := a, cursor_y := b\<rparr>) = kbd_buf_ok t"
  by (simp add: kbd_buf_ok_def)

lemma kbd_put_ok: "kbd_buf_ok t \<Longrightarrow> kbd_buf_ok (fst (kbd_put kc t))"
  by (simp add: kbd_put_def kbd_buf_ok_def)

lemma kbd_backspace_ok: "kbd_buf_ok t \<Longrightarrow> kbd_buf_ok (kbd_backspace t)"
  by (auto simp: kbd_backspace_def kbd_buf_ok_def)

lemma backspace_inv: "kbd_inv s \<Longrightarrow> kbd_inv (backspace s)"
  using kbd_inv_updI(2)[of s kbd_backspace, OF _ kbd_backspace_ok]
  by (auto simp: backspace_def Let_def kbd_inv_def upd_terminal_shown_def split: option.split)

text \<open>The cursor loop of backspace moves back exactly the erase count in the row-major cell order and stays on the screen's columns, or returns early exactly when fewer cells precede the cursor.\<close>

lemma bs_move_linear:
  assumes "cx < NUM_COLS"
  shows "(bs_move j (cx, cy) = None \<longleftrightarrow> cy * NUM_COLS + cx < j) \<and>
    (\<forall>cx' cy'. bs_move j (cx, cy) = Some (cx', cy') \<longrightarrow> cx' < NUM_COLS \<and> cy' * NUM_COLS + cx' + j = cy * NUM_COLS + cx)"
  using assms
proof (induction j arbitrary: cx cy)
  case 0
  then show ?case by simp
next
  case (Suc j)
  show ?case
  proof (cases "cx = 0")
    case True
    show ?thesis
    proof (cases "cy = 0")
      case True
      then show ?thesis using \<open>cx = 0\<close> by simp
    next
      case False
      have ih: "(bs_move j (NUM_COLS - 1, cy - 1) = None \<longleftrightarrow> (cy - 1) * NUM_COLS + (NUM_COLS - 1) < j) \<and>
        (\<forall>cx' cy'. bs_move j (NUM_COLS - 1, cy - 1) = Some (cx', cy') \<longrightarrow> cx' < NUM_COLS \<and>
           cy' * NUM_COLS + cx' + j = (cy - 1) * NUM_COLS + (NUM_COLS - 1))"
        by (rule Suc.IH) (simp add: NUM_COLS_def)
      have e: "(cy - 1) * NUM_COLS + (NUM_COLS - 1) + 1 = cy * NUM_COLS"
        using False by (simp add: NUM_COLS_def algebra_simps)
      show ?thesis using ih e \<open>cx = 0\<close> False by auto
    qed
  next
    case False
    have ih: "(bs_move j (cx - 1, cy) = None \<longleftrightarrow> cy * NUM_COLS + (cx - 1) < j) \<and>
        (\<forall>cx' cy'. bs_move j (cx - 1, cy) = Some (cx', cy') \<longrightarrow> cx' < NUM_COLS \<and>
           cy' * NUM_COLS + cx' + j = cy * NUM_COLS + (cx - 1))"
      using Suc.prems by (intro Suc.IH) simp
    show ?thesis using ih False by auto
  qed
qed

text \<open>C39: backspace removes the last character of the shown line and moves the cursor back by the erase count (four cells after a tab, one after another character, none on an empty line) in row-major order, wrapping to the last of the 80 columns of the previous row; when fewer cells precede the cursor it returns early and leaves the cursor where it was.\<close>

theorem backspace_cursor:
  fixes s :: kstate
  assumes x: "screen_x s < NUM_COLS"
  defines "t \<equiv> terminal_shown s"
  defines "j \<equiv> bs_erase_count (if keyboard_idx t \<noteq> 0 then keyboard_buffer t ! (keyboard_idx t - 1) else 0)"
  shows "terminal_arr (backspace s) = terminal_arr (upd_terminal_shown kbd_backspace s) \<and>
    (if j \<le> screen_y s * NUM_COLS + screen_x s
     then screen_x (backspace s) < NUM_COLS \<and>
       screen_y (backspace s) * NUM_COLS + screen_x (backspace s) + j = screen_y s * NUM_COLS + screen_x s \<and>
       hw_cursor (backspace s) = (screen_x (backspace s), screen_y (backspace s))
     else screen_x (backspace s) = screen_x s \<and> screen_y (backspace s) = screen_y s \<and> hw_cursor (backspace s) = hw_cursor s)"
proof -
  note m = bs_move_linear[OF x, of j "screen_y s"]
  have b: "backspace s = (case bs_move j (screen_x s, screen_y s) of None \<Rightarrow> upd_terminal_shown kbd_backspace s
      | Some (cx, cy) \<Rightarrow> (upd_terminal_shown kbd_backspace s)\<lparr>screen_x := cx, screen_y := cy, hw_cursor := (cx, cy)\<rparr>)"
    by (simp add: backspace_def j_def t_def Let_def)
  show ?thesis
  proof (cases "bs_move j (screen_x s, screen_y s)")
    case None
    then show ?thesis using m by (simp add: b upd_terminal_shown_def)
  next
    case (Some p)
    then show ?thesis using m by (cases p) (auto simp: b upd_terminal_shown_def)
  qed
qed

lemma kbd_inv_set_shown: "kbd_inv s \<Longrightarrow> n < MAX_TERMINALS \<Longrightarrow> kbd_inv (set_shown_terminal n s)"
  by (auto simp: kbd_inv_def set_shown_terminal_def Let_def terminal_shown_def list_all_length nth_list_update)

lemma kbd_decode_inv: "kbd_inv s \<Longrightarrow> kbd_inv (snd (kbd_decode code k s))"
proof -
  assume i: "kbd_inv s"
  have clr: "kbd_inv ((upd_terminal_shown (\<lambda>t. t\<lparr>keyboard_buffer := replicate 128 0, keyboard_idx := 0\<rparr>) s)
              \<lparr>screen_x := 0, screen_y := 0, hw_cursor := (0, 0)\<rparr>)"
    using kbd_inv_updI(2)[OF i, of "\<lambda>t. t\<lparr>keyboard_buffer := replicate 128 0, keyboard_idx := 0\<rparr>"]
    by (simp add: kbd_inv_def kbd_buf_ok_def upd_terminal_shown_def)
  have sh: "kbd_inv (set_shown_terminal (unat code - 0x3B) s)" if "unat code < 0x3B + MAX_TERMINALS"
    using that by (intro kbd_inv_set_shown[OF i]) (simp add: MAX_TERMINALS_def)
  show ?thesis
    using i clr sh backspace_inv[OF i]
    by (simp add: kbd_decode_def Let_def)
qed

lemma kbd_enter_inv: "kbd_inv s \<Longrightarrow> kbd_inv (kbd_enter s)"
  using kbd_inv_updI(1)[of s "\<lambda>t. t\<lparr>cursor_x := screen_x s, cursor_y := screen_y s\<rparr>"]
  by (simp add: kbd_enter_def Let_def kbd_inv_def)

lemma kbd_leave_inv: "kbd_inv s \<Longrightarrow> kbd_inv (kbd_leave s)"
  using kbd_inv_updI(2)[of s "\<lambda>t. t\<lparr>cursor_x := screen_x s, cursor_y := screen_y s\<rparr>"]
  by (simp add: kbd_leave_def Let_def kbd_inv_def)

lemma kbd_emit_inv: "kbd_inv s \<Longrightarrow> kbd_inv (fst (kbd_emit k s))"
proof (cases "keycode k \<noteq> 0")
  case True
  assume i: "kbd_inv s"
  have ok: "kbd_buf_ok (terminal_shown s)" using i by (auto simp: kbd_inv_def terminal_shown_def list_all_length)
  obtain t e where p: "kbd_put (keycode k) (terminal_shown s) = (t, e)" by fastforce
  have "kbd_buf_ok t" using kbd_put_ok[OF ok, of "keycode k"] p by simp
  then show ?thesis using i True p
    by (simp add: kbd_emit_def kbd_inv_def upd_terminal_shown_def list_all_update_ok)
qed (simp add: kbd_emit_def)

lemma kbd_emit_out: "length (snd (kbd_emit k s)) \<le> 1"
  by (simp add: kbd_emit_def kbd_put_def split: prod.splits)

lemma kbd_decode_alt_inv: "alt_inv k \<Longrightarrow> alt_inv (fst (kbd_decode code k s))"
  by (simp add: kbd_decode_def alt_inv_def Let_def)

lemma Keyboard_Handler_split:
  "Keyboard_Handler code k s =
     ((fst (kbd_decode code k (kbd_enter s)), kbd_leave (fst (kbd_emit (fst (kbd_decode code k (kbd_enter s))) (snd (kbd_decode code k (kbd_enter s)))))),
      snd (kbd_emit (fst (kbd_decode code k (kbd_enter s))) (snd (kbd_decode code k (kbd_enter s)))))"
  by (simp add: Keyboard_Handler_def split: prod.splits)

text \<open>C28: Every keyboard interrupt keeps each terminal line buffer 128 bytes long with its index at most 127, so every store of the handler is inside the buffer; it keeps the alt invariant (while alt is held the pending keycode is 0), and prints at most one character.\<close>

lemma kbd_handler_invariants:
  assumes "kbd_inv s" "alt_inv k" "Keyboard_Handler code k s = ((k', s'), out)"
  shows "kbd_inv s' \<and> alt_inv k' \<and> length out \<le> 1"
  using assms kbd_leave_inv[OF kbd_emit_inv[OF kbd_decode_inv[OF kbd_enter_inv]]] kbd_decode_alt_inv kbd_emit_out
  unfolding Keyboard_Handler_split by auto
lemma kbd_lines_frame:
  "kbd_lines (kbd_enter s) = kbd_lines s" "TS_idx (kbd_enter s) = TS_idx s" "TA_idx (kbd_enter s) = TA_idx s"
  "kbd_lines (kbd_leave s) = kbd_lines s" "TS_idx (kbd_leave s) = TS_idx s" "TA_idx (kbd_leave s) = TA_idx s"
  "kbd_lines (set_shown_terminal n s) = kbd_lines s" "TS_idx (set_shown_terminal n s) = n"
  by (simp_all add: kbd_lines_def kbd_enter_def kbd_leave_def set_shown_terminal_def Let_def
      upd_terminal_active_def upd_terminal_shown_def terminal_active_def terminal_shown_def map_update_same)

lemma kbd_decode_alt:
  assumes "alt_inv k" "0 < shiftcaps k AND 8" "code \<noteq> 0x0E"
  shows "keycode (fst (kbd_decode code k s)) = 0 \<and>
         snd (kbd_decode code k s) = (if 0x3B \<le> unat code \<and> unat code < 0x3B + MAX_TERMINALS
                                      then set_shown_terminal (unat code - 0x3B) s else s)"
  using assms by (auto simp: kbd_decode_def alt_inv_def Let_def MAX_TERMINALS_def)

text \<open>C29: While alt is held, a key other than backspace types and prints nothing and leaves every line buffer, index and newline flag unchanged; alt with F1, F2 or F3 makes terminal 0, 1 or 2 the shown one.\<close>

lemma alt_chord_no_input:
  assumes alt: "alt_inv k" "0 < shiftcaps k AND 8" and bs: "code \<noteq> 0x0E"
    and r: "Keyboard_Handler code k s = ((k', s'), out)"
  shows "out = [] \<and> kbd_lines s' = kbd_lines s \<and> alt_inv k' \<and>
         (0x3B \<le> unat code \<and> unat code < 0x3B + MAX_TERMINALS \<longrightarrow> TS_idx s' = unat code - 0x3B)"
proof -
  note d = kbd_decode_alt[OF alt bs, of "kbd_enter s"]
  have e: "kbd_emit (fst (kbd_decode code k (kbd_enter s))) (snd (kbd_decode code k (kbd_enter s))) =
             (snd (kbd_decode code k (kbd_enter s)), [])"
    using d by (simp add: kbd_emit_def)
  show ?thesis
    using r d e kbd_decode_alt_inv[OF alt(1)] unfolding Keyboard_Handler_split
    by (auto simp: kbd_lines_frame)
qed
lemma shift_caps_bits: "(drop_bit 1 (sc AND 2) \<noteq> sc AND 1) = (bit (sc::u8) 1 \<noteq> bit sc 0)"
proof -
  have a: "drop_bit 1 (sc AND 2) = (if bit sc 1 then 1 else 0)"
    apply (rule bit_word_eqI)
    apply (auto simp: bit_drop_bit_eq bit_and_iff bit_1_iff bit_2_iff)
    using gr0I by fastforce
  have b: "sc AND 1 = (if bit sc 0 then 1 else 0)"
    apply (rule bit_word_eqI)
    apply (auto simp: bit_and_iff bit_1_iff)
    using gr0I by fastforce
  show ?thesis by (simp only: a b) simp
qed
lemma kbd_tables_case:
  assumes "i < 62" "kbd_letter (codeASCIINS ! i)"
  shows "codeASCIIYS ! i = codeASCIINS ! i - 0x20"
proof -
  have "list_all2 (\<lambda>a b. kbd_letter a \<longrightarrow> b = a - 0x20) codeASCIINS codeASCIIYS"
    by (simp add: codeASCIINS_def codeASCIIYS_def kbd_letter_def)
  moreover have "length codeASCIINS = 62" by (simp add: codeASCIINS_def)
  ultimately show ?thesis using assms list_all2_nthD by fastforce
qed

lemma kbd_letter_not_special:
  "unat (code::u8) < 0x3B \<Longrightarrow> kbd_letter (codeASCIINS ! unat code) \<Longrightarrow>
   code \<noteq> 0x3A \<and> code \<noteq> 0x36 \<and> code \<noteq> 0x2A \<and> code \<noteq> 0x1D \<and> code \<noteq> 0x0E \<and> code \<noteq> 0x38 \<and>
   code \<noteq> 0xB6 \<and> code \<noteq> 0xAA \<and> code \<noteq> 0x9D \<and> code \<noteq> 0xB8"
  by (auto simp: codeASCIINS_def kbd_letter_def)

lemma kbd_lines_upd_shown:
  "kbd_lines (upd_terminal_shown (\<lambda>_. t) s) =
     (kbd_lines s)[TS_idx s := (keyboard_buffer t, keyboard_idx t, terminal_newline t)]"
  by (simp add: kbd_lines_def upd_terminal_shown_def map_update)

lemma kbd_lines_shown:
  "TS_idx s < length (terminal_arr s) \<Longrightarrow>
   kbd_lines s ! TS_idx s = (keyboard_buffer (terminal_shown s), keyboard_idx (terminal_shown s), terminal_newline (terminal_shown s))"
  by (simp add: kbd_lines_def terminal_shown_def)

text \<open>C30: A letter key, without alt and other than control-L, appends the letter to the shown line buffer and echoes it, upper case exactly when shift and caps lock differ; no other line changes.\<close>

lemma kbd_letter_case:
  assumes inv: "kbd_inv s" and code: "unat code < 0x3B" and l: "kbd_letter (codeASCIINS ! unat code)"
    and alt: "shiftcaps k AND 8 = 0" and nctl: "\<not> (0 < shiftcaps k AND 4 \<and> code = 0x26)"
    and room: "keyboard_idx (terminal_shown s) < 127"
    and r: "Keyboard_Handler code k s = ((k', s'), out)"
  defines "c \<equiv> if bit (shiftcaps k) 1 \<noteq> bit (shiftcaps k) 0 then codeASCIINS ! unat code - 0x20 else codeASCIINS ! unat code"
  shows "out = [c] \<and> kbd_lines s' = (kbd_lines s)[TS_idx s := ((keyboard_buffer (terminal_shown s))[keyboard_idx (terminal_shown s) := c],
           Suc (keyboard_idx (terminal_shown s)), terminal_newline (terminal_shown s))]"
proof -
  let ?s2 = "kbd_enter s"
  have ts: "TS_idx s < length (terminal_arr s)" using inv by (simp add: kbd_inv_def)
  have sp: "code \<noteq> 0x3A \<and> code \<noteq> 0x36 \<and> code \<noteq> 0x2A \<and> code \<noteq> 0x1D \<and> code \<noteq> 0x0E \<and> code \<noteq> 0x38 \<and>
   code \<noteq> 0xB6 \<and> code \<noteq> 0xAA \<and> code \<noteq> 0x9D \<and> code \<noteq> 0xB8" using kbd_letter_not_special[OF code l] .
  have ty: "kbd_typable (shiftcaps k) code = c"
    using kbd_tables_case[of "unat code"] code l
    unfolding kbd_typable_def Let_def shift_caps_bits by (simp add: c_def)
  have d: "kbd_decode code k ?s2 = (k\<lparr>keycode := c\<rparr>, ?s2)"
    using sp code alt nctl l ty by (auto simp: kbd_decode_def Let_def MAX_TERMINALS_def)
  have cnz: "c \<noteq> 0 \<and> c \<noteq> 10"
    using l by (auto simp: c_def kbd_letter_def word_less_nat_alt unat_sub word_le_nat_alt)
  have ts2: "TS_idx ?s2 < length (terminal_arr ?s2)" using ts kbd_inv_def kbd_enter_inv[OF inv] by simp
  have sh: "keyboard_buffer (terminal_shown ?s2) = keyboard_buffer (terminal_shown s)"
    "keyboard_idx (terminal_shown ?s2) = keyboard_idx (terminal_shown s)"
    "terminal_newline (terminal_shown ?s2) = terminal_newline (terminal_shown s)"
    using kbd_lines_shown[OF ts2] kbd_lines_shown[OF ts] by (simp_all add: kbd_lines_frame)
  define t' where "t' = fst (kbd_put c (terminal_shown ?s2))"
  have e: "kbd_emit (k\<lparr>keycode := c\<rparr>) ?s2 = (upd_terminal_shown (\<lambda>_. t') ?s2, [c])"
    using cnz room sh by (simp add: kbd_emit_def kbd_put_def t'_def)
  have "s' = kbd_leave (upd_terminal_shown (\<lambda>_. t') ?s2) \<and> out = [c]"
    using r e d by (simp add: Keyboard_Handler_def)
  then have "kbd_lines s' = kbd_lines (upd_terminal_shown (\<lambda>_. t') ?s2)" "out = [c]"
    by (simp_all add: kbd_lines_frame)
  then show ?thesis
    using cnz room sh by (simp add: kbd_lines_upd_shown kbd_lines_frame t'_def kbd_put_def)
qed
lemma kbd_type_append: "kbd_type (xs @ ys) t = kbd_type ys (kbd_type xs t)"
  by (induction xs arbitrary: t) simp_all

lemma kbd_type_full:
  "keyboard_idx t = 127 \<Longrightarrow> \<not> terminal_newline t \<Longrightarrow> 10 \<notin> set cs \<Longrightarrow> kbd_type cs t = t"
  by (induction cs) (simp_all add: kbd_put_def)

lemma take_Suc_update: "i < length xs \<Longrightarrow> take (Suc i) (xs[i := c]) = take i xs @ [c]"
  by (simp add: take_Suc_conv_app_nth)

lemma kbd_type_fill:
  assumes "length (keyboard_buffer t) = 128" "keyboard_idx t \<le> 127" "\<not> terminal_newline t" "10 \<notin> set cs"
  shows "keyboard_buffer (kbd_type cs t) =
           take (keyboard_idx t) (keyboard_buffer t) @ take (min (127 - keyboard_idx t) (length cs)) cs @
           drop (keyboard_idx t + min (127 - keyboard_idx t) (length cs)) (keyboard_buffer t) \<and>
         keyboard_idx (kbd_type cs t) = keyboard_idx t + min (127 - keyboard_idx t) (length cs) \<and>
         \<not> terminal_newline (kbd_type cs t) \<and> length (keyboard_buffer (kbd_type cs t)) = 128"
  using assms
proof (induction cs arbitrary: t)
  case Nil
  then show ?case by simp
next
  case (Cons c cs)
  show ?case
  proof (cases "keyboard_idx t = 127")
    case True
    then have "kbd_type (c # cs) t = t" using Cons.prems kbd_type_full[of t "c # cs"] by simp
    then show ?thesis using True Cons.prems by simp
  next
    case False
    let ?i = "keyboard_idx t"
    define t1 where "t1 = t\<lparr>keyboard_buffer := (keyboard_buffer t)[?i := c], keyboard_idx := Suc ?i\<rparr>"
    have c: "c \<noteq> 10" using Cons.prems by simp
    have p: "fst (kbd_put c t) = t1" using False c Cons.prems by (simp add: kbd_put_def t1_def)
    have i: "?i < 127" using False Cons.prems by simp
    note IH = Cons.IH[of t1]
    have m: "min (127 - ?i) (Suc (length cs)) = Suc (min (126 - ?i) (length cs))" using i by simp
    have "drop (Suc ?i + min (127 - Suc ?i) (length cs)) ((keyboard_buffer t)[?i := c]) =
            drop (Suc ?i + min (127 - Suc ?i) (length cs)) (keyboard_buffer t)" by simp
    then show ?thesis
      using IH i c Cons.prems take_Suc_update[of ?i "keyboard_buffer t" c]
      by (simp add: p t1_def m)
  qed
qed
lemma tr_loop_line:
  "i + length xs < length kb \<Longrightarrow> 10 \<notin> set xs \<Longrightarrow> (\<forall>j<length xs. kb ! (i + j) = xs ! j) \<Longrightarrow>
   kb ! (i + length xs) = 10 \<Longrightarrow> length xs < n \<Longrightarrow> fst (tr_loop n i kb) = xs @ [10]"
proof (induction xs arbitrary: i kb n)
  case Nil
  then obtain n' where "n = Suc n'" by (cases n) auto
  then show ?case using Nil by simp
next
  case (Cons x xs)
  then obtain n' where n: "n = Suc n'" by (cases n) auto
  have x: "kb ! i = x" "x \<noteq> 10" using Cons.prems(2,3) by (auto dest: spec[of _ 0])
  have "fst (tr_loop n' (Suc i) (kb[i := 0])) = xs @ [10]"
  proof (rule Cons.IH)
    show "\<forall>j<length xs. kb[i := 0] ! (Suc i + j) = xs ! j"
      using Cons.prems(3) by (auto dest: spec[of _ "Suc _"])
  qed (use Cons.prems n in auto)
  then show ?case using x n by (cases "tr_loop n' (Suc i) (kb[i := 0])") (simp add: Let_def)
qed

text \<open>C31: After terminal_read starts (setIdx 0), typing a line without newline followed by enter makes terminal_read return the first 127 characters of the line and the newline, with that count, whatever the earlier buffer contents.\<close>

lemma typed_line_read:
  assumes inv: "kbd_inv s" and nl: "10 \<notin> set cs"
  shows "fst (terminal_read_copy (upd_terminal_active (kbd_type (cs @ [10])) (terminal_read_begin s))) =
           (int (length (take 127 cs @ [10])), take 127 cs @ [10])"
proof -
  have ta: "TA_idx s < length (terminal_arr s)" and ok: "kbd_buf_ok (terminal_active s)"
    using inv by (auto simp: kbd_inv_def terminal_active_def list_all_length)
  define t1 where "t1 = (terminal_active s)\<lparr>keyboard_idx := 0, terminal_newline := False\<rparr>"
  define m where "m = min 127 (length cs)"
  have t1: "length (keyboard_buffer t1) = 128" "keyboard_idx t1 = 0" "\<not> terminal_newline t1"
    using ok by (simp_all add: t1_def kbd_buf_ok_def)
  note f = kbd_type_fill[OF t1(1) _ t1(3) nl, unfolded t1(2)]
  define kb where "kb = keyboard_buffer (kbd_type cs t1)"
  have kb: "kb = take m cs @ drop m (keyboard_buffer t1)" "keyboard_idx (kbd_type cs t1) = m"
    "\<not> terminal_newline (kbd_type cs t1)" "length kb = 128"
    using f t1(1) by (simp_all add: kb_def m_def)
  have m: "m \<le> 127" "length (take m cs) = m" by (simp_all add: m_def)
  have put: "keyboard_buffer (kbd_type (cs @ [10]) t1) = kb[m := 10]"
    using kb m by (auto simp: kbd_type_append kbd_put_def kb_def)
  have act: "terminal_active (upd_terminal_active (kbd_type (cs @ [10])) (terminal_read_begin s)) =
               kbd_type (cs @ [10]) t1"
    using ta by (simp add: terminal_read_begin_def setIdx_def upd_terminal_active_def terminal_active_def t1_def)
  have line: "fst (tr_loop 128 0 (kb[m := 10])) = take m cs @ [10]"
  proof (rule tr_loop_line)
    show "10 \<notin> set (take m cs)" using nl by (auto dest: in_set_takeD)
    show "\<forall>j<length (take m cs). kb[m := 10] ! (0 + j) = take m cs ! j"
      using kb m by (simp add: nth_append)
  qed (use kb m in simp_all)
  have "take m cs = take 127 cs" by (simp add: m_def min_def)
  then show ?thesis
    using line by (cases "tr_loop 128 0 (kb[m := 10])") (simp add: terminal_read_copy_def act put)
qed
end
