(* ===== verification/I8259.thy ===== *)
theory I8259
  imports Prelude
begin

text \<open>
  The 8259 interrupt controller driver of drivers/i8259.c together with the
  two chips it programs.  The chips are hardware, modelled after the 8259A
  data sheet as far as the driver uses them: a command port (a byte with bit 4
  set is ICW1 and restarts initialisation, clearing the mask register; any
  other byte is an operation command such as an end of interrupt, recorded in
  \<open>ocw_log\<close>) and a data port (during initialisation the ICW2, ICW3 and ICW4
  bytes that ICW1 asks for; otherwise the interrupt mask register IMR, a set
  bit masking the line).  The driver's globals \<open>master_mask\<close> and
  \<open>slave_mask\<close> are fields of \<open>pic\<close>.  \<open>cli_and_save\<close>, \<open>restore_flags\<close> and
  \<open>sti\<close> only toggle the interrupt flag and are not modelled.  The constants
  of i8259.h (not among the sources) are the values of the standard
  PC wiring: ports 0x20 and 0xA0, vectors 0x20 and 0x28, the slave on line 2,
  specific EOI 0x60.
\<close>

section \<open>Constants of i8259.h\<close>

definition MASTER_8259_PORT :: nat where "MASTER_8259_PORT = 0x20"
definition SLAVE_8259_PORT :: nat where "SLAVE_8259_PORT = 0xA0"
definition ICW1 :: u8 where "ICW1 = 0x11"
definition ICW2_MASTER :: u8 where "ICW2_MASTER = 0x20"
definition ICW2_SLAVE :: u8 where "ICW2_SLAVE = 0x28"
definition ICW3_MASTER :: u8 where "ICW3_MASTER = 0x04"
definition ICW3_SLAVE :: u8 where "ICW3_SLAVE = 0x02"
definition ICW4 :: u8 where "ICW4 = 0x01"
definition EOI :: u8 where "EOI = 0x60"
definition SLAVE_ID :: nat where "SLAVE_ID = 2"

lemmas pic_consts = MASTER_8259_PORT_def SLAVE_8259_PORT_def ICW1_def ICW2_MASTER_def ICW2_SLAVE_def
  ICW3_MASTER_def ICW3_SLAVE_def ICW4_def EOI_def SLAVE_ID_def

section \<open>The chips\<close>

datatype icw_phase = Ready | Want_icw2 | Want_icw3 | Want_icw4

record chip =
  imr :: u8
  phase :: icw_phase
  icw1_reg :: u8
  vector_base :: u8
  cascade_reg :: u8
  icw4_reg :: u8
  ocw_log :: "u8 list"

definition chip_command :: "u8 \<Rightarrow> chip \<Rightarrow> chip" where
  "chip_command v c =
     (if bit v 4 then c\<lparr>phase := Want_icw2, icw1_reg := v, imr := 0\<rparr>
      else c\<lparr>ocw_log := ocw_log c @ [v]\<rparr>)"

definition chip_data :: "u8 \<Rightarrow> chip \<Rightarrow> chip" where
  "chip_data v c =
     (case phase c of
        Ready \<Rightarrow> c\<lparr>imr := v\<rparr>
      | Want_icw2 \<Rightarrow> c\<lparr>vector_base := v AND 0xF8,
          phase := (if \<not> bit (icw1_reg c) 1 then Want_icw3 else if bit (icw1_reg c) 0 then Want_icw4 else Ready)\<rparr>
      | Want_icw3 \<Rightarrow> c\<lparr>cascade_reg := v, phase := (if bit (icw1_reg c) 0 then Want_icw4 else Ready)\<rparr>
      | Want_icw4 \<Rightarrow> c\<lparr>icw4_reg := v, phase := Ready\<rparr>)"

record pic =
  master :: chip
  slave :: chip
  master_mask :: u8
  slave_mask :: u8

definition outb :: "u8 \<Rightarrow> nat \<Rightarrow> pic \<Rightarrow> pic" where
  "outb v port p =
     (if port = MASTER_8259_PORT then p\<lparr>master := chip_command v (master p)\<rparr>
      else if port = MASTER_8259_PORT + 1 then p\<lparr>master := chip_data v (master p)\<rparr>
      else if port = SLAVE_8259_PORT then p\<lparr>slave := chip_command v (slave p)\<rparr>
      else if port = SLAVE_8259_PORT + 1 then p\<lparr>slave := chip_data v (slave p)\<rparr>
      else p)"

definition inb :: "nat \<Rightarrow> pic \<Rightarrow> u8" where
  "inb port p =
     (if port = MASTER_8259_PORT + 1 then imr (master p)
      else if port = SLAVE_8259_PORT + 1 then imr (slave p) else 0)"

section \<open>The driver\<close>

definition i8259_init :: "pic \<Rightarrow> pic" where
  "i8259_init p =
     fold (\<lambda>(v, port). outb v port)
       [(0xFF, MASTER_8259_PORT + 1), (0xFF, SLAVE_8259_PORT + 1),
        (ICW1, MASTER_8259_PORT), (ICW1, SLAVE_8259_PORT),
        (ICW2_MASTER, MASTER_8259_PORT + 1), (ICW2_SLAVE, SLAVE_8259_PORT + 1),
        (ICW3_MASTER, MASTER_8259_PORT + 1), (ICW3_SLAVE, SLAVE_8259_PORT + 1),
        (ICW4, MASTER_8259_PORT + 1), (ICW4, SLAVE_8259_PORT + 1),
        (0xFF, MASTER_8259_PORT + 1), (0xFF, SLAVE_8259_PORT + 1)] p"

text \<open>\<open>1 << irq_num\<close> is kept at the 16 bits of \<open>uint16_t mask\<close>; the bytes written are truncated to 8 bits by \<open>outb\<close>.\<close>

definition enable_irq :: "nat \<Rightarrow> pic \<Rightarrow> pic" where
  "enable_irq irq_num p =
     (let mask = NOT (push_bit irq_num 1) :: u16 in
      if 8 \<le> irq_num then
        (let sm = inb (SLAVE_8259_PORT + 1) p AND ucast (drop_bit 8 mask);
             p1 = outb sm (SLAVE_8259_PORT + 1) (p\<lparr>slave_mask := sm\<rparr>)
         in outb (NOT (push_bit SLAVE_ID 1) AND inb (MASTER_8259_PORT + 1) p1) (MASTER_8259_PORT + 1) p1)
      else
        (let mm = inb (MASTER_8259_PORT + 1) p AND ucast mask
         in outb mm (MASTER_8259_PORT + 1) (p\<lparr>master_mask := mm\<rparr>)))"

definition disable_irq :: "nat \<Rightarrow> pic \<Rightarrow> pic" where
  "disable_irq irq_num p =
     (let mask = push_bit irq_num 1 :: u16 in
      if 8 \<le> irq_num then
        (let sm = inb (SLAVE_8259_PORT + 1) p OR ucast (drop_bit 8 mask)
         in outb sm (SLAVE_8259_PORT + 1) (p\<lparr>slave_mask := sm\<rparr>))
      else
        (let mm = inb (MASTER_8259_PORT + 1) p OR ucast mask
         in outb mm (MASTER_8259_PORT + 1) (p\<lparr>master_mask := mm\<rparr>)))"

definition send_eoi :: "nat \<Rightarrow> pic \<Rightarrow> pic" where
  "send_eoi irq_num p =
     (if 8 \<le> irq_num then
        outb (EOI OR of_nat SLAVE_ID) MASTER_8259_PORT (outb (EOI OR (of_nat irq_num AND 7)) SLAVE_8259_PORT p)
      else outb (EOI OR of_nat irq_num) MASTER_8259_PORT p)"

definition pic_ready :: "pic \<Rightarrow> bool" where
  "pic_ready p \<longleftrightarrow> phase (master p) = Ready \<and> phase (slave p) = Ready"

section \<open>Lemmas\<close>

text \<open>From any state of the two chips, i8259_init leaves both ready with vector bases 0x20 and 0x28, the slave wired on line 2 and every interrupt line masked (IMR 0xFF), although the comment on its last writes says they enable all IRQs.\<close>

lemma i8259_init_state:
  shows "pic_ready (i8259_init p) \<and> imr (master (i8259_init p)) = 0xFF \<and> imr (slave (i8259_init p)) = 0xFF \<and>
         vector_base (master (i8259_init p)) = 0x20 \<and> vector_base (slave (i8259_init p)) = 0x28 \<and>
         cascade_reg (master (i8259_init p)) = 0x04 \<and> cascade_reg (slave (i8259_init p)) = 0x02 \<and>
         icw4_reg (master (i8259_init p)) = 1 \<and> icw4_reg (slave (i8259_init p)) = 1"
  by (simp add: i8259_init_def outb_def chip_command_def chip_data_def pic_consts pic_ready_def split: icw_phase.splits)

lemma mask_low_bits: "i < 8 \<Longrightarrow> bit (ucast (NOT (2 ^ irq) :: u16) :: u8) i \<longleftrightarrow> i \<noteq> irq"
  by (auto simp: bit_simps)

lemma mask_high_bits: "i < 8 \<Longrightarrow> bit (ucast (drop_bit 8 (NOT (2 ^ irq) :: u16)) :: u8) i \<longleftrightarrow> i + 8 \<noteq> irq"
  by (auto simp: bit_simps)

lemma set_low_bits: "i < 8 \<Longrightarrow> bit (ucast (2 ^ irq :: u16) :: u8) i \<longleftrightarrow> i = irq"
  by (auto simp: bit_simps)

lemma set_high_bits: "i < 8 \<Longrightarrow> bit (ucast (drop_bit 8 (2 ^ irq :: u16)) :: u8) i \<longleftrightarrow> i + 8 = irq \<and> irq < 16"
  by (auto simp: bit_simps)

lemma bit_not_cascade: "bit (NOT (2 ^ SLAVE_ID) :: u8) i \<longleftrightarrow> i < 8 \<and> i \<noteq> SLAVE_ID"
  by (auto simp: bit_not_iff bit_exp_iff)

lemma data_ready: "phase c = Ready \<Longrightarrow> chip_data v c = c\<lparr>imr := v\<rparr>"
  by (simp add: chip_data_def)

text \<open>On ready chips, enable_irq clears exactly the mask bit of its line, and for a slave line also the cascade line 2 on the master; no other mask bit and no command log changes, and the driver global of the line chip records the written mask.\<close>

lemma enable_irq_bits:
  fixes irq :: nat
  assumes "pic_ready p"
  defines "p' \<equiv> enable_irq irq p"
  shows "pic_ready p' \<and>
    (\<forall>i<8. bit (imr (master p')) i \<longleftrightarrow> bit (imr (master p)) i \<and> i \<noteq> irq \<and> \<not> (8 \<le> irq \<and> i = SLAVE_ID)) \<and>
    (\<forall>i<8. bit (imr (slave p')) i \<longleftrightarrow> bit (imr (slave p)) i \<and> i + 8 \<noteq> irq) \<and>
    (if irq < 8 then master_mask p' = imr (master p') \<and> slave_mask p' = slave_mask p
     else slave_mask p' = imr (slave p') \<and> master_mask p' = master_mask p) \<and>
    ocw_log (master p') = ocw_log (master p) \<and> ocw_log (slave p') = ocw_log (slave p)"
  using assms(1) unfolding p'_def
  by (auto simp: enable_irq_def outb_def inb_def MASTER_8259_PORT_def SLAVE_8259_PORT_def pic_ready_def data_ready Let_def
      bit_and_iff mask_low_bits mask_high_bits bit_not_cascade)

text \<open>On ready chips, disable_irq sets exactly the mask bit of its line (nothing for a line number of 16 or more) and changes no other mask bit.\<close>

lemma disable_irq_bits:
  fixes irq :: nat
  assumes "pic_ready p"
  defines "p' \<equiv> disable_irq irq p"
  shows "pic_ready p' \<and>
    (\<forall>i<8. bit (imr (master p')) i \<longleftrightarrow> bit (imr (master p)) i \<or> i = irq) \<and>
    (\<forall>i<8. bit (imr (slave p')) i \<longleftrightarrow> bit (imr (slave p)) i \<or> (i + 8 = irq \<and> irq < 16)) \<and>
    ocw_log (master p') = ocw_log (master p) \<and> ocw_log (slave p') = ocw_log (slave p)"
  using assms(1) unfolding p'_def
  by (auto simp: disable_irq_def outb_def inb_def pic_consts pic_ready_def data_ready Let_def
      bit_or_iff set_low_bits set_high_bits)

text \<open>C32: On ready chips, enable_irq clears exactly the mask bit of its line, and for a slave line also the cascade line 2 on the master, and records the written mask in the driver global of the line's chip; disable_irq sets exactly the mask bit of its line (nothing for a line number of 16 or more); neither changes another mask bit or a command log, and both leave the chips ready.\<close>

theorem irq_mask_bits:
  fixes irq :: nat
  assumes "pic_ready p"
  defines "e \<equiv> enable_irq irq p" and "d \<equiv> disable_irq irq p"
  shows "pic_ready e \<and>
    (\<forall>i<8. bit (imr (master e)) i \<longleftrightarrow> bit (imr (master p)) i \<and> i \<noteq> irq \<and> \<not> (8 \<le> irq \<and> i = SLAVE_ID)) \<and>
    (\<forall>i<8. bit (imr (slave e)) i \<longleftrightarrow> bit (imr (slave p)) i \<and> i + 8 \<noteq> irq) \<and>
    (if irq < 8 then master_mask e = imr (master e) \<and> slave_mask e = slave_mask p
     else slave_mask e = imr (slave e) \<and> master_mask e = master_mask p) \<and>
    ocw_log (master e) = ocw_log (master p) \<and> ocw_log (slave e) = ocw_log (slave p) \<and>
    pic_ready d \<and>
    (\<forall>i<8. bit (imr (master d)) i \<longleftrightarrow> bit (imr (master p)) i \<or> i = irq) \<and>
    (\<forall>i<8. bit (imr (slave d)) i \<longleftrightarrow> bit (imr (slave p)) i \<or> (i + 8 = irq \<and> irq < 16)) \<and>
    ocw_log (master d) = ocw_log (master p) \<and> ocw_log (slave d) = ocw_log (slave p)"
  using enable_irq_bits[OF assms(1), of irq] disable_irq_bits[OF assms(1), of irq] unfolding e_def d_def by blast

lemma enable_irqs_bits:
  assumes "pic_ready p"
  shows "pic_ready (fold enable_irq irqs p) \<and>
    (\<forall>i<8. bit (imr (master (fold enable_irq irqs p))) i \<longleftrightarrow>
       bit (imr (master p)) i \<and> i \<notin> set irqs \<and> \<not> (i = SLAVE_ID \<and> (\<exists>q\<in>set irqs. 8 \<le> q))) \<and>
    (\<forall>i<8. bit (imr (slave (fold enable_irq irqs p))) i \<longleftrightarrow> bit (imr (slave p)) i \<and> i + 8 \<notin> set irqs)"
  using assms
proof (induction irqs arbitrary: p)
  case Nil
  then show ?case by simp
next
  case (Cons q qs)
  note e = enable_irq_bits[OF Cons.prems, of q]
  have "pic_ready (enable_irq q p)" using e by blast
  from Cons.IH[OF this] e show ?case by auto
qed

text \<open>After i8259_init, enabling the PIT, keyboard and RTC lines (0, 1 and 8) in any order leaves exactly lines 0, 1, 2 (cascade) and 8 unmasked: master IMR 0xF8, slave IMR 0xFE.\<close>

lemma pic_boot_lines:
  assumes "set irqs = {0, 1, 8}"
  shows "imr (master (fold enable_irq irqs (i8259_init p))) = 0xF8 \<and>
         imr (slave (fold enable_irq irqs (i8259_init p))) = 0xFE"
proof -
  have r: "pic_ready (i8259_init p)" "imr (master (i8259_init p)) = 0xFF" "imr (slave (i8259_init p)) = 0xFF"
    using i8259_init_state[of p] by simp_all
  note b = enable_irqs_bits[OF r(1), of irqs]
  have m: "imr (master (fold enable_irq irqs (i8259_init p))) = 0xF8"
    by (rule u8_eq_by_bits) (use b r assms in \<open>simp add: upt_rec bit_FF_u8 SLAVE_ID_def\<close>)
  have sl: "imr (slave (fold enable_irq irqs (i8259_init p))) = 0xFE"
    by (rule u8_eq_by_bits) (use b r assms in \<open>simp add: upt_rec bit_FF_u8\<close>)
  show ?thesis using m sl ..
qed

lemma eoi_not_icw1: "n < 8 \<Longrightarrow> \<not> bit (EOI OR of_nat n) 4"
proof -
  assume n: "n < 8"
  have "\<not> bit n 4" using n by (simp add: bit_iff_odd)
  moreover have "\<not> bit (0x60::u8) 4" by (simp add: bit_iff_odd)
  ultimately show ?thesis by (simp add: EOI_def bit_or_iff bit_of_nat_iff)
qed

lemma and7_slave_line: "8 \<le> n \<Longrightarrow> n < 16 \<Longrightarrow> (of_nat n AND 7 :: u8) = of_nat (n - 8)"
proof -
  assume "8 \<le> n" "n < 16"
  then have n: "n \<in> set [8..<16]" by (simp only: set_upt atLeastLessThan_iff)
  have "list_all (\<lambda>n. (of_nat n AND 7 :: u8) = of_nat (n - 8)) [8..<16]" by (simp add: upt_rec)
  then show ?thesis using n by (simp only: list_all_iff)
qed

text \<open>On ready chips, send_eoi for a line below 16 sends a specific EOI naming the line on its own chip, and for a slave line also the cascade line on the master; no EOI byte is taken for an ICW1, so masks and initialisation state are unchanged.\<close>

lemma send_eoi_specific:
  fixes irq :: nat
  assumes "pic_ready p" "irq < 16"
  defines "p' \<equiv> send_eoi irq p"
  shows "pic_ready p' \<and> imr (master p') = imr (master p) \<and> imr (slave p') = imr (slave p) \<and>
    ocw_log (master p') = ocw_log (master p) @ [EOI OR of_nat (if irq < 8 then irq else SLAVE_ID)] \<and>
    ocw_log (slave p') = ocw_log (slave p) @ (if irq < 8 then [] else [EOI OR of_nat (irq - 8)])"
proof (cases "irq < 8")
  case True
  then show ?thesis using assms(1) eoi_not_icw1[OF True]
    by (simp add: p'_def send_eoi_def outb_def chip_command_def MASTER_8259_PORT_def SLAVE_8259_PORT_def pic_ready_def)
next
  case False
  have s: "\<not> bit (EOI OR of_nat SLAVE_ID) 4" by (rule eoi_not_icw1) (simp add: SLAVE_ID_def)
  have a: "(of_nat irq AND 7 :: u8) = of_nat (irq - 8)" using False assms(2) by (simp add: and7_slave_line)
  have t: "\<not> bit (EOI OR of_nat (irq - 8)) 4" using False assms(2) by (intro eoi_not_icw1) simp
  show ?thesis using assms(1) False s t
    by (simp add: p'_def send_eoi_def outb_def chip_command_def MASTER_8259_PORT_def SLAVE_8259_PORT_def pic_ready_def a)
qed
end
