(* ===== verification/RtcChip.thy ===== *)
theory RtcChip
  imports Rtc I8259
begin

text \<open>
  The port I/O of the RTC driver (drivers/rtc.c, rtc.h): \<open>NMI_enable\<close>,
  \<open>NMI_disable\<close>, the chip programming of \<open>init_RTC\<close> and the acknowledge
  and end-of-interrupt of \<open>RTC_Handler\<close>, composed with the kernel-state part
  of the driver (theory Rtc) and the 8259 model (theory I8259).  The MC146818
  CMOS chip is its index register at port 0x70 (bit 7 masks NMIs, the low
  seven bits select a register) and its registers, read and written through
  port 0x71.  As the comment at the head of rtc.c says, an access to port 0x71
  resets the selection (to register D), which is why the driver reselects a
  register before each access; reading register C returns and clears its
  interrupt flags.  A read of port 0x70 returns the index register.
\<close>

section \<open>The CMOS chip\<close>

definition RTC_IRQ :: nat where "RTC_IRQ = 8"
definition RTC_PORT :: nat where "RTC_PORT = 0x70"

record cmos =
  cmos_index :: u8
  cmos_regs :: "u8 \<Rightarrow> u8"

definition cmos_sel :: "cmos \<Rightarrow> u8" where
  "cmos_sel c = cmos_index c AND 0x7F"

definition cmos_reset_sel :: "cmos \<Rightarrow> cmos" where
  "cmos_reset_sel c = c\<lparr>cmos_index := (cmos_index c AND 0x80) OR 0x0D\<rparr>"

definition cmos_outb :: "u8 \<Rightarrow> nat \<Rightarrow> cmos \<Rightarrow> cmos" where
  "cmos_outb v port c =
     (if port = 0x70 then c\<lparr>cmos_index := v\<rparr>
      else if port = 0x71 then cmos_reset_sel (c\<lparr>cmos_regs := (cmos_regs c)(cmos_sel c := v)\<rparr>)
      else c)"

definition cmos_inb :: "nat \<Rightarrow> cmos \<Rightarrow> u8 \<times> cmos" where
  "cmos_inb port c =
     (if port = 0x70 then (cmos_index c, c)
      else if port = 0x71 then
        (cmos_regs c (cmos_sel c),
         cmos_reset_sel (if cmos_sel c = 0x0C then c\<lparr>cmos_regs := (cmos_regs c)(0x0C := 0)\<rparr> else c))
      else (0, c))"

text \<open>The periodic interrupt rate the rate-select bits 0-3 of register A give (32768 Hz base clock).\<close>

definition rtc_rate_hz :: "u8 \<Rightarrow> nat" where
  "rtc_rate_hz a = (let r = unat (a AND 0x0F) in if r = 0 then 0 else if r < 3 then 2 ^ (9 - r) else 2 ^ (16 - r))"

section \<open>The driver's port I/O\<close>

text \<open>
  \<open>NMI_enable\<close> and \<open>NMI_disable\<close> call \<open>outb(0x70, inb(0x70) & 0x7F)\<close> and
  \<open>outb(0x70, inb(0x70) | 0x80)\<close>.  \<open>outb\<close> of lib.h takes the data byte
  first and the port second, as every other call in the sources does, so
  they write the byte 0x70 to the port numbered by the masked index, not the
  masked index to port 0x70.
\<close>

definition NMI_enable :: "cmos \<Rightarrow> cmos" where
  "NMI_enable c =
     (let (v, c1) = cmos_inb 0x70 c;
          c2 = cmos_outb 0x70 (unat (v AND 0x7F)) c1
      in snd (cmos_inb 0x71 c2))"

definition NMI_disable :: "cmos \<Rightarrow> cmos" where
  "NMI_disable c =
     (let (v, c1) = cmos_inb 0x70 c;
          c2 = cmos_outb 0x70 (unat (v OR 0x80)) c1
      in snd (cmos_inb 0x71 c2))"

text \<open>\<open>init_RTC\<close>: the counter reset of theory Rtc, the programming of registers B and A with NMIs masked, and the unmasking of IRQ 8.\<close>

definition init_RTC_dev :: "kstate \<Rightarrow> cmos \<Rightarrow> pic \<Rightarrow> kstate \<times> cmos \<times> pic" where
  "init_RTC_dev s c p =
     (let s1 = init_RTC s;
          c1 = NMI_disable c;
          c2 = cmos_outb 0x8B RTC_PORT c1;
          (prev_regB, c3) = cmos_inb (RTC_PORT + 1) c2;
          c4 = cmos_outb 0x8B RTC_PORT c3;
          c5 = cmos_outb (prev_regB OR 0x40) (RTC_PORT + 1) c4;
          c6 = cmos_outb 0x8A RTC_PORT c5;
          (prev_regA, c7) = cmos_inb (RTC_PORT + 1) c6;
          c8 = cmos_outb 0x8A RTC_PORT c7;
          c9 = cmos_outb ((prev_regA AND 0xF0) OR 0x07) (RTC_PORT + 1) c8;
          c10 = NMI_enable c9
      in (s1, c10, enable_irq RTC_IRQ p))"

text \<open>\<open>RTC_Handler\<close>: read register C to let the next interrupt fire, the tick of theory Rtc, and the end of interrupt.\<close>

definition RTC_Handler_dev :: "kstate \<Rightarrow> cmos \<Rightarrow> pic \<Rightarrow> kstate \<times> cmos \<times> pic" where
  "RTC_Handler_dev s c p =
     (let c1 = cmos_outb 0x0C RTC_PORT c;
          c2 = snd (cmos_inb (RTC_PORT + 1) c1)
      in (RTC_Handler s, c2, send_eoi RTC_IRQ p))"

section \<open>Lemmas\<close>

lemmas cmos_simps = cmos_outb_def cmos_inb_def cmos_sel_def cmos_reset_sel_def RTC_PORT_def

text \<open>The port \<open>NMI_disable\<close> writes to has bit 7 set, so it is neither CMOS port.\<close>

lemma port_or_80: "unat (v OR 0x80 :: u8) \<noteq> 0x70 \<and> unat (v OR 0x80 :: u8) \<noteq> 0x71"
proof -
  have b: "bit (v OR 0x80 :: u8) 7" by (simp add: bit_or_iff)
  have "\<not> bit (of_nat 0x70 :: u8) 7" "\<not> bit (of_nat 0x71 :: u8) 7" by simp_all
  then show ?thesis using b by (metis of_nat_unat ucast_id)
qed

lemma NMI_disable_state:
  "cmos_index (NMI_disable c) = (cmos_index c AND 0x80) OR 0x0D"
  "cmos_regs (NMI_disable c) = (if cmos_sel c = 0x0C then (cmos_regs c)(0x0C := 0) else cmos_regs c)"
  using port_or_80[of "cmos_index c"] by (simp_all add: NMI_disable_def cmos_simps Let_def)

lemma NMI_enable_state:
  "cmos_index c = 0x8D \<Longrightarrow> cmos_index (NMI_enable c) = 0x8D \<and> cmos_regs (NMI_enable c) = cmos_regs c"
  by (simp add: NMI_enable_def cmos_simps Let_def)

lemma rate_7_hz: "rtc_rate_hz ((a AND 0xF0) OR 0x07) = 512"
proof -
  have "((a AND 0xF0) OR 0x07) AND 0x0F = (0x07::u8)"
    by (rule u8_eq_by_bits) (simp add: upt_rec bit_simps)
  then show ?thesis by (simp add: rtc_rate_hz_def)
qed

lemma RTC_Handler_dev_ack:
  "RTC_Handler_dev s c p =
     (RTC_Handler s, c\<lparr>cmos_index := 0x0D, cmos_regs := (cmos_regs c)(0x0C := 0)\<rparr>, send_eoi RTC_IRQ p)"
  by (simp add: RTC_Handler_dev_def cmos_simps Let_def)

text \<open>The state init_RTC leaves: every access to port 0x71 is preceded by a selection, so B and A are the registers read and written.\<close>

lemma init_RTC_dev_result:
  "init_RTC_dev s c p =
     (init_RTC s,
      NMI_enable ((NMI_disable c)\<lparr>cmos_regs := (cmos_regs (NMI_disable c))(0x0B := cmos_regs (NMI_disable c) 0x0B OR 0x40,
         0x0A := (cmos_regs (NMI_disable c) 0x0A AND 0xF0) OR 0x07), cmos_index := 0x8D\<rparr>),
      enable_irq RTC_IRQ p)"
  by (simp add: init_RTC_dev_def cmos_simps Let_def)

text \<open>C10: init_RTC resets the tick counter, sets the periodic-interrupt enable bit of register B and the rate bits of register A to 7, which is 512 Hz (not the 1024 Hz of its comment), keeping the other bits of both registers and every other register but C, and on a ready 8259 pair it unmasks IRQ 8 and the cascade line.  It leaves the CMOS index at 0x8D, so NMIs stay masked: the register selections 0x8B and 0x8A set the NMI bit, and NMI_enable, with its outb arguments swapped, writes to port 0x0D instead of clearing it.\<close>

theorem init_RTC_programs_chip:
  fixes s :: kstate and c :: cmos and p :: pic
  defines "r \<equiv> init_RTC_dev s c p"
  shows "rtc_counter (fst r) = 0 \<and>
    cmos_regs (fst (snd r)) 0x0B = cmos_regs c 0x0B OR 0x40 \<and>
    cmos_regs (fst (snd r)) 0x0A = (cmos_regs c 0x0A AND 0xF0) OR 0x07 \<and>
    rtc_rate_hz (cmos_regs (fst (snd r)) 0x0A) = 512 \<and>
    (\<forall>x. x \<notin> {0x0A, 0x0B, 0x0C} \<longrightarrow> cmos_regs (fst (snd r)) x = cmos_regs c x) \<and>
    cmos_index (fst (snd r)) = 0x8D \<and> bit (cmos_index (fst (snd r))) 7 \<and>
    (pic_ready p \<longrightarrow> pic_ready (snd (snd r)) \<and> \<not> bit (imr (slave (snd (snd r)))) 0 \<and>
       \<not> bit (imr (master (snd (snd r)))) SLAVE_ID)"
proof -
  define c1 where "c1 = NMI_disable c"
  have r1: "cmos_regs c1 0x0A = cmos_regs c 0x0A" "cmos_regs c1 0x0B = cmos_regs c 0x0B"
    "\<And>x. x \<noteq> 0x0C \<Longrightarrow> cmos_regs c1 x = cmos_regs c x"
    by (simp_all add: c1_def NMI_disable_state)
  define c9 where "c9 = c1\<lparr>cmos_regs := (cmos_regs c1)(0x0B := cmos_regs c1 0x0B OR 0x40,
     0x0A := (cmos_regs c1 0x0A AND 0xF0) OR 0x07), cmos_index := 0x8D\<rparr>"
  have r: "r = (init_RTC s, NMI_enable c9, enable_irq RTC_IRQ p)"
    by (simp only: r_def init_RTC_dev_result c9_def c1_def)
  have e: "cmos_index (NMI_enable c9) = 0x8D \<and> cmos_regs (NMI_enable c9) = cmos_regs c9"
    by (rule NMI_enable_state) (simp add: c9_def)
  have pic: "pic_ready p \<longrightarrow> pic_ready (enable_irq RTC_IRQ p) \<and> \<not> bit (imr (slave (enable_irq RTC_IRQ p))) 0 \<and>
       \<not> bit (imr (master (enable_irq RTC_IRQ p))) SLAVE_ID"
    using enable_irq_bits[of p RTC_IRQ] by (simp add: RTC_IRQ_def SLAVE_ID_def)
  show ?thesis
    using e r1 pic by (simp add: r c9_def init_RTC_def rate_7_hz)
qed

end
