(* ===== verification/Devices.thy ===== *)
theory Devices
  imports Sched Keyboard RtcChip
begin

text \<open>
  The interrupt-driven devices together: the 8254 programming of
  \<open>init_PIT\<close> (drivers/pit.c), \<open>init_Keyboard\<close> (drivers/keyboard.c), and
  the three interrupt handlers with the end of interrupt each sends on the
  8259 pair.  The 8254 is its command register and the two bytes of the
  channel-0 divisor, written low byte first after a command (access mode
  lobyte/hibyte, which command 0x36 selects).  The device initialisations
  are a datatype of steps on a record of the kernel state, the CMOS chip,
  the 8254 and the 8259 pair; kernel.c, which calls them, is not among the
  sources, so any order of them is considered.
\<close>

section \<open>The 8254 timer\<close>

definition PIT_IRQ :: nat where "PIT_IRQ = 0"
definition PIT_PORT :: nat where "PIT_PORT = 0x40"
definition KBD_IRQ :: nat where "KBD_IRQ = 1"

record pit8254 =
  pit_cmd :: u8
  pit_lo :: u8
  pit_hi :: u8
  pit_next_hi :: bool

definition pit_outb :: "u8 \<Rightarrow> nat \<Rightarrow> pit8254 \<Rightarrow> pit8254" where
  "pit_outb v port c =
     (if port = PIT_PORT + 3 then c\<lparr>pit_cmd := v, pit_next_hi := False\<rparr>
      else if port = PIT_PORT then
        (if pit_next_hi c then c\<lparr>pit_hi := v, pit_next_hi := False\<rparr> else c\<lparr>pit_lo := v, pit_next_hi := True\<rparr>)
      else c)"

definition pit_divisor :: "pit8254 \<Rightarrow> u16" where
  "pit_divisor c = push_bit 8 (ucast (pit_hi c)) OR ucast (pit_lo c)"

text \<open>The rate of channel 0 from the 1193182 Hz input clock; a divisor of 0 counts 65536.\<close>

definition pit_hz :: "pit8254 \<Rightarrow> nat" where
  "pit_hz c = 1193182 div (if pit_divisor c = 0 then 65536 else unat (pit_divisor c))"

section \<open>Initialisation\<close>

text \<open>\<open>init_PIT\<close>: the divisor \<open>1193180 / 100\<close> as a \<open>uint16_t\<close>, its bytes sent after command 0x36, the counter reset, and IRQ 0 unmasked.\<close>

definition init_PIT_dev :: "kstate \<Rightarrow> pit8254 \<Rightarrow> pic \<Rightarrow> kstate \<times> pit8254 \<times> pic" where
  "init_PIT_dev s c p =
     (let rate_const = (of_nat (1193180 div 100) :: u16);
          c1 = pit_outb 0x36 (PIT_PORT + 3) c;
          c2 = pit_outb (ucast (rate_const AND 0xFF)) PIT_PORT c1;
          c3 = pit_outb (ucast (drop_bit 8 rate_const)) PIT_PORT c2
      in (init_PIT s, c3, enable_irq PIT_IRQ p))"

definition init_Keyboard :: "pic \<Rightarrow> pic" where
  "init_Keyboard p = enable_irq KBD_IRQ p"

record devs =
  dev_k :: kstate
  dev_cmos :: cmos
  dev_pit :: pit8254
  dev_pic :: pic

datatype dev_init = Init_Keyboard | Init_RTC | Init_PIT

fun dev_init_step :: "dev_init \<Rightarrow> devs \<Rightarrow> devs" where
  "dev_init_step Init_Keyboard d = d\<lparr>dev_pic := init_Keyboard (dev_pic d)\<rparr>"
| "dev_init_step Init_RTC d =
     (let (s, c, p) = init_RTC_dev (dev_k d) (dev_cmos d) (dev_pic d) in d\<lparr>dev_k := s, dev_cmos := c, dev_pic := p\<rparr>)"
| "dev_init_step Init_PIT d =
     (let (s, c, p) = init_PIT_dev (dev_k d) (dev_pit d) (dev_pic d) in d\<lparr>dev_k := s, dev_pit := c, dev_pic := p\<rparr>)"

text \<open>The line each initialisation unmasks.\<close>

fun dev_irq :: "dev_init \<Rightarrow> nat" where
  "dev_irq Init_Keyboard = KBD_IRQ"
| "dev_irq Init_RTC = RTC_IRQ"
| "dev_irq Init_PIT = PIT_IRQ"

text \<open>The states the two timer initialisations establish.\<close>

definition rtc_programmed :: "devs \<Rightarrow> bool" where
  "rtc_programmed d \<longleftrightarrow> bit (cmos_regs (dev_cmos d) 0x0B) 6 \<and> rtc_rate_hz (cmos_regs (dev_cmos d) 0x0A) = 512 \<and>
     rtc_counter (dev_k d) = 0"

definition pit_programmed :: "devs \<Rightarrow> bool" where
  "pit_programmed d \<longleftrightarrow> pit_cmd (dev_pit d) = 0x36 \<and> pit_divisor (dev_pit d) = 11931 \<and> pit_hz (dev_pit d) = 100 \<and>
     pit_counter (dev_k d) = 0"

section \<open>Interrupt handlers with their end of interrupt\<close>

definition PIT_Handler_dev :: "fsys \<Rightarrow> u32 \<Rightarrow> kstate \<Rightarrow> pic \<Rightarrow> pit_result \<times> kstate \<times> pic" where
  "PIT_Handler_dev fs ebp s p =
     (let p1 = send_eoi PIT_IRQ p; (r, s1) = PIT_Handler fs ebp s in (r, s1, p1))"

definition Keyboard_Handler_dev :: "u8 \<Rightarrow> kbd \<Rightarrow> kstate \<Rightarrow> pic \<Rightarrow> (kbd \<times> kstate) \<times> u8 list \<times> pic" where
  "Keyboard_Handler_dev code k s p =
     (let (ks, out) = Keyboard_Handler code k s in (ks, out, send_eoi KBD_IRQ p))"

section \<open>Lemmas\<close>

text \<open>A property that one step establishes from any state and every step keeps holds after any sequence containing that step.\<close>

lemma fold_establish:
  assumes "\<And>d. P (f i d)" "\<And>x d. P d \<Longrightarrow> P (f x d)" "i \<in> set xs"
  shows "P (fold f xs d)"
  using assms(3)
proof (induction xs rule: rev_induct)
  case Nil
  then show ?case by simp
next
  case (snoc x xs)
  show ?case
  proof (cases "x = i")
    case True
    then show ?thesis using assms(1) by simp
  next
    case False
    then have "i \<in> set xs" using snoc.prems by simp
    then show ?thesis using snoc.IH assms(2) by simp
  qed
qed

lemma dev_init_pic: "dev_pic (dev_init_step x d) = enable_irq (dev_irq x) (dev_pic d)"
  by (cases x) (simp_all add: init_Keyboard_def init_RTC_dev_def init_PIT_dev_def Let_def split: prod.splits)

lemma fold_dev_init_pic: "dev_pic (fold dev_init_step xs d) = fold enable_irq (map dev_irq xs) (dev_pic d)"
  by (induction xs arbitrary: d) (simp_all add: dev_init_pic)

lemma init_PIT_dev_result:
  "init_PIT_dev s c p = (init_PIT s, c\<lparr>pit_cmd := 0x36, pit_lo := 0x9B, pit_hi := 0x2E, pit_next_hi := False\<rparr>, enable_irq PIT_IRQ p)"
  by (simp add: init_PIT_dev_def pit_outb_def PIT_PORT_def Let_def)

lemma pit_100_hz: "pit_divisor (c\<lparr>pit_cmd := 0x36, pit_lo := 0x9B, pit_hi := 0x2E, pit_next_hi := False\<rparr>) = 11931 \<and>
  pit_hz (c\<lparr>pit_cmd := 0x36, pit_lo := 0x9B, pit_hi := 0x2E, pit_next_hi := False\<rparr>) = 100"
proof -
  have d: "pit_divisor (c\<lparr>pit_cmd := 0x36, pit_lo := 0x9B, pit_hi := 0x2E, pit_next_hi := False\<rparr>) = 11931"
    by (simp add: pit_divisor_def)
  then show ?thesis by (simp add: pit_hz_def)
qed

lemma rtc_programmed_step:
  "rtc_programmed (dev_init_step Init_RTC d)" "rtc_programmed d \<Longrightarrow> rtc_programmed (dev_init_step x d)"
proof -
  let ?c = "NMI_disable (dev_cmos d)"
  let ?c9 = "?c\<lparr>cmos_regs := (cmos_regs ?c)(0x0B := cmos_regs ?c 0x0B OR 0x40,
         0x0A := (cmos_regs ?c 0x0A AND 0xF0) OR 0x07), cmos_index := 0x8D\<rparr>"
  have e: "cmos_index (NMI_enable ?c9) = 0x8D \<and> cmos_regs (NMI_enable ?c9) = cmos_regs ?c9"
    by (rule NMI_enable_state) simp
  have b: "bit (x OR 0x40 :: u8) 6" for x by (simp add: bit_or_iff)
  show "rtc_programmed (dev_init_step Init_RTC d)"
    using e by (simp add: rtc_programmed_def init_RTC_dev_result rate_7_hz init_RTC_def b)
  show "rtc_programmed d \<Longrightarrow> rtc_programmed (dev_init_step x d)"
    using e by (cases x) (simp_all add: rtc_programmed_def init_Keyboard_def init_PIT_dev_result init_PIT_def
        init_RTC_dev_result rate_7_hz init_RTC_def b)
qed

lemma pit_programmed_step:
  "pit_programmed (dev_init_step Init_PIT d)" "pit_programmed d \<Longrightarrow> pit_programmed (dev_init_step x d)"
proof -
  show "pit_programmed (dev_init_step Init_PIT d)"
    using pit_100_hz by (simp add: pit_programmed_def init_PIT_dev_result init_PIT_def)
  show "pit_programmed d \<Longrightarrow> pit_programmed (dev_init_step x d)"
    using pit_100_hz by (cases x) (simp_all add: pit_programmed_def init_Keyboard_def init_PIT_dev_result init_PIT_def
        init_RTC_dev_result init_RTC_def)
qed

text \<open>C34: After i8259_init, running init_Keyboard, init_RTC and init_PIT in any order (each at least once) leaves exactly lines 0, 1, 2 (cascade) and 8 unmasked (master IMR 0xF8, slave IMR 0xFE), the 8254 in mode 0x36 with divisor 11931, i.e. 100 Hz, the RTC's periodic interrupt enabled at 512 Hz, and both tick counters at 0.\<close>

theorem boot_devices:
  fixes d :: devs
  assumes "set ord = {Init_Keyboard, Init_RTC, Init_PIT}"
  defines "d' \<equiv> fold dev_init_step ord (d\<lparr>dev_pic := i8259_init (dev_pic d)\<rparr>)"
  shows "imr (master (dev_pic d')) = 0xF8 \<and> imr (slave (dev_pic d')) = 0xFE \<and>
    pit_cmd (dev_pit d') = 0x36 \<and> pit_divisor (dev_pit d') = 11931 \<and> pit_hz (dev_pit d') = 100 \<and>
    bit (cmos_regs (dev_cmos d') 0x0B) 6 \<and> rtc_rate_hz (cmos_regs (dev_cmos d') 0x0A) = 512 \<and>
    rtc_counter (dev_k d') = 0 \<and> pit_counter (dev_k d') = 0"
proof -
  have irqs: "set (map dev_irq ord) = {0, 1, 8}"
    using assms(1) by (auto simp: KBD_IRQ_def RTC_IRQ_def PIT_IRQ_def)
  have pic: "imr (master (dev_pic d')) = 0xF8 \<and> imr (slave (dev_pic d')) = 0xFE"
    using pic_boot_lines[OF irqs, of "dev_pic d"] by (simp add: d'_def fold_dev_init_pic)
  have "rtc_programmed d'" unfolding d'_def
    by (rule fold_establish[where i = Init_RTC]) (use rtc_programmed_step assms(1) in auto)
  moreover have "pit_programmed d'" unfolding d'_def
    by (rule fold_establish[where i = Init_PIT]) (use pit_programmed_step assms(1) in auto)
  ultimately show ?thesis using pic by (simp add: rtc_programmed_def pit_programmed_def)
qed

text \<open>C35: Each interrupt handler ends the interrupt of its own line: on a ready 8259 pair the PIT and keyboard handlers send the specific EOI 0x60 and 0x61 to the master, the RTC handler sends 0x60 (its line 0 on the slave) to the slave and 0x62 (the cascade line) to the master after reading register C, which clears it; the masks stay as they were, the chips stay ready, and the kernel-state part of each handler is the driver model's.\<close>

theorem handlers_eoi:
  fixes fs :: fsys and ebp :: u32 and s :: kstate and code :: u8 and k :: kbd and c :: cmos and p :: pic
  assumes "pic_ready p"
  defines "pp \<equiv> snd (snd (PIT_Handler_dev fs ebp s p))" and "pk \<equiv> snd (snd (Keyboard_Handler_dev code k s p))"
    and "pr \<equiv> snd (snd (RTC_Handler_dev s c p))"
  shows "(fst (PIT_Handler_dev fs ebp s p), fst (snd (PIT_Handler_dev fs ebp s p))) = PIT_Handler fs ebp s \<and>
    ocw_log (master pp) = ocw_log (master p) @ [0x60] \<and> ocw_log (slave pp) = ocw_log (slave p) \<and>
    (fst (Keyboard_Handler_dev code k s p), fst (snd (Keyboard_Handler_dev code k s p))) = Keyboard_Handler code k s \<and>
    ocw_log (master pk) = ocw_log (master p) @ [0x61] \<and> ocw_log (slave pk) = ocw_log (slave p) \<and>
    fst (RTC_Handler_dev s c p) = RTC_Handler s \<and> cmos_regs (fst (snd (RTC_Handler_dev s c p))) 0x0C = 0 \<and>
    ocw_log (master pr) = ocw_log (master p) @ [0x62] \<and> ocw_log (slave pr) = ocw_log (slave p) @ [0x60] \<and>
    (\<forall>q\<in>{pp, pk, pr}. pic_ready q \<and> imr (master q) = imr (master p) \<and> imr (slave q) = imr (slave p))"
proof -
  have e0: "pp = send_eoi 0 p" by (simp add: pp_def PIT_Handler_dev_def PIT_IRQ_def Let_def split: prod.splits)
  have e1: "pk = send_eoi 1 p" by (simp add: pk_def Keyboard_Handler_dev_def KBD_IRQ_def Let_def split: prod.splits)
  have e8: "pr = send_eoi 8 p" by (simp add: pr_def RTC_Handler_dev_ack RTC_IRQ_def)
  note s0 = send_eoi_specific[OF assms(1), of 0] and s1 = send_eoi_specific[OF assms(1), of 1]
    and s8 = send_eoi_specific[OF assms(1), of 8]
  have k: "(fst (PIT_Handler_dev fs ebp s p), fst (snd (PIT_Handler_dev fs ebp s p))) = PIT_Handler fs ebp s"
    "(fst (Keyboard_Handler_dev code k s p), fst (snd (Keyboard_Handler_dev code k s p))) = Keyboard_Handler code k s"
    by (simp_all add: PIT_Handler_dev_def Keyboard_Handler_dev_def Let_def split: prod.splits)
  show ?thesis
    using k s0 s1 s8 unfolding e0 e1 e8
    by (simp add: RTC_Handler_dev_ack EOI_def SLAVE_ID_def)
qed

end
