(* ===== verification/Intr.thy ===== *)
theory Intr
  imports Process
begin

text \<open>
  The processor exception handlers of intr.c and the vectors \<open>populate_IDT\<close>
  gives them.  A handler either marks the exception (\<open>exception_flag = 1\<close>) and
  calls \<open>halt(NULL)\<close>, i.e. halt with status 0, which the flag turns into the
  return value 256 for the parent, or prints and spins forever
  (\<open>Fault_hang\<close>).  The printed messages are not modelled.
\<close>

section \<open>Faults and their vectors\<close>

datatype fault = Divide_Error | Debug_Exception | NMI_Interrupt | Breakpoint | Overflow
  | Bound_Range_Exceeded | Invalid_Opcode | Device_Not_Available | Double_Fault
  | Coprocessor_Segment_Overrun | Invalid_TSS | Segment_Not_Present | Stack_Segment_Fault
  | General_Protection | Page_Fault | Assertion_Fail | FPU_Floating_Point_Error
  | Alignment_Check | Machine_Check | SIMD_Floating_Point_Exception

text \<open>The exception vectors 0x00 to 0x13 of \<open>populate_IDT\<close>, in order.\<close>

definition idt_faults :: "fault list" where
  "idt_faults = [Divide_Error, Debug_Exception, NMI_Interrupt, Breakpoint, Overflow,
     Bound_Range_Exceeded, Invalid_Opcode, Device_Not_Available, Double_Fault,
     Coprocessor_Segment_Overrun, Invalid_TSS, Segment_Not_Present, Stack_Segment_Fault,
     General_Protection, Page_Fault, Assertion_Fail, FPU_Floating_Point_Error,
     Alignment_Check, Machine_Check, SIMD_Floating_Point_Exception]"

definition idt_vector :: "nat \<Rightarrow> fault option" where
  "idt_vector v = (if v < length idt_faults then Some (idt_faults ! v) else None)"

text \<open>Whether the handler halts the process (\<open>exception_flag = 1; sti(); halt(NULL)\<close>).\<close>

fun fault_halts :: "fault \<Rightarrow> bool" where
  "fault_halts Divide_Error = True"
| "fault_halts Debug_Exception = True"
| "fault_halts NMI_Interrupt = False"
| "fault_halts Breakpoint = True"
| "fault_halts Overflow = True"
| "fault_halts Bound_Range_Exceeded = True"
| "fault_halts Invalid_Opcode = True"
| "fault_halts Device_Not_Available = True"
| "fault_halts Double_Fault = False"
| "fault_halts Coprocessor_Segment_Overrun = False"
| "fault_halts Invalid_TSS = False"
| "fault_halts Segment_Not_Present = False"
| "fault_halts Stack_Segment_Fault = False"
| "fault_halts General_Protection = False"
| "fault_halts Page_Fault = True"
| "fault_halts Assertion_Fail = True"
| "fault_halts FPU_Floating_Point_Error = False"
| "fault_halts Alignment_Check = False"
| "fault_halts Machine_Check = False"
| "fault_halts SIMD_Floating_Point_Exception = False"

datatype fault_result = Fault_halt halt_result | Fault_hang

definition fault_handler :: "fsys \<Rightarrow> fault \<Rightarrow> u32 \<Rightarrow> kstate \<Rightarrow> fault_result \<times> kstate" where
  "fault_handler fs f ebp s =
     (if fault_halts f then
        (case halt fs 0 ebp (s\<lparr>exception_flag := True\<rparr>) of (r, s') \<Rightarrow> (Fault_halt r, s'))
      else (Fault_hang, s))"

text \<open>The fault classes the spec calls fatal (section 7); every other fault is to be recovered.\<close>

definition spec_fatal :: "fault \<Rightarrow> bool" where
  "spec_fatal f \<longleftrightarrow> f \<in> {Double_Fault, NMI_Interrupt, Machine_Check}"

section \<open>Properties\<close>

text \<open>
  C19: a fault whose handler halts, taken in a process that is not a base
  shell, returns 256 to the parent's \<open>execute\<close> frame, clears
  \<open>exception_flag\<close>, resumes the parent pid and frees the faulting pid.
\<close>

lemma fault_exit_256:
  assumes f: "fault_halts f" and c: "current_PCB s = Some (currentPID s)"
    and nb: "MAX_TERMINALS \<le> currentPID s" and cl: "closes_defined (pcbs s (currentPID s))"
  shows "\<exists>s'. fault_handler fs f ebp s = (Fault_halt (Halt_return (parent_ebp (pcbs s (currentPID s))) 256), s') \<and>
             \<not> exception_flag s' \<and> currentPID s' = parent_pid (pcbs s (currentPID s)) \<and>
             \<not> bit (activeProcesses s') (pcb_id (pcbs s (currentPID s)))"
  using f c nb cl
  by (auto simp: fault_handler_def halt_def halt_finish_def restore_parent_def publish_terminal_def
      upd_terminal_active_def Let_def bit_and_iff bit_not_iff bit_exp_iff)

text \<open>
  The faults the spec says are recovered but whose handlers spin forever
  are exactly these eight, General Protection among them.
\<close>

lemma unrecovered_faults:
  "{f. \<not> spec_fatal f \<and> \<not> fault_halts f} =
     {Coprocessor_Segment_Overrun, Invalid_TSS, Segment_Not_Present, Stack_Segment_Fault,
      General_Protection, FPU_Floating_Point_Error, Alignment_Check, SIMD_Floating_Point_Exception}"
proof (rule set_eqI)
  fix f show "f \<in> {f. \<not> spec_fatal f \<and> \<not> fault_halts f} \<longleftrightarrow> f \<in> {Coprocessor_Segment_Overrun, Invalid_TSS,
      Segment_Not_Present, Stack_Segment_Fault, General_Protection, FPU_Floating_Point_Error,
      Alignment_Check, SIMD_Floating_Point_Exception}"
    by (cases f) (simp_all add: spec_fatal_def)
qed

end
