(* ===== verification/Descriptors.thy ===== *)
theory Descriptors
  imports Intr I8259
begin

text \<open>
  The interrupt descriptor table: the IDT entry layout of x86_desc.h (the
  bitfield struct \<open>idt_desc_t\<close> and the two 32-bit words \<open>val[0]\<close>,
  \<open>val[1]\<close> it overlays, packed from the least significant bit as the
  compiler lays out the fields), the entry macros \<open>SET_IDT_ENTRY\<close>,
  \<open>SET_IDT_ENTRY_INT_GATE\<close>, \<open>SET_IDT_ENTRY_TRAP_GATE\<close>, and
  \<open>populate_IDT\<close> of intr.c.  Handler addresses come from the linker; they
  are a parameter \<open>addr\<close> of \<open>populate_IDT\<close>, with NULL for
  \<open>Null_handler\<close>.
\<close>

section \<open>Constants and layout\<close>

definition KERNEL_CS :: u16 where "KERNEL_CS = 0x0010"
definition NUM_VEC :: nat where "NUM_VEC = 256"
definition DPL_PRIVILEGED :: u32 where "DPL_PRIVILEGED = 0"
definition DPL_UNPRIVILEGED :: u32 where "DPL_UNPRIVILEGED = 3"

record idt_desc =
  offset_15_00 :: u16
  seg_selector :: u16
  reserved4 :: u8
  reserved3 :: "1 word"
  reserved2 :: "1 word"
  reserved1 :: "1 word"
  gate_size :: "1 word"
  reserved0 :: "1 word"
  dpl :: "2 word"
  present :: "1 word"
  offset_31_16 :: u16

definition idt_val :: "idt_desc \<Rightarrow> u32 \<times> u32" where
  "idt_val d =
     (ucast (offset_15_00 d) OR push_bit 16 (ucast (seg_selector d)),
      ucast (reserved4 d) OR push_bit 8 (ucast (reserved3 d)) OR push_bit 9 (ucast (reserved2 d)) OR
      push_bit 10 (ucast (reserved1 d)) OR push_bit 11 (ucast (gate_size d)) OR
      push_bit 12 (ucast (reserved0 d)) OR push_bit 13 (ucast (dpl d)) OR
      push_bit 15 (ucast (present d)) OR push_bit 16 (ucast (offset_31_16 d)))"

section \<open>Entry macros\<close>

definition SET_IDT_ENTRY :: "u32 \<Rightarrow> idt_desc \<Rightarrow> idt_desc" where
  "SET_IDT_ENTRY handler str =
     str\<lparr>offset_31_16 := ucast (drop_bit 16 (handler AND 0xFFFF0000)), offset_15_00 := ucast (handler AND 0xFFFF)\<rparr>"

definition SET_IDT_ENTRY_INT_GATE :: "u32 \<Rightarrow> u32 \<Rightarrow> u32 \<Rightarrow> u32 \<Rightarrow> idt_desc \<Rightarrow> idt_desc" where
  "SET_IDT_ENTRY_INT_GATE handler segment priv pres str =
     str\<lparr>offset_31_16 := ucast (drop_bit 16 (handler AND 0xFFFF0000)), offset_15_00 := ucast (handler AND 0xFFFF),
         seg_selector := ucast segment, dpl := ucast priv, present := ucast pres,
         reserved4 := 0, reserved3 := 0, reserved2 := 1, reserved1 := 1, gate_size := 1, reserved0 := 0\<rparr>"

definition SET_IDT_ENTRY_TRAP_GATE :: "u32 \<Rightarrow> u32 \<Rightarrow> u32 \<Rightarrow> u32 \<Rightarrow> idt_desc \<Rightarrow> idt_desc" where
  "SET_IDT_ENTRY_TRAP_GATE handler segment priv pres str =
     str\<lparr>offset_31_16 := ucast (drop_bit 16 (handler AND 0xFFFF0000)), offset_15_00 := ucast (handler AND 0xFFFF),
         seg_selector := ucast segment, dpl := ucast priv, present := ucast pres,
         reserved4 := 0, reserved3 := 1, reserved2 := 1, reserved1 := 1, gate_size := 1, reserved0 := 0\<rparr>"

section \<open>populate_IDT\<close>

datatype handler = Null_handler | Fault_wrap fault | PIT_Wrap | Keyboard_Wrap | RTC_Wrap | System_Call_Wrap

datatype gate_kind = Int_gate | Trap_gate

definition set_gate :: "gate_kind \<Rightarrow> u32 \<Rightarrow> u32 \<Rightarrow> u32 \<Rightarrow> u32 \<Rightarrow> idt_desc \<Rightarrow> idt_desc" where
  "set_gate k = (case k of Int_gate \<Rightarrow> SET_IDT_ENTRY_INT_GATE | Trap_gate \<Rightarrow> SET_IDT_ENTRY_TRAP_GATE)"

text \<open>The entries of \<open>populate_IDT\<close> after the clearing loop, in the order of the code.\<close>

definition idt_setup :: "(nat \<times> gate_kind \<times> handler \<times> u32) list" where
  "idt_setup =
     [(0x00, Trap_gate, Fault_wrap Divide_Error, DPL_PRIVILEGED),
      (0x01, Trap_gate, Fault_wrap Debug_Exception, DPL_PRIVILEGED),
      (0x02, Int_gate, Fault_wrap NMI_Interrupt, DPL_PRIVILEGED),
      (0x03, Trap_gate, Fault_wrap Breakpoint, DPL_PRIVILEGED),
      (0x04, Trap_gate, Fault_wrap Overflow, DPL_PRIVILEGED),
      (0x05, Trap_gate, Fault_wrap Bound_Range_Exceeded, DPL_PRIVILEGED),
      (0x06, Trap_gate, Fault_wrap Invalid_Opcode, DPL_PRIVILEGED),
      (0x07, Trap_gate, Fault_wrap Device_Not_Available, DPL_PRIVILEGED),
      (0x08, Trap_gate, Fault_wrap Double_Fault, DPL_PRIVILEGED),
      (0x09, Trap_gate, Fault_wrap Coprocessor_Segment_Overrun, DPL_PRIVILEGED),
      (0x0A, Trap_gate, Fault_wrap Invalid_TSS, DPL_PRIVILEGED),
      (0x0B, Trap_gate, Fault_wrap Segment_Not_Present, DPL_PRIVILEGED),
      (0x0C, Trap_gate, Fault_wrap Stack_Segment_Fault, DPL_PRIVILEGED),
      (0x0D, Trap_gate, Fault_wrap General_Protection, DPL_PRIVILEGED),
      (0x0E, Trap_gate, Fault_wrap Page_Fault, DPL_PRIVILEGED),
      (0x0F, Trap_gate, Fault_wrap Assertion_Fail, DPL_UNPRIVILEGED),
      (0x10, Trap_gate, Fault_wrap FPU_Floating_Point_Error, DPL_PRIVILEGED),
      (0x11, Trap_gate, Fault_wrap Alignment_Check, DPL_PRIVILEGED),
      (0x12, Trap_gate, Fault_wrap Machine_Check, DPL_PRIVILEGED),
      (0x13, Trap_gate, Fault_wrap SIMD_Floating_Point_Exception, DPL_PRIVILEGED),
      (0x20, Int_gate, PIT_Wrap, DPL_PRIVILEGED),
      (0x21, Int_gate, Keyboard_Wrap, DPL_PRIVILEGED),
      (0x28, Int_gate, RTC_Wrap, DPL_PRIVILEGED),
      (0x80, Trap_gate, System_Call_Wrap, DPL_UNPRIVILEGED)]"

definition populate_IDT :: "(handler \<Rightarrow> u32) \<Rightarrow> idt_desc list \<times> kstate \<Rightarrow> idt_desc list \<times> kstate" where
  "populate_IDT addr st =
     (let idt0 = map (SET_IDT_ENTRY_TRAP_GATE (addr Null_handler) 0 DPL_UNPRIVILEGED 0) (fst st);
          idt1 = fold (\<lambda>(v, k, h, p) idt. idt[v := set_gate k (addr h) (ucast KERNEL_CS) p 1 (idt ! v)]) idt_setup idt0
      in (idt1, (snd st)\<lparr>exception_flag := False\<rparr>))"

text \<open>The handler address an entry holds, reassembled from its two halves.\<close>

definition idt_handler :: "idt_desc \<Rightarrow> u32" where
  "idt_handler d = push_bit 16 (ucast (offset_31_16 d)) OR ucast (offset_15_00 d)"

section \<open>Segment descriptors and the TSS\<close>

text \<open>
  \<open>seg_desc_t\<close> of x86_desc.h, a GDT entry, with the two words \<open>val[0]\<close>,
  \<open>val[1]\<close> it overlays.  The fields \<open>type\<close>, \<open>dpl\<close> and \<open>present\<close> are
  named \<open>seg_type\<close>, \<open>seg_dpl\<close> and \<open>seg_present\<close> here, apart from the
  fields of the IDT entry.
\<close>

record seg_desc =
  seg_lim_15_00 :: u16
  base_15_00 :: u16
  base_23_16 :: u8
  seg_type :: "4 word"
  sys :: "1 word"
  seg_dpl :: "2 word"
  seg_present :: "1 word"
  seg_lim_19_16 :: "4 word"
  avail :: "1 word"
  reserved :: "1 word"
  opsize :: "1 word"
  granularity :: "1 word"
  base_31_24 :: u8

definition seg_val :: "seg_desc \<Rightarrow> u32 \<times> u32" where
  "seg_val d =
     (ucast (seg_lim_15_00 d) OR push_bit 16 (ucast (base_15_00 d)),
      ucast (base_23_16 d) OR push_bit 8 (ucast (seg_type d)) OR push_bit 12 (ucast (sys d)) OR
      push_bit 13 (ucast (seg_dpl d)) OR push_bit 15 (ucast (seg_present d)) OR
      push_bit 16 (ucast (seg_lim_19_16 d)) OR push_bit 20 (ucast (avail d)) OR push_bit 21 (ucast (reserved d)) OR
      push_bit 22 (ucast (opsize d)) OR push_bit 23 (ucast (granularity d)) OR push_bit 24 (ucast (base_31_24 d)))"

definition SET_LDT_PARAMS :: "seg_desc \<Rightarrow> u32 \<Rightarrow> u32 \<Rightarrow> seg_desc" where
  "SET_LDT_PARAMS str addr lim =
     str\<lparr>base_31_24 := ucast (drop_bit 24 (addr AND 0xFF000000)),
         base_23_16 := ucast (drop_bit 16 (addr AND 0x00FF0000)),
         base_15_00 := ucast (addr AND 0x0000FFFF),
         seg_lim_19_16 := ucast (drop_bit 16 (lim AND 0x000F0000)),
         seg_lim_15_00 := ucast (lim AND 0x0000FFFF)\<rparr>"

definition SET_TSS_PARAMS :: "seg_desc \<Rightarrow> u32 \<Rightarrow> u32 \<Rightarrow> seg_desc" where
  "SET_TSS_PARAMS str addr lim =
     str\<lparr>base_31_24 := ucast (drop_bit 24 (addr AND 0xFF000000)),
         base_23_16 := ucast (drop_bit 16 (addr AND 0x00FF0000)),
         base_15_00 := ucast (addr AND 0x0000FFFF),
         seg_lim_19_16 := ucast (drop_bit 16 (lim AND 0x000F0000)),
         seg_lim_15_00 := ucast (lim AND 0x0000FFFF)\<rparr>"

text \<open>The base address and the 20-bit limit a descriptor holds, reassembled from their pieces.\<close>

definition seg_base :: "seg_desc \<Rightarrow> u32" where
  "seg_base d = push_bit 24 (ucast (base_31_24 d)) OR push_bit 16 (ucast (base_23_16 d)) OR ucast (base_15_00 d)"

definition seg_limit :: "seg_desc \<Rightarrow> u32" where
  "seg_limit d = push_bit 16 (ucast (seg_lim_19_16 d)) OR ucast (seg_lim_15_00 d)"

text \<open>
  The packed \<open>tss_t\<close> struct of x86_desc.h as its fields in declaration order
  with their sizes in bytes; the bitfields \<open>debug_trap : 1\<close> and
  \<open>io_pad : 15\<close> share one \<open>uint16_t\<close>.
\<close>

definition TSS_SIZE :: nat where "TSS_SIZE = 104"

definition tss_fields :: "(string \<times> nat) list" where
  "tss_fields =
     [(''prev_task_link'', 2), (''prev_task_link_pad'', 2), (''esp0'', 4), (''ss0'', 2), (''ss0_pad'', 2),
      (''esp1'', 4), (''ss1'', 2), (''ss1_pad'', 2), (''esp2'', 4), (''ss2'', 2), (''ss2_pad'', 2),
      (''cr3'', 4), (''eip'', 4), (''eflags'', 4), (''eax'', 4), (''ecx'', 4), (''edx'', 4), (''ebx'', 4),
      (''esp'', 4), (''ebp'', 4), (''esi'', 4), (''edi'', 4), (''es'', 2), (''es_pad'', 2), (''cs'', 2),
      (''cs_pad'', 2), (''ss'', 2), (''ss_pad'', 2), (''ds'', 2), (''ds_pad'', 2), (''fs'', 2), (''fs_pad'', 2),
      (''gs'', 2), (''gs_pad'', 2), (''ldt_segment_selector'', 2), (''ldt_pad'', 2), (''debug_trap_io_pad'', 2),
      (''io_base_addr'', 2)]"

text \<open>The byte offset of a field in a packed struct: the sizes of the fields before it.\<close>

fun field_offset :: "(string \<times> nat) list \<Rightarrow> string \<Rightarrow> nat option" where
  "field_offset [] f = None"
| "field_offset ((g, n) # fs) f = (if g = f then Some 0 else map_option ((+) n) (field_offset fs f))"

section \<open>Lemmas\<close>

lemma bit_FFFF_int: "bit (0xFFFF::int) n \<longleftrightarrow> n < 16"
proof -
  have "(0xFFFF::int) = mask 16" by (simp add: mask_eq_exp_minus_1)
  then show ?thesis by (simp only: bit_mask_iff) simp
qed

lemma bit_FFFF0000_int: "bit (0xFFFF0000::int) n \<longleftrightarrow> 16 \<le> n \<and> n < 32"
proof -
  have "(0xFFFF0000::int) = push_bit 16 (mask 16)" by (simp add: mask_eq_exp_minus_1 push_bit_eq_mult)
  then show ?thesis by (simp only: bit_push_bit_iff bit_mask_iff) auto
qed

lemma bit_pow2_int:
  "bit (256::int) n \<longleftrightarrow> n = 8" "bit (512::int) n \<longleftrightarrow> n = 9" "bit (1024::int) n \<longleftrightarrow> n = 10"
  "bit (2048::int) n \<longleftrightarrow> n = 11" "bit (32768::int) n \<longleftrightarrow> n = 15"
proof -
  have e: "(256::int) = 2 ^ 8" "(512::int) = 2 ^ 9" "(1024::int) = 2 ^ 10" "(2048::int) = 2 ^ 11" "(32768::int) = 2 ^ 15"
    by simp_all
  show "bit (256::int) n \<longleftrightarrow> n = 8" "bit (512::int) n \<longleftrightarrow> n = 9" "bit (1024::int) n \<longleftrightarrow> n = 10"
    "bit (2048::int) n \<longleftrightarrow> n = 11" "bit (32768::int) n \<longleftrightarrow> n = 15"
    by (simp_all only: e bit_exp_iff) auto
qed

lemma set_gate_handler: "idt_handler (set_gate k h seg p r d) = h"
  by (cases k) (auto simp: set_gate_def SET_IDT_ENTRY_INT_GATE_def SET_IDT_ENTRY_TRAP_GATE_def idt_handler_def
      bit_simps bit_FFFF_int bit_FFFF0000_int intro!: bit_word_eqI)

text \<open>C36: An interrupt or trap gate written by the entry macros packs, in the two words the IDT holds, the handler offset split across bits 0-15 and 48-63, the selector in bits 16-31, present bit 47, the DPL in bits 45-46, and the 32-bit gate type 1110 (interrupt) or 1111 (trap) in bits 40-43 with bit 44 clear, as the Intel layout in x86_desc.h requires; the two offset halves reassemble the handler address.\<close>

lemma idt_gate_layout:
  "(\<forall>n<32. bit (fst (idt_val (set_gate k h seg p 1 d))) n \<longleftrightarrow> (if 16 \<le> n then bit seg (n - 16) else bit h n)) \<and>
   (\<forall>n<32. bit (snd (idt_val (set_gate k h seg p 1 d))) n \<longleftrightarrow>
      (if 16 \<le> n then bit h n else n = 15 \<or> ((n = 13 \<or> n = 14) \<and> bit p (n - 13)) \<or> n = 11 \<or> n = 10 \<or> n = 9 \<or>
       (n = 8 \<and> k = Trap_gate))) \<and>
   idt_handler (set_gate k h seg p 1 d) = h"
proof -
  have "(\<forall>n<32. bit (fst (idt_val (set_gate k h seg p 1 d))) n \<longleftrightarrow> (if 16 \<le> n then bit seg (n - 16) else bit h n)) \<and>
   (\<forall>n<32. bit (snd (idt_val (set_gate k h seg p 1 d))) n \<longleftrightarrow>
      (if 16 \<le> n then bit h n else n = 15 \<or> ((n = 13 \<or> n = 14) \<and> bit p (n - 13)) \<or> n = 11 \<or> n = 10 \<or> n = 9 \<or>
       (n = 8 \<and> k = Trap_gate)))"
    by (cases k) (auto simp: set_gate_def SET_IDT_ENTRY_INT_GATE_def SET_IDT_ENTRY_TRAP_GATE_def idt_val_def
        bit_simps bit_FFFF_int bit_FFFF0000_int bit_pow2_int)
  then show ?thesis using set_gate_handler by blast
qed
lemma fold_updates_length:
  "length (fold (\<lambda>(v, k, h, p) idt. idt[v := f v k h p idt]) xs t) = length t"
  by (induction xs arbitrary: t) (auto split: prod.splits)

lemma fold_updates_nth:
  assumes "distinct (map fst xs)" "i < length t"
  shows "fold (\<lambda>(v, k, h, p) idt. idt[v := g k h p (idt ! v)]) xs t ! i =
           (case find (\<lambda>e. fst e = i) xs of None \<Rightarrow> t ! i | Some (v, k, h, p) \<Rightarrow> g k h p (t ! i))"
  using assms
proof (induction xs arbitrary: t)
  case Nil
  then show ?case by simp
next
  case (Cons e xs)
  obtain v k h p where e: "e = (v, k, h, p)" by (cases e) auto
  have nv: "v \<notin> fst ` set xs" using Cons.prems(1) e by simp
  show ?case
  proof (cases "v = i")
    case True
    have "find (\<lambda>e. fst e = i) xs = None" using nv True by (force simp: find_None_iff image_iff)
    then show ?thesis using Cons.IH[of "t[v := g k h p (t ! v)]"] Cons.prems True e by simp
  next
    case False
    then show ?thesis using Cons.IH[of "t[v := g k h p (t ! v)]"] Cons.prems e by (simp add: nth_list_update_neq[OF False] split: option.split)
  qed
qed

lemma idt_setup_distinct: "distinct (map fst idt_setup)"
  by (simp add: idt_setup_def)

lemma populate_IDT_nth:
  assumes "i < length idt"
  shows "fst (populate_IDT addr (idt, s)) ! i =
           (case find (\<lambda>e. fst e = i) idt_setup of
              None \<Rightarrow> SET_IDT_ENTRY_TRAP_GATE (addr Null_handler) 0 DPL_UNPRIVILEGED 0 (idt ! i)
            | Some (v, k, h, p) \<Rightarrow> set_gate k (addr h) (ucast KERNEL_CS) p 1
                (SET_IDT_ENTRY_TRAP_GATE (addr Null_handler) 0 DPL_UNPRIVILEGED 0 (idt ! i)))"
  using fold_updates_nth[OF idt_setup_distinct, of i "map (SET_IDT_ENTRY_TRAP_GATE (addr Null_handler) 0 DPL_UNPRIVILEGED 0) idt"
      "\<lambda>k h p. set_gate k (addr h) (ucast KERNEL_CS) p 1"] assms
  by (simp add: populate_IDT_def Let_def split: option.splits prod.splits)

text \<open>C37: After populate_IDT exactly vectors 0x00-0x13, 0x20, 0x21, 0x28 and 0x80 are present, and the only present gates user code may invoke (DPL 3) are the system call 0x80 and the reserved vector 0x0F of Assertion_Fail.\<close>

lemma idt_user_vectors:
  fixes addr :: "handler \<Rightarrow> u32" and s :: kstate
  assumes "length idt = NUM_VEC"
  defines "idt' \<equiv> fst (populate_IDT addr (idt, s))"
  shows "length idt' = NUM_VEC \<and>
    (\<forall>v<NUM_VEC. present (idt' ! v) = 1 \<longleftrightarrow> v < 0x14 \<or> v = 0x20 \<or> v = 0x21 \<or> v = 0x28 \<or> v = 0x80) \<and>
    (\<forall>v<NUM_VEC. present (idt' ! v) = 1 \<and> dpl (idt' ! v) = 3 \<longleftrightarrow> v = 0x0F \<or> v = 0x80)"
proof -
  have l: "length idt' = NUM_VEC" using assms by (simp add: idt'_def populate_IDT_def Let_def fold_updates_length)
  have n: "idt' ! v = (case find (\<lambda>e. fst e = v) idt_setup of
              None \<Rightarrow> SET_IDT_ENTRY_TRAP_GATE (addr Null_handler) 0 DPL_UNPRIVILEGED 0 (idt ! v)
            | Some (w, k, h, p) \<Rightarrow> set_gate k (addr h) (ucast KERNEL_CS) p 1
                (SET_IDT_ENTRY_TRAP_GATE (addr Null_handler) 0 DPL_UNPRIVILEGED 0 (idt ! v)))" if "v < NUM_VEC" for v
    using populate_IDT_nth[of v idt addr s] that assms(1) by (simp add: idt'_def)
  show ?thesis using l
    by (auto simp: n idt_setup_def set_gate_def SET_IDT_ENTRY_TRAP_GATE_def SET_IDT_ENTRY_INT_GATE_def
        DPL_UNPRIVILEGED_def DPL_PRIVILEGED_def) presburger
qed
lemma idt_setup_faults:
  assumes "v < length idt_faults"
  shows "find (\<lambda>e. fst e = v) idt_setup =
           Some (v, if v = 2 then Int_gate else Trap_gate, Fault_wrap (idt_faults ! v),
                 if v = 0x0F then DPL_UNPRIVILEGED else DPL_PRIVILEGED)"
proof -
  have "list_all (\<lambda>v. find (\<lambda>e. fst e = v) idt_setup =
           Some (v, if v = 2 then Int_gate else Trap_gate, Fault_wrap (idt_faults ! v),
                 if v = 0x0F then DPL_UNPRIVILEGED else DPL_PRIVILEGED)) [0..<length idt_faults]"
    by (simp add: idt_setup_def idt_faults_def upt_rec)
  then show ?thesis using assms by (simp add: list_all_iff)
qed

lemma set_gate_flags:
  "present (set_gate k h seg p 1 d) = 1" "reserved3 (set_gate k h seg p r d) = 0 \<longleftrightarrow> k = Int_gate"
  "dpl (set_gate k h seg p r d) = ucast p" "reserved3 (set_gate Trap_gate h seg p r d) = 1"
  by (cases k; simp add: set_gate_def SET_IDT_ENTRY_TRAP_GATE_def SET_IDT_ENTRY_INT_GATE_def)+

text \<open>C38: After populate_IDT every exception vector points to the wrapper of the fault the exception model assigns it (an interrupt gate for NMI only, trap gates otherwise), 0x80 is a trap gate to the system call, and the vectors the 8259s raise for the PIT, keyboard and RTC lines after i8259_init are present DPL-0 interrupt gates to their wrappers.\<close>

lemma idt_dispatch:
  fixes addr :: "handler \<Rightarrow> u32" and s :: kstate and pic :: pic
  assumes "length idt = NUM_VEC"
  defines "idt' \<equiv> fst (populate_IDT addr (idt, s))"
    and "mv \<equiv> unat (vector_base (master (i8259_init pic)))" and "sv \<equiv> unat (vector_base (slave (i8259_init pic)))"
  shows "(\<forall>v<length idt_faults. idt_vector v = Some f \<longrightarrow>
            idt_handler (idt' ! v) = addr (Fault_wrap f) \<and> present (idt' ! v) = 1 \<and> (reserved3 (idt' ! v) = 0 \<longleftrightarrow> v = 2)) \<and>
         idt_handler (idt' ! 0x80) = addr System_Call_Wrap \<and> reserved3 (idt' ! 0x80) = 1 \<and>
         idt_handler (idt' ! (mv + 0)) = addr PIT_Wrap \<and> idt_handler (idt' ! (mv + 1)) = addr Keyboard_Wrap \<and>
         idt_handler (idt' ! (sv + 0)) = addr RTC_Wrap \<and>
         (\<forall>v\<in>{mv + 0, mv + 1, sv + 0}. present (idt' ! v) = 1 \<and> reserved3 (idt' ! v) = 0 \<and> dpl (idt' ! v) = 0)"
proof -
  have n: "idt' ! v = (case find (\<lambda>e. fst e = v) idt_setup of
              None \<Rightarrow> SET_IDT_ENTRY_TRAP_GATE (addr Null_handler) 0 DPL_UNPRIVILEGED 0 (idt ! v)
            | Some (w, k, h, p) \<Rightarrow> set_gate k (addr h) (ucast KERNEL_CS) p 1
                (SET_IDT_ENTRY_TRAP_GATE (addr Null_handler) 0 DPL_UNPRIVILEGED 0 (idt ! v)))" if "v < NUM_VEC" for v
    using populate_IDT_nth[of v idt addr s] that assms(1) by (simp add: idt'_def)
  have vb: "mv = 0x20" "sv = 0x28"
    by (simp_all add: mv_def sv_def i8259_init_def outb_def chip_command_def chip_data_def pic_consts split: icw_phase.splits)
  have f: "\<forall>v<length idt_faults. idt_vector v = Some f \<longrightarrow>
            idt_handler (idt' ! v) = addr (Fault_wrap f) \<and> present (idt' ! v) = 1 \<and> (reserved3 (idt' ! v) = 0 \<longleftrightarrow> v = 2)"
  proof (intro allI impI)
    fix v assume v: "v < length idt_faults" "idt_vector v = Some f"
    then have "v < NUM_VEC" "f = idt_faults ! v" by (simp_all add: idt_vector_def idt_faults_def NUM_VEC_def)
    then show "idt_handler (idt' ! v) = addr (Fault_wrap f) \<and> present (idt' ! v) = 1 \<and> (reserved3 (idt' ! v) = 0 \<longleftrightarrow> v = 2)"
      using n[of v] idt_setup_faults[OF v(1)] by (simp add: set_gate_handler set_gate_flags)
  qed
  show ?thesis
    using f n[of "0x80"] n[of "0x20"] n[of "0x21"] n[of "0x28"] unfolding vb
    by (simp add: NUM_VEC_def idt_setup_def set_gate_handler set_gate_flags DPL_PRIVILEGED_def)
qed

lemma bit_seg_windows_int:
  "bit (0xFF000000::int) n \<longleftrightarrow> 24 \<le> n \<and> n < 32" "bit (0xFF0000::int) n \<longleftrightarrow> 16 \<le> n \<and> n < 24"
  "bit (0xF0000::int) n \<longleftrightarrow> 16 \<le> n \<and> n < 20" "bit (0xFFFFF::int) n \<longleftrightarrow> n < 20"
  "bit (0xFF::int) n \<longleftrightarrow> n < 8" "bit (0xF::int) n \<longleftrightarrow> n < 4"
proof -
  have e: "(0xFF000000::int) = push_bit 24 (mask 8)" "(0xFF0000::int) = push_bit 16 (mask 8)"
    "(0xF0000::int) = push_bit 16 (mask 4)" "(0xFFFFF::int) = mask 20" "(0xFF::int) = mask 8" "(0xF::int) = mask 4"
    by (simp_all add: mask_eq_exp_minus_1 push_bit_eq_mult)
  show "bit (0xFF000000::int) n \<longleftrightarrow> 24 \<le> n \<and> n < 32" "bit (0xFF0000::int) n \<longleftrightarrow> 16 \<le> n \<and> n < 24"
    "bit (0xF0000::int) n \<longleftrightarrow> 16 \<le> n \<and> n < 20" "bit (0xFFFFF::int) n \<longleftrightarrow> n < 20"
    "bit (0xFF::int) n \<longleftrightarrow> n < 8" "bit (0xF::int) n \<longleftrightarrow> n < 4"
    by (simp_all only: e bit_push_bit_iff bit_mask_iff) auto
qed

lemma seg_params_fields:
  assumes "P = SET_LDT_PARAMS \<or> P = SET_TSS_PARAMS"
  shows "bit (base_31_24 (P d a l)) i \<longleftrightarrow> i < 8 \<and> bit a (24 + i)"
    "bit (base_23_16 (P d a l)) i \<longleftrightarrow> i < 8 \<and> bit a (16 + i)"
    "bit (base_15_00 (P d a l)) i \<longleftrightarrow> i < 16 \<and> bit a i"
    "bit (seg_lim_19_16 (P d a l)) i \<longleftrightarrow> i < 4 \<and> bit l (16 + i)"
    "bit (seg_lim_15_00 (P d a l)) i \<longleftrightarrow> i < 16 \<and> bit l i"
  using assms by (auto simp: SET_LDT_PARAMS_def SET_TSS_PARAMS_def bit_simps bit_FFFF_int bit_seg_windows_int)

lemma bit_split_32:
  assumes "(n::nat) < 32"
  obtains "n < 16" | "16 \<le> n" "n < 20" | "20 \<le> n" "n < 24" | "24 \<le> n" "n < 32"
  using assms by linarith

lemma seg_params_base_limit:
  assumes "P = SET_LDT_PARAMS \<or> P = SET_TSS_PARAMS"
  shows "seg_base (P d a l) = a" "seg_limit (P d a l) = l AND 0xFFFFF"
proof -
  show "seg_base (P d a l) = a"
  proof (rule bit_word_eqI)
    fix n assume "n < LENGTH(32)"
    then have "n < 32" by simp
    then show "bit (seg_base (P d a l)) n = bit a n"
      by (cases rule: bit_split_32) (simp_all add: seg_base_def bit_simps seg_params_fields[OF assms] less_diff_conv2)
  qed
  show "seg_limit (P d a l) = l AND 0xFFFFF"
  proof (rule bit_word_eqI)
    fix n assume "n < LENGTH(32)"
    then have "n < 32" by simp
    then show "bit (seg_limit (P d a l)) n = bit (l AND 0xFFFFF) n"
      by (cases rule: bit_split_32) (simp_all add: seg_limit_def bit_simps seg_params_fields[OF assms] bit_seg_windows_int less_diff_conv2)
  qed
qed

lemma seg_params_low_word:
  assumes "P = SET_LDT_PARAMS \<or> P = SET_TSS_PARAMS"
  shows "fst (seg_val (P d a l)) = push_bit 16 (a AND 0xFFFF) OR (l AND 0xFFFF)"
  using assms by (auto simp: SET_LDT_PARAMS_def SET_TSS_PARAMS_def seg_val_def
      bit_simps bit_FFFF_int bit_FFFF0000_int intro!: bit_word_eqI)

lemma seg_params_attrs:
  assumes "P = SET_LDT_PARAMS \<or> P = SET_TSS_PARAMS"
  shows "seg_type (P d a l) = seg_type d \<and> sys (P d a l) = sys d \<and> seg_dpl (P d a l) = seg_dpl d \<and>
    seg_present (P d a l) = seg_present d \<and> avail (P d a l) = avail d \<and> reserved (P d a l) = reserved d \<and>
    opsize (P d a l) = opsize d \<and> granularity (P d a l) = granularity d"
  using assms by (auto simp: SET_LDT_PARAMS_def SET_TSS_PARAMS_def)
text \<open>C33: SET_LDT_PARAMS and SET_TSS_PARAMS store a base address and a limit so that the descriptor's three base pieces reassemble the address and its two limit pieces the low 20 bits of the limit, the descriptor's low word holds limit bits 0-15 and base bits 0-15, and the type, system, DPL, present, available, reserved, size and granularity fields are left as they were.\<close>

theorem seg_params_roundtrip:
  assumes "P = SET_LDT_PARAMS \<or> P = SET_TSS_PARAMS"
  shows "seg_base (P d a l) = a \<and> seg_limit (P d a l) = l AND 0xFFFFF \<and>
    fst (seg_val (P d a l)) = push_bit 16 (a AND 0xFFFF) OR (l AND 0xFFFF) \<and>
    seg_type (P d a l) = seg_type d \<and> sys (P d a l) = sys d \<and> seg_dpl (P d a l) = seg_dpl d \<and>
    seg_present (P d a l) = seg_present d \<and> avail (P d a l) = avail d \<and> reserved (P d a l) = reserved d \<and>
    opsize (P d a l) = opsize d \<and> granularity (P d a l) = granularity d"
  using seg_params_base_limit[OF assms] seg_params_low_word[OF assms] seg_params_attrs[OF assms] by simp

lemma tss_layout:
  "sum_list (map snd tss_fields) = TSS_SIZE \<and> field_offset tss_fields ''esp0'' = Some 4 \<and>
   field_offset tss_fields ''ss0'' = Some 8 \<and> field_offset tss_fields ''cr3'' = Some 28 \<and>
   field_offset tss_fields ''eip'' = Some 32 \<and> field_offset tss_fields ''es'' = Some 72 \<and>
   field_offset tss_fields ''ldt_segment_selector'' = Some 96 \<and> field_offset tss_fields ''io_base_addr'' = Some 102"
  by (simp add: tss_fields_def TSS_SIZE_def)
end
