(* ===== verification/AsmWrapper.thy ===== *)
theory AsmWrapper
  imports Prelude
begin

text \<open>
  The register save and restore macros \<open>SAVE_REG\<close> and \<open>RESTORE_REG\<close> of
  asm_wrapper.h, as straight-line x86 code over a small machine state: the
  general registers, the data segment registers, the stack pointer, the
  direction flag and the stack memory.  \<open>pushl\<close> decrements \<open>%esp\<close> by four
  (wrapping at 32 bits) and stores the 32-bit value there; \<open>popl\<close> loads the
  value at \<open>%esp\<close> and increments it.  A segment register is pushed zero
  extended and popped from the low 16 bits.  Memory is a map from the
  addresses the stack pointer takes to the 32-bit values stored there: all
  accesses of the macros are at the stack pointer, which moves in steps of four,
  so two accesses are either at the same address or do not overlap.
\<close>

section \<open>Machine state and instructions\<close>

datatype gpr = EAX | EBX | ECX | EDX | ESI | EDI | EBP

datatype sreg = DS | ES | FS | GS

datatype operand = Gpr gpr | Sreg sreg

datatype instr = Cld | Pushl operand | Popl operand

record cpu =
  cpu_regs :: "gpr \<Rightarrow> u32"
  cpu_segs :: "sreg \<Rightarrow> u16"
  cpu_esp :: u32
  cpu_df :: bool
  cpu_mem :: "u32 \<Rightarrow> u32"

fun read_op :: "cpu \<Rightarrow> operand \<Rightarrow> u32" where
  "read_op c (Gpr r) = cpu_regs c r"
| "read_op c (Sreg s) = ucast (cpu_segs c s)"

fun write_op :: "cpu \<Rightarrow> operand \<Rightarrow> u32 \<Rightarrow> cpu" where
  "write_op c (Gpr r) v = c\<lparr>cpu_regs := (cpu_regs c)(r := v)\<rparr>"
| "write_op c (Sreg s) v = c\<lparr>cpu_segs := (cpu_segs c)(s := ucast v)\<rparr>"

fun exec :: "instr \<Rightarrow> cpu \<Rightarrow> cpu" where
  "exec Cld c = c\<lparr>cpu_df := False\<rparr>"
| "exec (Pushl x) c = (let sp = cpu_esp c - 4 in c\<lparr>cpu_esp := sp, cpu_mem := (cpu_mem c)(sp := read_op c x)\<rparr>)"
| "exec (Popl x) c = (write_op c x (cpu_mem c (cpu_esp c)))\<lparr>cpu_esp := cpu_esp c + 4\<rparr>"

definition run :: "instr list \<Rightarrow> cpu \<Rightarrow> cpu" where
  "run is c = fold exec is c"

section \<open>The macros\<close>

definition SAVE_REG :: "instr list" where
  "SAVE_REG =
     [Cld, Pushl (Sreg GS), Pushl (Sreg FS), Pushl (Sreg ES), Pushl (Sreg DS),
      Pushl (Gpr EAX), Pushl (Gpr EBP), Pushl (Gpr EDI), Pushl (Gpr ESI),
      Pushl (Gpr EDX), Pushl (Gpr ECX), Pushl (Gpr EBX)]"

definition RESTORE_REG :: "instr list" where
  "RESTORE_REG =
     [Popl (Gpr EBX), Popl (Gpr ECX), Popl (Gpr EDX), Popl (Gpr ESI),
      Popl (Gpr EDI), Popl (Gpr EBP), Popl (Gpr EAX), Popl (Sreg DS),
      Popl (Sreg ES), Popl (Sreg FS), Popl (Sreg GS)]"

text \<open>The operands \<open>SAVE_REG\<close> pushes, in order.\<close>

definition save_ops :: "operand list" where
  "save_ops = [Sreg GS, Sreg FS, Sreg ES, Sreg DS, Gpr EAX, Gpr EBP, Gpr EDI, Gpr ESI, Gpr EDX, Gpr ECX, Gpr EBX]"

section \<open>Push and pop sequences\<close>

lemma run_Cons [simp]: "run (i # is) c = run is (exec i c)"
  by (simp add: run_def)

lemma run_Nil [simp]: "run [] c = c"
  by (simp add: run_def)

lemma run_append: "run (xs @ ys) c = run ys (run xs c)"
  by (simp add: run_def)

lemma read_op_stack [simp]: "read_op (c\<lparr>cpu_esp := sp, cpu_mem := m\<rparr>) x = read_op c x"
  by (cases x) simp_all

lemma read_op_df [simp]: "read_op (c\<lparr>cpu_df := b\<rparr>) x = read_op c x"
  by (cases x) simp_all

lemma write_read_op [simp]: "write_op c x (read_op c x) = c"
  by (cases x) (simp_all add: ucast_up_ucast_id is_up)

lemma write_op_fields [simp]:
  "cpu_esp (write_op c x v) = cpu_esp c" "cpu_mem (write_op c x v) = cpu_mem c" "cpu_df (write_op c x v) = cpu_df c"
  by (cases x; simp)+

lemma write_op_update [simp]:
  "write_op (c\<lparr>cpu_esp := sp, cpu_mem := m\<rparr>) x v = (write_op c x v)\<lparr>cpu_esp := sp, cpu_mem := m\<rparr>"
  by (cases x) simp_all

lemma pushes_regs [simp]:
  "read_op (run (map Pushl xs) c) y = read_op c y"
  "cpu_df (run (map Pushl xs) c) = cpu_df c"
  by (induction xs arbitrary: c) (simp_all add: Let_def)

lemma pushes_esp [simp]: "cpu_esp (run (map Pushl xs) c) = cpu_esp c - 4 * word_of_nat (length xs)"
proof (induction xs arbitrary: c)
  case Nil
  then show ?case by simp
next
  case (Cons x xs)
  have "cpu_esp (run (map Pushl xs) (exec (Pushl x) c)) = cpu_esp (exec (Pushl x) c) - 4 * word_of_nat (length xs)"
    by (rule Cons.IH)
  then show ?case by (simp add: Let_def algebra_simps)
qed

text \<open>Four times a positive count below \<open>2^30\<close> is a nonzero 32-bit word.\<close>

lemma four_times_nonzero:
  assumes "0 < n" "n < 2 ^ 30"
  shows "(4 * word_of_nat n :: u32) \<noteq> 0"
proof -
  have "(4 * word_of_nat n :: u32) = word_of_nat (4 * n)" by simp
  moreover have "\<not> (2::nat) ^ 32 dvd 4 * n" using assms by (auto dest: dvd_imp_le)
  ultimately show ?thesis by (simp only: word_of_nat_eq_0_iff) simp
qed

lemma sub_ne_self: "d \<noteq> 0 \<Longrightarrow> (x::'a::len word) \<noteq> x - d"
  by simp

lemma pushes_mem_other:
  assumes "\<forall>j<length xs. a \<noteq> cpu_esp c - 4 * word_of_nat (Suc j)"
  shows "cpu_mem (run (map Pushl xs) c) a = cpu_mem c a"
  using assms
proof (induction xs arbitrary: c)
  case Nil
  then show ?case by simp
next
  case (Cons x xs)
  have "\<forall>j<length xs. a \<noteq> cpu_esp (exec (Pushl x) c) - 4 * word_of_nat (Suc j)"
  proof (intro allI impI)
    fix j assume "j < length xs"
    then have "a \<noteq> cpu_esp c - 4 * word_of_nat (Suc (Suc j))" using Cons.prems[rule_format, of "Suc j"] by simp
    then show "a \<noteq> cpu_esp (exec (Pushl x) c) - 4 * word_of_nat (Suc j)" by (simp add: Let_def algebra_simps)
  qed
  moreover have "a \<noteq> cpu_esp c - 4" using Cons.prems[rule_format, of 0] by simp
  ultimately show ?case using Cons.IH by (simp add: Let_def)
qed

lemma pushes_mem_slot:
  assumes "length xs < 2 ^ 30" "k < length xs"
  shows "cpu_mem (run (map Pushl xs) c) (cpu_esp c - 4 * word_of_nat (Suc k)) = read_op c (xs ! k)"
  using assms
proof (induction xs arbitrary: c k)
  case Nil
  then show ?case by simp
next
  case (Cons x xs)
  let ?c1 = "exec (Pushl x) c"
  show ?case
  proof (cases k)
    case 0
    have "\<forall>j<length xs. cpu_esp ?c1 \<noteq> cpu_esp ?c1 - 4 * word_of_nat (Suc j)"
    proof (intro allI impI)
      fix j assume "j < length xs"
      then have "4 * word_of_nat (Suc j) \<noteq> (0::u32)" using Cons.prems(1) by (intro four_times_nonzero) simp_all
      then show "cpu_esp ?c1 \<noteq> cpu_esp ?c1 - 4 * word_of_nat (Suc j)" by (rule sub_ne_self)
    qed
    then have "cpu_mem (run (map Pushl xs) ?c1) (cpu_esp ?c1) = cpu_mem ?c1 (cpu_esp ?c1)"
      by (rule pushes_mem_other)
    then show ?thesis using 0 by (simp add: Let_def)
  next
    case (Suc k')
    have "cpu_mem (run (map Pushl xs) ?c1) (cpu_esp ?c1 - 4 * word_of_nat (Suc k')) = read_op ?c1 (xs ! k')"
      using Cons.prems Suc by (intro Cons.IH) simp_all
    then show ?thesis using Suc by (simp add: Let_def algebra_simps)
  qed
qed

lemma pops_after_pushes:
  assumes "length xs < 2 ^ 30"
  shows "run (map Popl (rev xs)) (run (map Pushl xs) c) = c\<lparr>cpu_mem := cpu_mem (run (map Pushl xs) c)\<rparr>"
  using assms
proof (induction xs arbitrary: c)
  case Nil
  then show ?case by simp
next
  case (Cons x xs)
  let ?c1 = "exec (Pushl x) c"
  let ?m = "cpu_mem (run (map Pushl xs) ?c1)"
  have ih: "run (map Popl (rev xs)) (run (map Pushl xs) ?c1) = ?c1\<lparr>cpu_mem := ?m\<rparr>"
    using Cons by simp
  have slot: "?m (cpu_esp c - 4) = read_op c x"
    using pushes_mem_slot[of "x # xs" 0 c] Cons.prems by (simp add: Let_def)
  show ?case using ih slot by (simp add: run_append Let_def)
qed

lemma stack_offset:
  "k \<le> n \<Longrightarrow> (x::u32) - 4 * word_of_nat n + 4 * word_of_nat k = x - 4 * word_of_nat (n - k)"
  by (simp add: of_nat_diff algebra_simps)

lemma SAVE_REG_pushes: "SAVE_REG = Cld # map Pushl save_ops"
  by (simp add: SAVE_REG_def save_ops_def)

lemma RESTORE_REG_pops: "RESTORE_REG = map Popl (rev save_ops)"
  by (simp add: RESTORE_REG_def save_ops_def)

text \<open>C14: SAVE_REG clears the direction flag and leaves below the old stack pointer an 11-word frame whose words, from the new stack pointer up, are ebx, ecx, edx, esi, edi, ebp, eax and the zero-extended ds, es, fs, gs (so a C function called next reads ebx, ecx, edx as its first three arguments); RESTORE_REG run on that frame gives back every general and segment register and the stack pointer.\<close>

theorem save_restore_frame:
  fixes c :: cpu
  defines "c' \<equiv> run SAVE_REG c"
  shows "cpu_esp c' = cpu_esp c - 44 \<and> cpu_df c' = False \<and>
    map (\<lambda>i. cpu_mem c' (cpu_esp c' + 4 * word_of_nat i)) [0..<11] =
      [cpu_regs c EBX, cpu_regs c ECX, cpu_regs c EDX, cpu_regs c ESI, cpu_regs c EDI, cpu_regs c EBP, cpu_regs c EAX,
       ucast (cpu_segs c DS), ucast (cpu_segs c ES), ucast (cpu_segs c FS), ucast (cpu_segs c GS)] \<and>
    run RESTORE_REG c' = c\<lparr>cpu_df := False, cpu_mem := cpu_mem c'\<rparr>"
proof -
  let ?c0 = "exec Cld c"
  have c': "c' = run (map Pushl save_ops) ?c0" by (simp add: c'_def SAVE_REG_pushes)
  have len: "length save_ops = 11" by (simp add: save_ops_def)
  have esp: "cpu_esp c' = cpu_esp c - 4 * word_of_nat 11" by (simp add: c' len)
  have slot: "cpu_mem c' (cpu_esp c' + 4 * word_of_nat i) = read_op c (save_ops ! (10 - i))" if "i < 11" for i
  proof -
    have e: "cpu_esp c' + 4 * word_of_nat i = cpu_esp ?c0 - 4 * word_of_nat (Suc (10 - i))"
      using that stack_offset[of i 11 "cpu_esp c"] by (simp add: esp Suc_diff_le)
    have "cpu_mem c' (cpu_esp c' + 4 * word_of_nat i) = read_op ?c0 (save_ops ! (10 - i))"
      unfolding e unfolding c' by (rule pushes_mem_slot) (use len that in simp_all)
    then show ?thesis by simp
  qed
  have frame: "map (\<lambda>i. cpu_mem c' (cpu_esp c' + 4 * word_of_nat i)) [0..<11] = map (\<lambda>i. read_op c (save_ops ! (10 - i))) [0..<11]"
    by (rule map_cong) (simp_all add: slot)
  have restore: "run RESTORE_REG c' = ?c0\<lparr>cpu_mem := cpu_mem c'\<rparr>"
    using pops_after_pushes[of save_ops ?c0] len by (simp add: RESTORE_REG_pops c')
  have df: "cpu_df c' = False" by (simp add: c')
  show ?thesis using esp df frame restore by (simp add: upt_rec save_ops_def)
qed

end
