(* ===== verification/Spec2Isabelle.thy ===== *)
theory Spec2Isabelle
  imports Syscall Devices Descriptors AsmWrapper
begin

text \<open>
  A verification library for the teaching kernel of src/student-distrib: a
  single-CPU protected-mode kernel with three terminals, one base shell per
  terminal, up to eight processes, one shared page directory whose user slot
  (128MB to 132MB virtual) is remapped to the frame of the running process, a
  round-robin scheduler driven by the PIT, and keyboard, RTC and 8259 drivers.
  Every function is a shallow embedding of the C code: globals are fields of
  the record \<open>kstate\<close> (or of the driver's own record), each operation returns
  the updated state, undefined behaviour and blocking are constructors of the
  result types, and 8- and 32-bit quantities are words.

  \<^bold>\<open>Theories and what they model.\<close>
  \<^item> \<open>Prelude\<close>: \<open>u8\<close>/\<open>u32\<close>, the one-hot mask idioms and \<open>CHECK_FLAG\<close> of
    lib.h, bounded \<open>strncmp\<close>; shared lemmas on bits, powers of two, list
    updates (collection \<open>bitmask_simps\<close>).
  \<^item> \<open>Paging\<close> (page.c, page.h, entry macros of x86_desc.h): page directory,
    kernel and user page tables and a TLB snapshot; \<open>init_Paging\<close>,
    \<open>set_user_page\<close>, \<open>set_video_mem_page\<close>; the hardware walk reads the TLB,
    so the flushes of page.c are verified too.
  \<^item> \<open>Fsys\<close> (drivers/fsys.c): the disk image as a record; dentry lookup,
    \<open>read_data\<close>, \<open>get_file_length\<close>, file and directory operations.
  \<^item> \<open>Kstate\<close>, \<open>Terminal\<close> (drivers/terminal.c): pcbs, terminal records,
    the globals; \<open>init_terminals\<close>, \<open>set_shown_terminal\<close>,
    \<open>set_active_terminal\<close>, \<open>terminal_read\<close> split at its spin into
    \<open>terminal_read_begin\<close>/\<open>terminal_read_copy\<close>, \<open>terminal_write\<close>.
  \<^item> \<open>Process\<close> (syscall.c execute/halt, process.c): \<open>execute\<close> (parse, ELF
    check, pid search, image load through the paging, pcb set-up), \<open>halt\<close>
    with the base-shell respawn, \<open>restore_parent\<close>.
  \<^item> \<open>Rtc\<close> (drivers/rtc.c): the tick counter and per-terminal flags;
    \<open>rtc_write\<close>'s shift loop is \<open>partial_function (option)\<close>, proved to
    return for every accepted frequency.
  \<^item> \<open>RtcChip\<close> (drivers/rtc.c port I/O): the CMOS index register and
    registers behind ports 0x70/0x71; \<open>NMI_enable\<close>, \<open>NMI_disable\<close>, and
    \<open>init_RTC_dev\<close>/\<open>RTC_Handler_dev\<close>, which compose the Rtc operations
    with the chip and with \<open>enable_irq\<close>/\<open>send_eoi\<close> of the 8259 model.
  \<^item> \<open>Syscall\<close> (syscall.c): read, write, open, close, getargs, vidmap,
    set_handler, sigreturn with their jump-table dispatch; \<open>fd_syscall\<close>
    dispatches a datatype of calls.
  \<^item> \<open>Intr\<close> (intr.c): the twenty exception vectors, each handler halting
    with the exception flag or spinning.
  \<^item> \<open>Sched\<close> (drivers/pit.c): \<open>PIT_Handler\<close> with the three-shell bootstrap
    and \<open>pit_round_robin\<close>; \<open>swtch_ctx\<close> and the entry to a new shell are
    results; \<open>pit_run\<close>/\<open>pit_trace\<close> apply a sequence of ticks.
  \<^item> \<open>Keyboard\<close> (drivers/keyboard.c): \<open>shiftcaps\<close>/\<open>keycode\<close>, the scancode
    tables, \<open>Keyboard_Handler\<close> as \<open>kbd_enter\<close>, \<open>kbd_decode\<close>,
    \<open>kbd_emit\<close>/\<open>kbd_put\<close>, \<open>kbd_leave\<close>, following the code's sections.
  \<^item> \<open>Devices\<close> (drivers/pit.c, keyboard.c, rtc.c together): the 8254
    programming of \<open>init_PIT_dev\<close>, \<open>init_Keyboard\<close>, a datatype of the
    device initialisations with \<open>dev_init_step\<close> on a record of kernel state,
    CMOS chip, 8254 and 8259 pair, and the handlers with their EOIs
    (\<open>PIT_Handler_dev\<close>, \<open>Keyboard_Handler_dev\<close>).
  \<^item> \<open>I8259\<close> (drivers/i8259.c): the driver's mask globals and functions,
    over a model of the two chips (IMR, ICW sequence, logged commands).
  \<^item> \<open>Descriptors\<close> (x86_desc.h, populate_IDT of intr.c): the IDT entry
    struct and the two words it overlays, the gate macros, and the table
    \<open>populate_IDT\<close> builds, with handler addresses as a parameter; the GDT
    segment descriptor \<open>seg_desc_t\<close> with its overlay and the macros
    \<open>SET_LDT_PARAMS\<close>/\<open>SET_TSS_PARAMS\<close>; the packed \<open>tss_t\<close> as a list of
    fields and sizes, whose offsets are checked against the hardware TSS.
  \<^item> \<open>AsmWrapper\<close> (asm_wrapper.h): \<open>SAVE_REG\<close> and \<open>RESTORE_REG\<close> as
    instruction lists run by \<open>run\<close> on a machine state of general and segment
    registers, \<open>%esp\<close>, the direction flag and stack memory; generic lemmas
    on push and pop sequences with 32-bit wrap-around of the stack pointer.

  \<^bold>\<open>Properties.\<close>  Address spaces: isolation of user frames (C1), the
  bindings made by set_user_page and set_video_mem_page (C4, C5).  File
  system: read_data equals slicing the file (C2), a negative count wraps past
  the range checks (C3).  Processes: execute/halt round trip (C6), base-shell
  respawn (C7), a stale exception flag (C8), no leak on a failed execute
  (C17), fresh descriptor table (C18), faults halting with 256 (C19).  RTC: the frequencies rtc_write accepts, its loop
  and bit (C9), the chip programming of init_RTC, which leaves NMIs masked
  (C10), rtc_read returns within \<open>2 ^ rtc_freq_bit\<close> ticks (C11).
  Descriptors: open/close bit discipline and round trip (C12, C13), the
  descriptor invariant and absence of NULL calls on a well-typed disk (C15,
  C16), the open, getargs and vidmap defects (C20 to C22).  Scheduler:
  fairness over 3K ticks (C23), resumption of saved frames (C24), the
  bootstrap reaching the steady-state invariant (C25), the page bindings of
  a tick (C26), a switch to a NULL frame when no shell can start (C27).
  Keyboard: buffer bounds and the alt invariant (C28), alt chords (C29),
  shift and caps lock (C30), a typed line read back by terminal_read (C31),
  backspace's cursor movement (C39).  PIC: enable/disable of one line (C32),
  the device initialisations in any order: unmasked lines, PIT at 100 Hz,
  RTC at 512 Hz (C34), each handler's specific EOI (C35).  IDT: the packed
  gate layout (C36), the present and user-invokable vectors (C37), and the
  dispatch of exceptions, system call and PIC vectors to their wrappers
  (C38); base and limit of an LDT or TSS descriptor (C33).  Register
  wrappers: the frame SAVE_REG builds and its restoration by RESTORE_REG
  (C14).

  \<^bold>\<open>Bounds.\<close>  No fuel is used: loops over buffers are structural
  recursion with the code's own bounds (128 characters, 8 descriptors, 3
  terminals, 8 pids), the RTC spin is measured in RTC ticks (liveness by
  iterating \<open>RTC_Handler\<close>), and the scheduler spin over ticks by
  \<open>pit_run\<close>.  Push and pop sequences are proved for fewer than
  \<open>2 ^ 30\<close> operands, so that the slots below the stack pointer are distinct
  32-bit addresses; SAVE_REG pushes eleven.

  \<^bold>\<open>Not modelled.\<close>  Screen drawing (putc, clear, the blank
  backspace draws; its cursor movement is modelled) and the port writes that program the PIT rate; the interrupt
  flag (cli, sti, cli_and_save, restore_flags);
  the \<open>x86_desc_t\<close> pseudo-descriptor and the \<open>lidt\<close>/\<open>ltr\<close>/\<open>lldt\<close>
  macros, which only load CPU registers and whose callers (kernel.c, the
  boot code, the entry stubs that expand \<open>SAVE_REG\<close>) are outside src; of the TSS only \<open>tss.esp0\<close> and
  \<open>tss.ss0\<close>, which the kernel writes, are state (kernel-state fields),
  the rest of \<open>tss_t\<close> is its layout; tests.c.
  The constants of i8259.h and lib.h helpers, which are not among the
  sources, take their standard values.
\<close>

section \<open>Demonstration disks and states\<close>

text \<open>A one-file disk for \<open>read_data\<close>, and a disk holding a 28-byte ELF \<open>shell\<close> image with entry point 0x12345678, with a kernel state after boot: three base shells, pid 0 running on terminal 0.\<close>

definition demo_fs :: fsys where
  "demo_fs = \<lparr>num_dir_entries = 1, num_inodes = 1, num_dblocks = 1,
     file_dir_arr = (\<lambda>_. \<lparr>file_name = ''frame0.txt'', file_type = 2, inode_idx = 0\<rparr>),
     inodes_arr = (\<lambda>_. \<lparr>file_size = 5000, block_idx_arr = (\<lambda>_. 0)\<rparr>),
     data_block = (\<lambda>_. replicate 4096 7)\<rparr>"

definition shell_image :: "u8 list" where
  "shell_image = [0x7F, 0x45, 0x4C, 0x46, 0, 0, 0, 0, 0, 0, 0, 0, 0, 0, 0, 0,
     0, 0, 0, 0, 0, 0, 0, 0, 0x78, 0x56, 0x34, 0x12]"

definition demo_disk :: fsys where
  "demo_disk = \<lparr>num_dir_entries = 1, num_inodes = 1, num_dblocks = 1,
     file_dir_arr = (\<lambda>_. \<lparr>file_name = ''shell'', file_type = 2, inode_idx = 0\<rparr>),
     inodes_arr = (\<lambda>_. \<lparr>file_size = 28, block_idx_arr = (\<lambda>_. 0)\<rparr>),
     data_block = (\<lambda>_. shell_image)\<rparr>"

definition demo_pcb :: pcb where
  "demo_pcb = \<lparr>pcb_id = 0, parent_pid = 0, parent_esp0 = 0, parent_ebp = 0, open_files = 3,
     vidmap_inuse = 0, cmd_args = [], file_desc_arr = [stdin_file_desc, stdout_file_desc] @
       replicate 6 \<lparr>fops_table_ptr = None, inode_num = 0, file_pos = 0, flags = 0\<rparr>\<rparr>"

definition demo_state :: "bool \<Rightarrow> u32 \<Rightarrow> kstate" where
  "demo_state exc act = \<lparr>activeProcesses = act, currentPID = 0, current_PCB = Some 0,
     pcbs = (\<lambda>p. demo_pcb\<lparr>pcb_id := p, parent_pid := p\<rparr>), tss_esp0 = kernel_stack_top 0, tss_ss0 = KERNEL_DS,
     TA_idx = 0, TS_idx = 0, terminal_arr = map init_terminal [0..<MAX_TERMINALS],
     paging = set_user_page 0 init_Paging, phys_mem = (\<lambda>_. 0), exception_flag = exc,
     pit_counter = 3, rtc_counter = 0, screen_x = 0, screen_y = 0, vid_ptr = VMEM_BASE_ADDR,
     hw_cursor = (0, 0)\<rparr>"

definition demo_dir_disk :: fsys where
  "demo_dir_disk = demo_disk\<lparr>file_dir_arr := (\<lambda>_. \<lparr>file_name = ''shell'', file_type = 1, inode_idx = 0\<rparr>)\<rparr>"

definition demo_odd_disk :: fsys where
  "demo_odd_disk = demo_disk\<lparr>file_dir_arr := (\<lambda>_. \<lparr>file_name = ''shell'', file_type = 5, inode_idx = 0\<rparr>)\<rparr>"

definition demo_args_state :: kstate where
  "demo_args_state = (demo_state False 7)\<lparr>pcbs := (\<lambda>p. demo_pcb\<lparr>cmd_args := ''hello''\<rparr>)\<rparr>"

definition demo_boot :: kstate where
  "demo_boot = (demo_state False 0)\<lparr>current_PCB := None, pit_counter := 0\<rparr>"

definition demo_chip :: chip where
  "demo_chip = \<lparr>imr = 0xFF, phase = Ready, icw1_reg = 0, vector_base = 0, cascade_reg = 0, icw4_reg = 0, ocw_log = []\<rparr>"

definition demo_pic :: pic where
  "demo_pic = \<lparr>master = demo_chip, slave = demo_chip, master_mask = 0, slave_mask = 0\<rparr>"

definition demo_desc :: idt_desc where
  "demo_desc = \<lparr>offset_15_00 = 0, seg_selector = 0, reserved4 = 0, reserved3 = 0, reserved2 = 0, reserved1 = 0,
     gate_size = 0, reserved0 = 0, dpl = 0, present = 0, offset_31_16 = 0\<rparr>"

definition demo_addr :: "handler \<Rightarrow> u32" where
  "demo_addr h = (case h of Null_handler \<Rightarrow> 0 | System_Call_Wrap \<Rightarrow> 0x00401234 | _ \<Rightarrow> 0x00405678)"

text \<open>An available 32-bit TSS descriptor (type 9, present, DPL 0) before its base and limit are set.\<close>

definition demo_tss_desc :: seg_desc where
  "demo_tss_desc = \<lparr>seg_lim_15_00 = 0, base_15_00 = 0, base_23_16 = 0, seg_type = 9, sys = 0, seg_dpl = 0,
     seg_present = 1, seg_lim_19_16 = 0, avail = 0, reserved = 0, opsize = 0, granularity = 0, base_31_24 = 0\<rparr>"

text \<open>The CMOS chip after power-up: register A with the 32768 Hz divider (0x26), register B in 24-hour mode (0x02), register D valid (0x80), NMIs masked.\<close>

definition demo_cmos :: cmos where
  "demo_cmos = \<lparr>cmos_index = 0x8D, cmos_regs = (\<lambda>r. 0)(0x0A := 0x26, 0x0B := 0x02, 0x0D := 0x80)\<rparr>"

text \<open>The devices before their initialisation: the kernel state after boot, the power-up CMOS chip, an unprogrammed 8254 and the demonstration 8259 pair.\<close>

definition demo_devs :: devs where
  "demo_devs = \<lparr>dev_k = demo_state False 7, dev_cmos = demo_cmos,
     dev_pit = \<lparr>pit_cmd = 0, pit_lo = 0, pit_hi = 0, pit_next_hi = False\<rparr>, dev_pic = demo_pic\<rparr>"

text \<open>A state whose shown line holds one character, with the cursor at the start of the second row.\<close>

definition demo_bs_state :: kstate where
  "demo_bs_state = (demo_state False 7)\<lparr>terminal_arr :=
     [(init_terminal 0)\<lparr>keyboard_buffer := (replicate 128 0)[0 := 0x61], keyboard_idx := 1\<rparr>,
      init_terminal 1, init_terminal 2], screen_x := 0, screen_y := 1\<rparr>"

section \<open>Witnesses\<close>

lemma set_user_page_binds_window_witness:
  "in_user_window 0x08000010 \<and> unat (drop_bit 22 (0xB8000::u32)) \<noteq> USER_MEM_PD_ENTRY \<and>
   translate (set_user_page 3 init_Paging) True 0x08000010 = Some 0x01400010 \<and>
   translate (set_user_page 3 init_Paging) True 0xB8000 = walk (cur init_Paging) True 0xB8000"
proof -
  have h1: "in_user_window 0x08000010" by (simp add: in_user_window_def layout_defs)
  have h2: "unat (drop_bit 22 (0xB8000::u32)) \<noteq> USER_MEM_PD_ENTRY" by (simp add: USER_MEM_PD_ENTRY_def)
  show ?thesis
    using set_user_page_binds_window[of "0x08000010" 3 init_Paging True "0xB8000"] h1 h2
    by (simp add: user_frame_def layout_defs)
qed

lemma user_window_isolation_witness:
  "(0::nat) < 8 \<and> (1::nat) < 8 \<and> (0::nat) \<noteq> 1 \<and> in_user_window 0x08000000 \<and> in_user_window 0x08000000 \<and>
   user_store (set_user_page 1 init_Paging) (\<lambda>_. 0) 0x08000000 5 = Some ((\<lambda>_. 0)(0xC00000 := 5)) \<and>
   user_load (set_user_page 0 init_Paging) ((\<lambda>_. 0)(0xC00000 := 5)) 0x08000000 =
   user_load (set_user_page 0 init_Paging) (\<lambda>_. 0) 0x08000000"
proof -
  have w: "in_user_window 0x08000000" by (simp add: in_user_window_def layout_defs)
  have s: "user_store (set_user_page 1 init_Paging) (\<lambda>_. 0) 0x08000000 5 = Some ((\<lambda>_. 0)(0xC00000 := 5))"
    using w by (simp add: user_store_def set_user_page_translate user_frame_def layout_defs)
  show ?thesis
    using user_window_isolation[of 0 1 "0x08000000" "0x08000000" init_Paging "\<lambda>_. 0" 5 _ init_Paging, OF _ _ _ w w s] w s
    by simp
qed

lemma read_data_slice_witness:
  "read_data demo_fs 0 4094 4 = RD_Ok 4 (replicate 4 7)"
proof -
  have "read_data demo_fs 0 4094 4 =
          RD_Ok (if (4094::u32) + 4 = file_size (inodes_arr demo_fs 0) then 0 else 4)
                (take (unat (4::u32)) (drop (unat (4094::u32)) (file_bytes demo_fs (inodes_arr demo_fs 0))))"
    by (rule read_data_slice) (simp_all add: demo_fs_def blocks_sized_def DISK_BLOCK_SIZE_def)
  then show ?thesis
    by (simp add: demo_fs_def file_bytes_def blk_def DISK_BLOCK_SIZE_def replicate_add[symmetric])
qed

lemma file_read_negative_overrun_witness:
  "file_read demo_fs \<lparr>fops_table_ptr = Some file_jmptable, inode_num = 0, file_pos = 100, flags = 0\<rparr> (-1)
     = (Read_overrun, \<lparr>fops_table_ptr = Some file_jmptable, inode_num = 0, file_pos = 100, flags = 0\<rparr>)"
  by (rule file_read_negative_overrun[where ino = "inodes_arr demo_fs 0"]) (simp_all add: demo_fs_def DISK_BLOCK_SIZE_def)

lemma demo_dentry: "read_dentry_by_name demo_disk ''shell'' = Some \<lparr>file_name = ''shell'', file_type = 2, inode_idx = 0\<rparr>"
  by (simp add: read_dentry_by_name_def demo_disk_def find_dentry.simps strncmp_eq_def)
lemma demo_magic: "read_data demo_disk 0 1 3 = RD_Ok 3 (map of_char ''ELF'')"
  by (simp add: read_data_def demo_disk_def shell_image_def Let_def DISK_BLOCK_SIZE_def blk_def list_ex_iff)
    (simp add: word_le_nat_alt)
lemma demo_free_pid: "find_free_pid 7 = Some 3"
  by (simp add: find_free_pid_def MAX_PROCESSES_def upt_rec)
lemma demo_length: "get_file_length demo_disk ''shell'' = Some 28"
  unfolding get_file_length_def demo_dentry by (simp add: demo_disk_def REGULAR_FILE_TYPE_def)
lemma demo_image: "read_data demo_disk 0 0 28 = RD_Ok 0 shell_image"
  by (simp add: read_data_def demo_disk_def shell_image_def Let_def DISK_BLOCK_SIZE_def blk_def list_ex_iff)
lemma demo_entry_bytes: "read_data demo_disk 0 24 4 = RD_Ok 0 [0x78, 0x56, 0x34, 0x12]"
  by (simp add: read_data_def demo_disk_def shell_image_def Let_def DISK_BLOCK_SIZE_def blk_def list_ex_iff)
lemma demo_le32: "le32 [0x78, 0x56, 0x34, 0x12] = 0x12345678"
  by (simp add: le32_def)
lemma demo_store: "\<exists>mem. store_bytes (set_user_page p m) mem0 PROGRAM_IMAGE_ADDR shell_image = Some mem"
  by (simp add: shell_image_def PROGRAM_IMAGE_ADDR_def set_user_page_translate in_user_window_def layout_defs)

lemma demo_execute:
  assumes "find_free_pid (activeProcesses t) = Some p"
  shows "execute demo_disk ''shell'' ebp t = (Exec_enter 0x12345678, snd (execute demo_disk ''shell'' ebp t))"
proof -
  obtain mem where m: "store_bytes (set_user_page p (paging t)) (phys_mem t) PROGRAM_IMAGE_ADDR shell_image = Some mem"
    using demo_store by blast
  show ?thesis
    using assms m by (simp add: execute_def parse_command_shell demo_dentry demo_magic demo_length demo_image demo_entry_bytes demo_le32 Let_def)
qed
lemma demo_facts:
  "current_PCB (demo_state b a) = Some (currentPID (demo_state b a))"
  "TA_idx (demo_state b a) < length (terminal_arr (demo_state b a))"
  "saved_esp0 (terminal_active (demo_state b a)) = tss_esp0 (demo_state b a)"
  "t_currentPCB (terminal_active (demo_state b a)) = current_PCB (demo_state b a)"
  "t_currentPID (terminal_active (demo_state b a)) = currentPID (demo_state b a)"
  "currentPID (demo_state b a) < MAX_TERMINALS"
  by (simp_all add: demo_state_def terminal_active_def init_terminal_def MAX_TERMINALS_def)

lemma demo_bits7: "\<forall>i<MAX_TERMINALS. bit (7::u32) i"
  unfolding MAX_TERMINALS_def by (clarify, subst bit_seven, simp)

lemma execute_halt_roundtrip_witness: "fst (halt demo_disk 5 0 (snd (execute demo_disk ''shell'' 100 (demo_state False 7)))) = Halt_return 100 5"
proof -
  have ex: "execute demo_disk ''shell'' 100 (demo_state False 7) =
              (Exec_enter 0x12345678, snd (execute demo_disk ''shell'' 100 (demo_state False 7)))"
    by (rule demo_execute[where p = 3]) (simp add: demo_state_def demo_free_pid)
  have b: "\<forall>i<MAX_TERMINALS. bit (activeProcesses (demo_state False 7)) i" 
    using demo_bits7 by (simp add: demo_state_def)
  have c: "bit (activeProcesses (demo_state False 7)) (currentPID (demo_state False 7))"
    using b demo_facts(6) by blast
  have n: "\<not> exception_flag (demo_state False 7)" by (simp add: demo_state_def)
  show ?thesis
    using execute_halt_roundtrip[OF ex demo_facts(1) c b demo_facts(2-5) n, of 5 0] by simp
qed
lemma demo_respawn_exec:
  "execute demo_disk ''shell'' ebp ((demo_state b 7)\<lparr>activeProcesses := mask_clear (activeProcesses (demo_state b 7)) (currentPID (demo_state b 7))\<rparr>) =
     (Exec_enter 0x12345678, snd (execute demo_disk ''shell'' ebp ((demo_state b 7)\<lparr>activeProcesses := mask_clear (activeProcesses (demo_state b 7)) (currentPID (demo_state b 7))\<rparr>)))"
  by (rule demo_execute[where p = 0]) (simp add: demo_state_def find_free_pid_def MAX_PROCESSES_def upt_rec bit_0)

lemma demo_shells: "\<forall>i<MAX_TERMINALS. bit (activeProcesses (demo_state b 7)) i"
  using demo_bits7 by (simp add: demo_state_def)

lemma halt_base_shell_respawn_witness: "fst (halt demo_disk 0 0 (demo_state False 7)) = Halt_respawn 0x12345678 \<and>
           currentPID (snd (halt demo_disk 0 0 (demo_state False 7))) = 0"
  using halt_base_shell_respawn[where st = 0, OF demo_facts(6,1) demo_shells demo_facts(2) demo_respawn_exec]
  by (simp add: demo_state_def)

lemma stale_exception_flag_witness: "fst (halt demo_disk 0 0 (demo_state True 7)) = Halt_respawn 0x12345678 \<and>
           fst (halt demo_disk 0 0 (snd (execute demo_disk ''shell'' 7 (snd (halt demo_disk 0 0 (demo_state True 7)))))) =
             Halt_return 7 256"
proof -
  note r = halt_respawn_state[OF demo_facts(6,1) demo_shells demo_facts(2) demo_respawn_exec]
  let ?s' = "snd (execute demo_disk ''shell'' 0 ((demo_state True 7)\<lparr>activeProcesses :=
               mask_clear (activeProcesses (demo_state True 7)) (currentPID (demo_state True 7))\<rparr>))"
  have hs: "snd (halt demo_disk 0 0 (demo_state True 7)) = ?s'" using r(1) by simp
  have e: "exception_flag (demo_state True 7)" by (simp add: demo_state_def)
  have c: "execute demo_disk ''shell'' 7 ?s' = (Exec_enter 0x12345678, snd (execute demo_disk ''shell'' 7 ?s'))"
    by (rule demo_execute[where p = 3]) (simp only: r(4), simp add: demo_state_def demo_free_pid)
  show ?thesis
    using stale_exception_flag[where st = 0, OF demo_facts(6,1) demo_shells demo_facts(2) e demo_respawn_exec c]
      hs by simp
qed

lemma rtc_write_spec_witness:
  "\<not> rtc_freq_valid 1024 \<and> rtc_write 1024 (demo_state False 7) = (Some (-1), demo_state False 7) \<and>
   rtc_write 64 (demo_state False 7) =
     (Some 0, upd_terminal_active (\<lambda>t. t\<lparr>rtc_freq_bit := 3\<rparr>) (demo_state False 7))"
  using rtc_write_spec[of 1024 "demo_state False 7" 6] by simp

lemma rtc_read_returns_witness:
  "\<exists>n. 0 < n \<and> n \<le> 256 \<and> rtc_read_ready ((RTC_Handler ^^ n) (rtc_read_begin (demo_state False 7)))"
proof -
  have "TA_idx (demo_state False 7) < MAX_TERMINALS" "MAX_TERMINALS \<le> length (terminal_arr (demo_state False 7))"
    "rtc_freq_bit (terminal_active (demo_state False 7)) = 8"
    by (simp_all add: demo_state_def MAX_TERMINALS_def terminal_active_def init_terminal_def)
  then show ?thesis using rtc_read_returns[of "demo_state False 7"] by simp
qed

lemma demo_fd_inv: "fd_inv (pcbs (demo_state b a) 0)"
  unfolding fd_inv_def by (simp add: demo_state_def demo_pcb_def MAX_FDS_def upt_rec bit_three
      stdin_file_desc_def stdout_file_desc_def)

lemma demo_types_ok: "types_ok demo_disk"
  by (simp add: types_ok_def demo_disk_def)

lemma demo_open:
  "open_syscall demo_disk ''shell'' (demo_state b a) =
     (Sys_ret 2 [], snd (open_syscall demo_disk ''shell'' (demo_state b a)))"
proof -
  have c: "current_PCB (demo_state b a) = Some 0" by (simp add: demo_state_def)
  have f: "find_free_fd (open_files (pcbs (demo_state b a) 0)) = Some 2"
    by (simp add: demo_state_def demo_pcb_def find_free_fd_def MAX_FDS_def upt_rec bit_three)
  show ?thesis using open_success[OF c f demo_dentry] by auto
qed

lemma open_sets_one_bit_witness:
  "fst (open_syscall demo_disk ''shell'' (demo_state False 7)) = Sys_ret 2 [] \<and>
   open_files (pcbs (snd (open_syscall demo_disk ''shell'' (demo_state False 7))) 0) = 7"
proof -
  have c: "current_PCB (demo_state False 7) = Some 0" by (simp add: demo_state_def)
  obtain fd where "(2::i32) = int fd" and
    "open_files (pcbs (snd (open_syscall demo_disk ''shell'' (demo_state False 7))) 0) =
       open_files (pcbs (demo_state False 7) 0) OR 2 ^ fd"
    using open_sets_one_bit[OF c demo_open _ demo_types_ok] by auto
  moreover have "fst (open_syscall demo_disk ''shell'' (demo_state False 7)) = Sys_ret 2 []"
    by (subst demo_open) simp
  moreover have "open_files (pcbs (demo_state False 7) 0) = 3" by (simp add: demo_state_def demo_pcb_def)
  ultimately show ?thesis by simp
qed

lemma open_close_roundtrip_witness:
  "fst (close_syscall 2 (snd (open_syscall demo_disk ''shell'' (demo_state False 7)))) = Sys_ret 0 [] \<and>
   open_files (pcbs (snd (close_syscall 2 (snd (open_syscall demo_disk ''shell'' (demo_state False 7))))) 0) = 3"
proof -
  have c: "current_PCB (demo_state False 7) = Some 0" by (simp add: demo_state_def)
  have l: "length (file_desc_arr (pcbs (demo_state False 7) 0)) = MAX_FDS"
    by (simp add: demo_state_def demo_pcb_def MAX_FDS_def)
  show ?thesis
    using open_close_roundtrip[OF c demo_open _ demo_types_ok l]
    by (auto simp: demo_state_def demo_pcb_def)
qed

lemma fd_inv_preserved_witness:
  "current_PCB (snd (fd_syscall demo_disk (Call_open ''shell'') (demo_state False 7))) = Some 0 \<and>
   fd_inv (pcbs (snd (fd_syscall demo_disk (Call_open ''shell'') (demo_state False 7))) 0)"
proof -
  have c: "current_PCB (demo_state False 7) = Some 0" by (simp add: demo_state_def)
  show ?thesis using fd_inv_preserved[OF c demo_fd_inv demo_types_ok] by (metis prod.collapse)
qed

lemma fd_syscall_no_null_witness:
  "fst (fd_syscall demo_disk (Call_close 1) (demo_state False 7)) \<noteq> Sys_null"
proof -
  have c: "current_PCB (demo_state False 7) = Some 0" by (simp add: demo_state_def)
  show ?thesis using fd_syscall_no_null[OF c demo_fd_inv demo_types_ok] by blast
qed

lemma demo_enter:
  "execute demo_disk ''shell'' 100 (demo_state False 7) =
     (Exec_enter 0x12345678, snd (execute demo_disk ''shell'' 100 (demo_state False 7)))"
  by (rule demo_execute[where p = 3]) (simp add: demo_state_def demo_free_pid)

lemma demo_enter_state:
  "currentPID (snd (execute demo_disk ''shell'' 100 (demo_state False 7))) = 3 \<and>
   current_PCB (snd (execute demo_disk ''shell'' 100 (demo_state False 7))) = Some 3 \<and>
   open_files (pcbs (snd (execute demo_disk ''shell'' 100 (demo_state False 7))) 3) = 3 \<and>
   parent_ebp (pcbs (snd (execute demo_disk ''shell'' 100 (demo_state False 7))) 3) = 100"
proof -
  obtain pid args mem where fp: "find_free_pid (activeProcesses (demo_state False 7)) = Some pid"
    and s': "snd (execute demo_disk ''shell'' 100 (demo_state False 7)) = exec_state pid args 100 mem (demo_state False 7)"
    using execute_enter_shape[OF demo_enter] by blast
  have pid: "pid = 3" using fp by (simp add: demo_state_def demo_free_pid)
  show ?thesis
    by (simp add: s' pid exec_state_def publish_terminal_def upd_terminal_active_def new_pcb_def)
qed

lemma execute_fail_no_leak_witness:
  "fst (execute demo_dir_disk ''shell'' 0 (demo_state False 7)) = Exec_fail \<and>
   paging (snd (execute demo_dir_disk ''shell'' 0 (demo_state False 7))) = paging (demo_state False 7) \<and>
   activeProcesses (snd (execute demo_dir_disk ''shell'' 0 (demo_state False 7))) = 7"
proof -
  have d: "read_dentry_by_name demo_dir_disk ''shell'' = Some \<lparr>file_name = ''shell'', file_type = 1, inode_idx = 0\<rparr>"
    by (simp add: read_dentry_by_name_def demo_dir_disk_def demo_disk_def find_dentry.simps strncmp_eq_def)
  have b: "blk (fs\<lparr>file_dir_arr := x\<rparr>) = blk fs" for fs x by (intro ext) (simp add: blk_def)
  have rd: "read_data (fs\<lparr>file_dir_arr := x\<rparr>) = read_data fs" for fs x
    by (intro ext) (simp add: read_data_def b Let_def)
  have m: "read_data demo_dir_disk 0 1 3 = RD_Ok 3 (map of_char ''ELF'')"
    unfolding demo_dir_disk_def rd by (rule demo_magic)
  have g: "get_file_length demo_dir_disk ''shell'' = None"
    unfolding get_file_length_def d by (simp add: REGULAR_FILE_TYPE_def)
  have a: "activeProcesses (demo_state False 7) = 7" "currentPID (demo_state False 7) = 0"
    by (simp_all add: demo_state_def)
  have f: "fst (execute demo_dir_disk ''shell'' 0 (demo_state False 7)) = Exec_fail"
    using d m g a by (simp add: execute_def parse_command_shell Let_def demo_free_pid)
  have ex: "execute demo_dir_disk ''shell'' 0 (demo_state False 7) =
              (Exec_fail, snd (execute demo_dir_disk ''shell'' 0 (demo_state False 7)))"
    using f by (metis prod.collapse)
  note nl = execute_fail_no_leak[OF ex]
  have p0: "set_user_page (currentPID (demo_state False 7)) (paging (demo_state False 7)) = paging (demo_state False 7)"
    by (simp add: demo_state_def set_user_page_twice)
  have "activeProcesses (snd (execute demo_dir_disk ''shell'' 0 (demo_state False 7))) = activeProcesses (demo_state False 7)"
    using arg_cong[OF conjunct1[OF nl], of activeProcesses] by simp
  moreover have "paging (snd (execute demo_dir_disk ''shell'' 0 (demo_state False 7))) = paging (demo_state False 7)"
    using conjunct2[OF nl] p0 by auto
  ultimately show ?thesis using f a by simp
qed

lemma execute_fresh_fds_witness:
  "open_files (pcbs (snd (execute demo_disk ''shell'' 100 (demo_state False 7))) 3) = 3 \<and>
   fd_inv (pcbs (snd (execute demo_disk ''shell'' 100 (demo_state False 7))) 3)"
proof -
  have l: "\<forall>p. length (file_desc_arr (pcbs (demo_state False 7) p)) = MAX_FDS"
    by (simp add: demo_state_def demo_pcb_def MAX_FDS_def)
  show ?thesis using execute_fresh_fds[OF demo_enter l] demo_enter_state by simp
qed

lemma fault_exit_256_witness:
  "fst (fault_handler demo_disk Page_Fault 0 (snd (execute demo_disk ''shell'' 100 (demo_state False 7)))) =
     Fault_halt (Halt_return 100 256)"
proof -
  let ?s = "snd (execute demo_disk ''shell'' 100 (demo_state False 7))"
  have c: "current_PCB ?s = Some (currentPID ?s)" "MAX_TERMINALS \<le> currentPID ?s"
    using demo_enter_state by (simp_all add: MAX_TERMINALS_def)
  have cl: "closes_defined (pcbs ?s (currentPID ?s))"
    using demo_enter_state by (simp add: closes_defined_fresh)
  show ?thesis using fault_exit_256[OF _ c cl, of Page_Fault demo_disk 0] demo_enter_state by auto
qed

lemma open_unknown_type_null_witness:
  "fst (open_syscall demo_odd_disk ''shell'' (demo_state False 7)) = Sys_null"
proof -
  have c: "current_PCB (demo_state False 7) = Some 0" by (simp add: demo_state_def)
  have f: "find_free_fd (open_files (pcbs (demo_state False 7) 0)) = Some 2"
    by (simp add: demo_state_def demo_pcb_def find_free_fd_def MAX_FDS_def upt_rec bit_three)
  have d: "read_dentry_by_name demo_odd_disk ''shell'' = Some \<lparr>file_name = ''shell'', file_type = 5, inode_idx = 0\<rparr>"
    by (simp add: read_dentry_by_name_def demo_odd_disk_def demo_disk_def find_dentry.simps strncmp_eq_def)
  have n: "fops_table_ptr (file_desc_arr (pcbs (demo_state False 7) 0) ! 2) = None"
    by (simp add: demo_state_def demo_pcb_def)
  show ?thesis using open_unknown_type_null[OF c f d _ n] by simp
qed

lemma getargs_truncates_witness:
  "getargs 3 demo_args_state = (Sys_ret 0 (map of_char ''hel''), demo_args_state)"
proof -
  have c: "current_PCB demo_args_state = Some 0" by (simp add: demo_args_state_def demo_state_def)
  have a: "cmd_args (pcbs demo_args_state 0) = ''hello''" by (simp add: demo_args_state_def)
  show ?thesis using getargs_truncates[OF c, of 3] a by simp
qed

lemma vidmap_straddle_faults_witness:
  "fst (vidmap 0x083FFFFE (demo_state False 7)) = Sys_overrun"
proof -
  have c: "current_PCB (demo_state False 7) = Some 0" by (simp add: demo_state_def)
  have np: "\<not> pte_present (user_page_table (cur (paging (demo_state False 7))) 0)"
    by (simp add: demo_state_def set_user_page_def flush_tlb_def init_Paging_def Let_def SET_PT_ENTRY_def)
  show ?thesis using vidmap_straddle_faults[OF c np] by simp
qed
lemma demo_sched_inv: "sched_inv (demo_state b a)"
  by (simp add: sched_inv_def demo_state_def MAX_TERMINALS_def init_terminal_def list_all_iff)

lemma demo_pit_enter:
  assumes "pit_counter s < 3" "find_free_pid (activeProcesses s) = Some p"
  shows "PIT_Handler demo_disk e s = (Pit_enter 0x12345678, snd (PIT_Handler demo_disk e s))"
proof -
  obtain s3 where a: "activeProcesses s3 = activeProcesses s" and h: "PIT_Handler demo_disk e s =
      (case execute demo_disk ''shell'' e s3 of (Exec_enter e', s4) \<Rightarrow> (Pit_enter e', s4) | (Exec_UB, s4) \<Rightarrow> (Pit_UB, s4)
       | (Exec_fail, s4) \<Rightarrow> pit_round_robin s4)"
    using pit_boot_execute[OF assms(1)] by blast
  define s4 where "s4 = snd (execute demo_disk ''shell'' e s3)"
  have "execute demo_disk ''shell'' e s3 = (Exec_enter 0x12345678, s4)"
    unfolding s4_def using assms(2) a by (intro demo_execute) simp
  then have "PIT_Handler demo_disk e s = (Pit_enter 0x12345678, s4)" using h by simp
  then show ?thesis by simp
qed

lemma pit_fair_witness:
  "sched_inv (demo_state False 7) \<and> length [0, 0, 0 :: u32] = 3 * 1 \<and> (1::nat) < MAX_TERMINALS \<and>
   count (mset (pit_trace demo_disk [0, 0, 0] (demo_state False 7))) 1 = 1"
  using pit_fair[OF demo_sched_inv, where es = "[0, 0, 0]" and K = 1 and i = 1 and fs = demo_disk] demo_sched_inv
  by (simp add: MAX_TERMINALS_def)

lemma pit_resume_saved_frame_witness:
  "sched_inv (demo_state False 7) \<and>
   (\<exists>s'. pit_run demo_disk [5, 6, 7] (demo_state False 7) = ([Pit_switch 0, Pit_switch 0, Pit_switch 5], s') \<and>
        TA_idx s' = 0 \<and> sched_inv s')"
proof -
  have z: "saved_ebp (terminal_arr (demo_state False 7) ! Suc 0) = 0"
    "saved_ebp (terminal_arr (demo_state False 7) ! Suc (Suc 0)) = 0" "TA_idx (demo_state False 7) = 0"
    by (simp_all add: demo_state_def MAX_TERMINALS_def init_terminal_def)
  show ?thesis using pit_resume_saved_frame[OF demo_sched_inv[of False 7], of demo_disk 5 6 7] demo_sched_inv[of False 7]
    by (simp add: z MAX_TERMINALS_def)
qed

lemma demo_boot_facts: "pit_counter demo_boot = 0" "activeProcesses demo_boot = 0"
  "length (terminal_arr demo_boot) = MAX_TERMINALS" "TA_idx demo_boot = 0"
  "list_all (\<lambda>t. t_currentPCB t \<noteq> None) (terminal_arr demo_boot)" "current_PCB demo_boot = None"
  by (simp_all add: demo_boot_def demo_state_def MAX_TERMINALS_def init_terminal_def list_all_iff)

lemma pit_boot_sequence_witness:
  "pit_run demo_disk [0, 0, 0] demo_boot =
     ([Pit_enter 0x12345678, Pit_enter 0x12345678, Pit_enter 0x12345678], snd (pit_run demo_disk [0, 0, 0] demo_boot)) \<and>
   pit_trace demo_disk [0, 0, 0] demo_boot = [0, 1, 2] \<and> sched_inv (snd (pit_run demo_disk [0, 0, 0] demo_boot)) \<and>
   activeProcesses (snd (pit_run demo_disk [0, 0, 0] demo_boot)) = 7"
proof -
  note b = demo_boot_facts
  define s1 where "s1 = snd (PIT_Handler demo_disk 0 demo_boot)"
  define s2 where "s2 = snd (PIT_Handler demo_disk 0 s1)"
  define s3 where "s3 = snd (PIT_Handler demo_disk 0 s2)"
  have f: "find_free_pid 0 = Some 0" "find_free_pid 1 = Some 1" "find_free_pid 3 = Some 2"
    by (simp_all add: find_free_pid_def MAX_PROCESSES_def upt_rec)
  have m: "mask (Suc 0) = (1::u32)" "mask (Suc (Suc 0)) = (3::u32)" by (simp_all add: mask_eq_exp_minus_1)
  have f0: "find_free_pid (activeProcesses demo_boot) = Some 0" using b f by simp
  have p1: "PIT_Handler demo_disk 0 demo_boot = (Pit_enter 0x12345678, s1)"
    unfolding s1_def using b f0 by (intro demo_pit_enter) simp_all
  have c1: "pit_counter s1 = 1" "activeProcesses s1 = 1" "TA_idx s1 = 0" "current_PCB s1 = Some 0"
    "length (terminal_arr s1) = MAX_TERMINALS" "list_all (\<lambda>t. t_currentPCB t \<noteq> None) (terminal_arr s1)"
    using pit_boot_step[of demo_boot 0, OF _ _ _ _ _ _ _ p1] b m by (simp_all add: MAX_TERMINALS_def)
  have p2: "PIT_Handler demo_disk 0 s1 = (Pit_enter 0x12345678, s2)"
    unfolding s2_def using c1 f by (intro demo_pit_enter) simp_all
  have c2: "pit_counter s2 = 2" "activeProcesses s2 = 3" "TA_idx s2 = 1" "current_PCB s2 = Some 1"
    "length (terminal_arr s2) = MAX_TERMINALS" "list_all (\<lambda>t. t_currentPCB t \<noteq> None) (terminal_arr s2)"
    using pit_boot_step[of s1 1, OF _ _ _ _ _ _ _ p2] c1 m by (simp_all add: MAX_TERMINALS_def)
  have p3: "PIT_Handler demo_disk 0 s2 = (Pit_enter 0x12345678, s3)"
    unfolding s3_def using c2 f by (intro demo_pit_enter) simp_all
  have run: "pit_run demo_disk [0, 0, 0] demo_boot =
      ([Pit_enter 0x12345678, Pit_enter 0x12345678, Pit_enter 0x12345678], s3)"
    by (simp add: p1 p2 p3)
  show ?thesis
    using pit_boot_sequence[OF b(1-5) run] run by simp
qed

lemma pit_tick_binds_pages_witness:
  "sched_inv (demo_state False 7) \<and> in_user_window 0x08000010 \<and>
   translate (paging (snd (PIT_Handler demo_disk 0 (demo_state False 7)))) True 0x08000010 =
     Some (user_frame (currentPID (snd (PIT_Handler demo_disk 0 (demo_state False 7)))) + 0x10)"
proof -
  have w: "in_user_window 0x08000010" by (simp add: in_user_window_def layout_defs)
  show ?thesis
    using pit_tick_binds_pages[OF demo_sched_inv w prod.collapse[symmetric]] demo_sched_inv w
    by (simp add: layout_defs)
qed
lemma pit_boot_no_shell_witness:
  "read_dentry_by_name demo_fs ''shell'' = None \<and>
   fst (PIT_Handler demo_fs 0 (init_PIT (init_terminals (demo_state False 7)))) = Pit_switch 0"
proof -
  have d: "read_dentry_by_name demo_fs ''shell'' = None"
    by (simp add: read_dentry_by_name_def demo_fs_def find_dentry.simps strncmp_eq_def)
  show ?thesis using pit_boot_no_shell[OF d, of 0 "demo_state False 7"] d by (metis fst_conv)
qed
lemma demo_kbd_inv: "kbd_inv (demo_state b a)"
  by (simp add: kbd_inv_def demo_state_def MAX_TERMINALS_def init_terminal_def kbd_buf_ok_def list_all_iff)

lemma demo_alt_inv: "alt_inv kbd_init"
  by (simp add: alt_inv_def kbd_init_def)

lemma kbd_handler_invariants_witness:
  "kbd_inv (snd (fst (Keyboard_Handler 0x1E kbd_init (demo_state False 7)))) \<and>
   alt_inv (fst (fst (Keyboard_Handler 0x1E kbd_init (demo_state False 7)))) \<and>
   length (snd (Keyboard_Handler 0x1E kbd_init (demo_state False 7))) \<le> 1"
proof -
  have r: "Keyboard_Handler 0x1E kbd_init (demo_state False 7) =
      ((fst (fst (Keyboard_Handler 0x1E kbd_init (demo_state False 7))), snd (fst (Keyboard_Handler 0x1E kbd_init (demo_state False 7)))),
       snd (Keyboard_Handler 0x1E kbd_init (demo_state False 7)))" by simp
  show ?thesis using kbd_handler_invariants[OF demo_kbd_inv demo_alt_inv r] by simp
qed

lemma alt_chord_no_input_witness:
  "snd (Keyboard_Handler 0x3C \<lparr>shiftcaps = 8, keycode = 0\<rparr> (demo_state False 7)) = [] \<and>
   TS_idx (snd (fst (Keyboard_Handler 0x3C \<lparr>shiftcaps = 8, keycode = 0\<rparr> (demo_state False 7)))) = 1"
proof -
  have a: "alt_inv \<lparr>shiftcaps = 8, keycode = 0\<rparr>" "0 < shiftcaps \<lparr>shiftcaps = 8, keycode = 0\<rparr> AND 8"
    by (simp_all add: alt_inv_def)
  have r: "Keyboard_Handler 0x3C \<lparr>shiftcaps = 8, keycode = 0\<rparr> (demo_state False 7) =
      ((fst (fst (Keyboard_Handler 0x3C \<lparr>shiftcaps = 8, keycode = 0\<rparr> (demo_state False 7))),
        snd (fst (Keyboard_Handler 0x3C \<lparr>shiftcaps = 8, keycode = 0\<rparr> (demo_state False 7)))),
       snd (Keyboard_Handler 0x3C \<lparr>shiftcaps = 8, keycode = 0\<rparr> (demo_state False 7)))" by simp
  show ?thesis using alt_chord_no_input[OF a _ r] by (simp add: MAX_TERMINALS_def)
qed

lemma kbd_letter_case_witness:
  "snd (Keyboard_Handler 0x1E \<lparr>shiftcaps = 2, keycode = 0\<rparr> (demo_state False 7)) = [0x41]"
proof -
  have l: "kbd_letter (codeASCIINS ! unat (0x1E::u8))" by (simp add: codeASCIINS_def kbd_letter_def)
  have i: "keyboard_idx (terminal_shown (demo_state False 7)) < 127"
    by (simp add: demo_state_def terminal_shown_def init_terminal_def MAX_TERMINALS_def)
  have c: "codeASCIINS ! unat (0x1E::u8) = 0x61" by (simp add: codeASCIINS_def)
  have b: "bit (2::u8) 1 \<noteq> bit (2::u8) 0" by simp
  have r: "Keyboard_Handler 0x1E \<lparr>shiftcaps = 2, keycode = 0\<rparr> (demo_state False 7) =
      ((fst (fst (Keyboard_Handler 0x1E \<lparr>shiftcaps = 2, keycode = 0\<rparr> (demo_state False 7))),
        snd (fst (Keyboard_Handler 0x1E \<lparr>shiftcaps = 2, keycode = 0\<rparr> (demo_state False 7)))),
       snd (Keyboard_Handler 0x1E \<lparr>shiftcaps = 2, keycode = 0\<rparr> (demo_state False 7)))" by simp
  show ?thesis
    using kbd_letter_case[OF demo_kbd_inv _ l _ _ i r] c b by simp
qed

lemma typed_line_read_witness:
  "fst (terminal_read_copy (upd_terminal_active (kbd_type [0x68, 0x69, 10]) (terminal_read_begin (demo_state False 7)))) =
     (3, [0x68, 0x69, 10])"
  using typed_line_read[OF demo_kbd_inv, of "[0x68, 0x69]"] by simp
lemma demo_pic_ready: "pic_ready demo_pic"
  by (simp add: pic_ready_def demo_pic_def demo_chip_def)

lemma irq_mask_bits_witness:
  "imr (master (enable_irq 1 demo_pic)) = 0xFD \<and> imr (slave (enable_irq 1 demo_pic)) = 0xFF \<and>
   imr (master (disable_irq 1 demo_pic)) = 0xFF"
proof -
  note e = irq_mask_bits[OF demo_pic_ready, of 1]
  have "imr (master (enable_irq 1 demo_pic)) = 0xFD"
    by (rule u8_eq_by_bits) (use e in \<open>simp add: upt_rec demo_pic_def demo_chip_def bit_FF_u8\<close>)
  moreover have "imr (slave (enable_irq 1 demo_pic)) = 0xFF"
    by (rule u8_eq_by_bits) (use e in \<open>simp add: upt_rec demo_pic_def demo_chip_def bit_FF_u8\<close>)
  moreover have "imr (master (disable_irq 1 demo_pic)) = 0xFF"
    by (rule u8_eq_by_bits) (use e in \<open>simp add: upt_rec demo_pic_def demo_chip_def bit_FF_u8\<close>)
  ultimately show ?thesis by blast
qed

lemma idt_gate_layout_witness:
  "bit (snd (idt_val (set_gate Trap_gate 0x00401234 0x10 3 1 demo_desc))) 8 \<and>
   bit (snd (idt_val (set_gate Trap_gate 0x00401234 0x10 3 1 demo_desc))) 14 \<and>
   idt_handler (set_gate Trap_gate 0x00401234 0x10 3 1 demo_desc) = 0x00401234"
  using idt_gate_layout[of Trap_gate "0x00401234" "0x10" 3 demo_desc] by simp

lemma demo_idt_length: "length (replicate 256 demo_desc) = NUM_VEC"
  by (simp add: NUM_VEC_def)

lemma idt_user_vectors_witness:
  "present (fst (populate_IDT demo_addr (replicate 256 demo_desc, demo_state False 7)) ! 0x80) = 1 \<and>
   dpl (fst (populate_IDT demo_addr (replicate 256 demo_desc, demo_state False 7)) ! 0x80) = 3 \<and>
   present (fst (populate_IDT demo_addr (replicate 256 demo_desc, demo_state False 7)) ! 0x30) \<noteq> 1"
proof -
  note c = idt_user_vectors[OF demo_idt_length, of demo_addr "demo_state False 7"]
  have "present (fst (populate_IDT demo_addr (replicate 256 demo_desc, demo_state False 7)) ! 0x80) = 1 \<and>
        dpl (fst (populate_IDT demo_addr (replicate 256 demo_desc, demo_state False 7)) ! 0x80) = 3"
    using c[THEN conjunct2, THEN conjunct2, rule_format, of "0x80"] by (simp add: NUM_VEC_def)
  moreover have "present (fst (populate_IDT demo_addr (replicate 256 demo_desc, demo_state False 7)) ! 0x30) \<noteq> 1"
    using c[THEN conjunct2, THEN conjunct1, rule_format, of "0x30"] by (simp add: NUM_VEC_def)
  ultimately show ?thesis by blast
qed

lemma idt_dispatch_witness:
  "idt_handler (fst (populate_IDT demo_addr (replicate 256 demo_desc, demo_state False 7)) ! 0x80) = 0x00401234 \<and>
   idt_handler (fst (populate_IDT demo_addr (replicate 256 demo_desc, demo_state False 7)) ! 0x0E) = 0x00405678"
proof -
  have v: "idt_vector 0x0E = Some Page_Fault" "0x0E < length idt_faults" by (simp_all add: idt_vector_def idt_faults_def)
  show ?thesis
    using idt_dispatch[OF demo_idt_length, where addr = demo_addr and s = "demo_state False 7" and pic = demo_pic and f = Page_Fault] v
    by (simp add: demo_addr_def)
qed
lemma seg_params_roundtrip_witness:
  "seg_base (SET_TSS_PARAMS demo_tss_desc 0x00C01000 (of_nat TSS_SIZE - 1)) = 0x00C01000 \<and>
   seg_limit (SET_TSS_PARAMS demo_tss_desc 0x00C01000 (of_nat TSS_SIZE - 1)) = 0x67 \<and>
   seg_type (SET_TSS_PARAMS demo_tss_desc 0x00C01000 (of_nat TSS_SIZE - 1)) = 9 \<and>
   seg_present (SET_TSS_PARAMS demo_tss_desc 0x00C01000 (of_nat TSS_SIZE - 1)) = 1"
  using seg_params_roundtrip[of SET_TSS_PARAMS demo_tss_desc "0x00C01000" "of_nat TSS_SIZE - 1"]
  by (simp add: demo_tss_desc_def TSS_SIZE_def)

lemma init_RTC_programs_chip_witness:
  "rtc_counter (fst (init_RTC_dev (demo_state False 7) demo_cmos demo_pic)) = 0 \<and>
   cmos_regs (fst (snd (init_RTC_dev (demo_state False 7) demo_cmos demo_pic))) 0x0B = 0x42 \<and>
   cmos_regs (fst (snd (init_RTC_dev (demo_state False 7) demo_cmos demo_pic))) 0x0A = 0x27 \<and>
   cmos_regs (fst (snd (init_RTC_dev (demo_state False 7) demo_cmos demo_pic))) 0x0D = 0x80 \<and>
   \<not> bit (imr (slave (snd (snd (init_RTC_dev (demo_state False 7) demo_cmos demo_pic))))) 0"
  using init_RTC_programs_chip[of "demo_state False 7" demo_cmos demo_pic] demo_pic_ready
  by (simp add: demo_cmos_def)

lemma boot_devices_witness:
  "imr (master (dev_pic (fold dev_init_step [Init_PIT, Init_Keyboard, Init_RTC]
      (demo_devs\<lparr>dev_pic := i8259_init (dev_pic demo_devs)\<rparr>)))) = 0xF8 \<and>
   pit_hz (dev_pit (fold dev_init_step [Init_PIT, Init_Keyboard, Init_RTC]
      (demo_devs\<lparr>dev_pic := i8259_init (dev_pic demo_devs)\<rparr>))) = 100"
proof -
  have o: "set [Init_PIT, Init_Keyboard, Init_RTC] = {Init_Keyboard, Init_RTC, Init_PIT}" by auto
  show ?thesis using boot_devices[OF o, of demo_devs] by simp
qed

lemma handlers_eoi_witness:
  "ocw_log (master (snd (snd (Keyboard_Handler_dev 0x1E kbd_init (demo_state False 7) demo_pic)))) = [0x61] \<and>
   ocw_log (slave (snd (snd (RTC_Handler_dev (demo_state False 7) demo_cmos demo_pic)))) = [0x60] \<and>
   ocw_log (master (snd (snd (RTC_Handler_dev (demo_state False 7) demo_cmos demo_pic)))) = [0x62]"
  using handlers_eoi[OF demo_pic_ready, where fs = demo_disk and ebp = 0 and s = "demo_state False 7"
      and code = "0x1E" and k = kbd_init and c = demo_cmos]
  by (simp add: demo_pic_def demo_chip_def)

lemma backspace_cursor_witness:
  "screen_x (backspace demo_bs_state) = 79 \<and> screen_y (backspace demo_bs_state) = 0"
proof -
  have x: "screen_x demo_bs_state < NUM_COLS" by (simp add: demo_bs_state_def NUM_COLS_def)
  have j: "bs_erase_count (if keyboard_idx (terminal_shown demo_bs_state) \<noteq> 0
      then keyboard_buffer (terminal_shown demo_bs_state) ! (keyboard_idx (terminal_shown demo_bs_state) - 1) else 0) = 1"
    by (simp add: demo_bs_state_def demo_state_def terminal_shown_def bs_erase_count_def)
  have p: "screen_x demo_bs_state = 0" "screen_y demo_bs_state = 1" by (simp_all add: demo_bs_state_def)
  have "screen_x (backspace demo_bs_state) < 80 \<and>
      screen_y (backspace demo_bs_state) * 80 + screen_x (backspace demo_bs_state) + 1 = 80"
    using backspace_cursor[OF x] unfolding j p NUM_COLS_def by simp
  then show ?thesis by presburger
qed

end
